(* ===== verification/Prelude.thy ===== *)
theory Prelude
  imports Main "HOL-Library.AList" "HOL-Library.Product_Lexorder" "HOL-Library.Multiset"
begin

text \<open>
  Shared vocabulary of the AgentChat model: the JavaScript values and idioms the server
  code relies on (truthiness of fields, \<open>x || d\<close>, \<open>x ?? d\<close>, \<open>startsWith\<close>,
  \<open>toLowerCase\<close>, \<open>trim\<close>, \<open>split(' ')\<close> with \<open>join(' ')\<close>, \<open>parseInt(_, 10)\<close> with
  a decimal printer as its reference), insertion-ordered JavaScript \<open>Set\<close>s as duplicate-free
  lists, the exception-propagating bind on \<open>'e + 'a\<close>, and the lemmas on them that the
  component theories use.
\<close>

named_theorems js_simps "evaluation rules of the JavaScript helper operations"
named_theorems alist_simps "lookup facts of association lists used by the component proofs"
named_theorems reg_inv_rules "operations that preserve the room-registry invariant"
named_theorems integrity_rules "operations that preserve the referential integrity of the server state"

type_synonym conn_id = nat
type_synonym username = string
type_synonym token = string

section \<open>Definitions\<close>

text \<open>
  A JSON value as \<open>JSON.parse\<close> produces it (numbers restricted to integers). Fields the
  handlers use as names (user, room, password, ...) are modelled as \<open>string option\<close>:
  \<open>None\<close> is a missing field (\<open>undefined\<close>) or \<open>null\<close>.
\<close>

datatype json = JNull | JBool bool | JNum int | JStr string | JArr "json list"
  | JObj "(string \<times> json) list"

fun json_truthy :: "json \<Rightarrow> bool" where
  "json_truthy JNull = False"
| "json_truthy (JBool b) = b"
| "json_truthy (JNum n) = (n \<noteq> 0)"
| "json_truthy (JStr s) = (s \<noteq> [])"
| "json_truthy (JArr _) = True"
| "json_truthy (JObj _) = True"

definition truthy :: "string option \<Rightarrow> bool" where
  "truthy v = (case v of None \<Rightarrow> False | Some s \<Rightarrow> s \<noteq> [])"

definition str_or :: "string option \<Rightarrow> string \<Rightarrow> string" where
  \<comment> \<open>\<open>v || d\<close> on a string field\<close>
  "str_or v d = (case v of Some s \<Rightarrow> if s \<noteq> [] then s else d | None \<Rightarrow> d)"

definition json_or :: "json option \<Rightarrow> json \<Rightarrow> json" where
  \<comment> \<open>\<open>v || d\<close> on a JSON field (metadata)\<close>
  "json_or v d = (case v of Some j \<Rightarrow> if json_truthy j then j else d | None \<Rightarrow> d)"

definition int_or :: "int option \<Rightarrow> int \<Rightarrow> int" where
  \<comment> \<open>\<open>v || d\<close> on a numeric field\<close>
  "int_or v d = (case v of Some n \<Rightarrow> if n \<noteq> 0 then n else d | None \<Rightarrow> d)"

definition nullish_or :: "string option \<Rightarrow> string \<Rightarrow> string" where
  \<comment> \<open>\<open>v ?? d\<close>: only \<open>undefined\<close>/\<open>null\<close> fall back\<close>
  "nullish_or v d = (case v of Some s \<Rightarrow> s | None \<Rightarrow> d)"

definition starts_with :: "string \<Rightarrow> string \<Rightarrow> bool" where
  \<comment> \<open>\<open>s.startsWith(p)\<close>\<close>
  "starts_with p s \<longleftrightarrow> take (length p) s = p"

definition ends_with :: "string \<Rightarrow> string \<Rightarrow> bool" where
  \<comment> \<open>\<open>s.endsWith(p)\<close>\<close>
  "ends_with p s \<longleftrightarrow> length p \<le> length s \<and> drop (length s - length p) s = p"

fun join_with :: "string \<Rightarrow> string list \<Rightarrow> string" where
  \<comment> \<open>\<open>xs.join(sep)\<close>\<close>
  "join_with sep [] = []"
| "join_with sep [x] = x"
| "join_with sep (x # xs) = x @ sep @ join_with sep xs"

fun split_on :: "char \<Rightarrow> string \<Rightarrow> string list" where
  \<comment> \<open>\<open>s.split(sep)\<close> for a one-character separator; never empty\<close>
  "split_on c [] = [[]]"
| "split_on c (x # xs) = (let r = split_on c xs in if x = c then [] # r else (x # hd r) # tl r)"

definition lower_char :: "char \<Rightarrow> char" where
  \<comment> \<open>\<open>toLowerCase\<close> on one character; ASCII letters only\<close>
  "lower_char c = (let n = (of_char c :: nat) in if 65 \<le> n \<and> n \<le> 90 then char_of (n + 32) else c)"

definition to_lower :: "string \<Rightarrow> string" where
  "to_lower s = map lower_char s"

definition is_js_space :: "char \<Rightarrow> bool" where
  \<comment> \<open>the ASCII members of ECMAScript's WhiteSpace and LineTerminator\<close>
  "is_js_space c \<longleftrightarrow> of_char c \<in> {9, 10, 11, 12, 13, (32::nat)}"

definition trim :: "string \<Rightarrow> string" where
  \<comment> \<open>\<open>s.trim()\<close>\<close>
  "trim s = rev (dropWhile is_js_space (rev (dropWhile is_js_space s)))"

text \<open>
  A JavaScript \<open>Set\<close> iterates in insertion order: \<open>add\<close> appends an absent element
  and leaves a present one in place, \<open>delete\<close> removes it, and \<open>[...new Set(xs)]\<close>
  keeps the first occurrence of each element.
\<close>

definition set_add :: "'a \<Rightarrow> 'a list \<Rightarrow> 'a list" where
  "set_add x xs = (if x \<in> set xs then xs else xs @ [x])"

definition set_delete :: "'a \<Rightarrow> 'a list \<Rightarrow> 'a list" where
  "set_delete x xs = removeAll x xs"

definition dedup :: "'a list \<Rightarrow> 'a list" where
  "dedup xs = fold set_add xs []"

text \<open>
  A handler that may throw returns \<open>'e + 'a\<close>: \<open>Inl\<close> is the exception, which
  propagates out of every enclosing step, as \<open>throw\<close> does.
\<close>

definition sbind :: "'e + 'a \<Rightarrow> ('a \<Rightarrow> 'e + 'b) \<Rightarrow> 'e + 'b" where
  "sbind r f = (case r of Inl e \<Rightarrow> Inl e | Inr a \<Rightarrow> f a)"

text \<open>
  JavaScript \<open>Map\<close>s (room registry, token table) and the server's client set are
  association lists in insertion order; \<open>AList.update\<close> keeps the position of a present
  key and appends a new one, as \<open>Map.set\<close> does.
\<close>

text \<open>
  \<open>parseInt(s, 10)\<close>: leading white space is skipped, one sign is read, then the longest
  run of decimal digits; no digit is \<open>NaN\<close> (\<open>None\<close>). The value is exact here; a
  JavaScript number loses precision beyond \<open>2^53\<close>, far above any configured value.
  \<open>nat_to_dec\<close> and \<open>int_to_dec\<close> print a number in decimal; they are the reference
  the parser is checked against.
\<close>

definition is_digit :: "char \<Rightarrow> bool" where
  "is_digit c \<longleftrightarrow> (48::nat) \<le> of_char c \<and> of_char c \<le> (57::nat)"

definition dec_value :: "string \<Rightarrow> int" where
  "dec_value ds = foldl (\<lambda>n c. 10 * n + (int (of_char c) - 48)) 0 ds"

definition parseInt10 :: "string \<Rightarrow> int option" where
  "parseInt10 str =
     (let s = dropWhile is_js_space str;
          (sgn, r) = (case s of c # t \<Rightarrow> if c = CHR ''-'' then (-1, t) else if c = CHR ''+'' then (1, t) else (1, s)
                              | [] \<Rightarrow> (1, s));
          z = takeWhile is_digit r
      in if z = [] then None else Some (sgn * dec_value z))"

fun nat_to_dec :: "nat \<Rightarrow> string" where
  "nat_to_dec n = (if n < 10 then [char_of (48 + n)] else nat_to_dec (n div 10) @ [char_of (48 + n mod 10)])"

declare nat_to_dec.simps [simp del]

definition int_to_dec :: "int \<Rightarrow> string" where
  "int_to_dec i = (if i < 0 then ''-'' @ nat_to_dec (nat (- i)) else nat_to_dec (nat i))"

section \<open>Lemmas\<close>

lemma truthy_simps [simp, js_simps]:
  "truthy None = False" "truthy (Some s) = (s \<noteq> [])"
  by (simp_all add: truthy_def)

lemma str_or_simps [simp, js_simps]:
  "str_or None d = d" "str_or (Some s) d = (if s \<noteq> [] then s else d)"
  by (simp_all add: str_or_def)

lemma json_or_simps [simp, js_simps]:
  "json_or None d = d" "json_or (Some j) d = (if json_truthy j then j else d)"
  by (simp_all add: json_or_def)

lemma int_or_simps [simp, js_simps]:
  "int_or None d = d" "int_or (Some n) d = (if n \<noteq> 0 then n else d)"
  by (simp_all add: int_or_def)

lemma nullish_or_simps [simp, js_simps]:
  "nullish_or None d = d" "nullish_or (Some s) d = s"
  by (simp_all add: nullish_or_def)

lemma truthy_Some_iff: "truthy v \<longleftrightarrow> (\<exists>s. v = Some s \<and> s \<noteq> [])"
  by (cases v) auto

lemma starts_with_append [simp]: "starts_with p (p @ s)"
  by (simp add: starts_with_def)

lemma set_set_add [simp]: "set (set_add x xs) = insert x (set xs)"
  by (auto simp: set_add_def)

lemma distinct_set_add [simp]: "distinct (set_add x xs) = distinct xs"
  by (simp add: set_add_def)

lemma set_set_delete [simp]: "set (set_delete x xs) = set xs - {x}"
  by (simp add: set_delete_def)

lemma distinct_set_delete [intro]: "distinct xs \<Longrightarrow> distinct (set_delete x xs)"
  by (simp add: set_delete_def distinct_removeAll)

lemma set_add_Nil [simp, js_simps]: "set_add x [] = [x]"
  by (simp add: set_add_def)

lemma set_delete_Nil_iff: "set_delete x xs = [] \<longleftrightarrow> set xs \<subseteq> {x}"
  by (auto simp: set_delete_def removeAll_filter_not_eq filter_empty_conv)

lemma fold_set_add_set: "set (fold set_add xs acc) = set acc \<union> set xs"
  by (induction xs arbitrary: acc) auto

lemma fold_set_add_distinct: "distinct acc \<Longrightarrow> distinct (fold set_add xs acc)"
  by (induction xs arbitrary: acc) auto

lemma set_dedup [simp]: "set (dedup xs) = set xs"
  by (simp add: dedup_def fold_set_add_set)

lemma distinct_dedup [simp]: "distinct (dedup xs)"
  by (simp add: dedup_def fold_set_add_distinct)

lemma length_dedup: "length (dedup xs) = card (set xs)"
  using distinct_card [of "dedup xs"] by simp

lemma sbind_simps [simp, js_simps]:
  "sbind (Inl e) f = Inl e" "sbind (Inr a) f = f a"
  by (simp_all add: sbind_def)

lemma sbind_Inr_iff: "sbind r f = Inr b \<longleftrightarrow> (\<exists>a. r = Inr a \<and> f a = Inr b)"
  by (cases r) auto

lemma map_of_update_same [alist_simps]: "map_of (AList.update k v al) k = Some v"
  by (simp add: update_conv')

lemma map_of_update_other [alist_simps]: "k' \<noteq> k \<Longrightarrow> map_of (AList.update k v al) k' = map_of al k'"
  by (simp add: update_conv')

lemma map_of_delete_same [alist_simps]: "map_of (AList.delete k al) k = None"
  by (simp add: delete_conv')

lemma set_update_member:
  "(k', v') \<in> set (AList.update k v al) \<Longrightarrow> (k', v') = (k, v) \<or> (k', v') \<in> set al"
  by (induction al) (auto split: if_splits)

lemma set_delete_member: "x \<in> set (AList.delete k al) \<Longrightarrow> x \<in> set al \<and> fst x \<noteq> k"
  by (induction al) (auto split: if_splits)

lemma distinct_fst_update [intro]: "distinct (map fst al) \<Longrightarrow> distinct (map fst (AList.update k v al))"
  by (simp add: distinct_update)

lemma distinct_fst_delete [intro]: "distinct (map fst al) \<Longrightarrow> distinct (map fst (AList.delete k al))"
  by (simp add: distinct_delete)

lemma list_all_alist_iff:
  "distinct (map fst al) \<Longrightarrow> list_all (\<lambda>(k, v). P k v) al \<longleftrightarrow> (\<forall>k v. map_of al k = Some v \<longrightarrow> P k v)"
  by (auto simp: list_all_iff map_of_is_SomeI dest: map_of_SomeD)

lemma find_Some_mem: "find P xs = Some x \<Longrightarrow> x \<in> set xs \<and> P x"
  by (induction xs) (auto split: if_splits)

lemma map_of_Some_key: "map_of al k = Some v \<Longrightarrow> k \<in> fst ` set al"
  by (metis map_of_SomeD fst_conv image_eqI)

lemma split_on_nonempty [simp]: "split_on c s \<noteq> []"
  by (induction s) (simp_all add: Let_def)

lemma join_with_Cons: "xs \<noteq> [] \<Longrightarrow> join_with sep (x # xs) = x @ sep @ join_with sep xs"
  by (cases xs) simp_all

lemma join_split_on: "join_with [c] (split_on c s) = s"
proof (induction s)
  case (Cons x xs)
  show ?case
  proof (cases "x = c")
    case True
    then show ?thesis using Cons by (simp add: Let_def join_with_Cons)
  next
    case False
    obtain w ws where r: "split_on c xs = w # ws" by (cases "split_on c xs") auto
    show ?thesis
    proof (cases ws)
      case Nil
      then show ?thesis using False Cons r by (simp add: Let_def)
    next
      case (Cons w' ws')
      then show ?thesis using False Cons.IH r by (simp add: Let_def)
    qed
  qed
qed simp

lemma split_on_no_sep: "c \<notin> set w \<Longrightarrow> split_on c (w @ c # a) = w # split_on c a"
  by (induction w) (auto simp: Let_def)

lemma of_char_digit [simp]: "(d::nat) < 10 \<Longrightarrow> of_char (char_of (48 + d) :: char) = 48 + d"
  by (simp add: of_char_of)

lemma nat_to_dec_digits: "\<forall>c \<in> set (nat_to_dec n). is_digit c"
proof (induction n rule: nat_to_dec.induct)
  case (1 n)
  have "is_digit (char_of (48 + d))" if "d < 10" for d :: nat
    using that by (simp add: is_digit_def)
  with 1 show ?case by (subst nat_to_dec.simps) auto
qed

lemma nat_to_dec_nonempty [simp]: "nat_to_dec n \<noteq> []"
  by (subst nat_to_dec.simps) simp

lemma dec_value_snoc: "dec_value (ds @ [c]) = 10 * dec_value ds + (int (of_char c) - 48)"
  by (simp add: dec_value_def)

lemma dec_value_nat_to_dec: "dec_value (nat_to_dec n) = int n"
proof (induction n rule: nat_to_dec.induct)
  case (1 n)
  show ?case
  proof (cases "n < 10")
    case True
    then show ?thesis by (subst nat_to_dec.simps) (simp add: dec_value_def)
  next
    case False
    then have "dec_value (nat_to_dec n) = 10 * int (n div 10) + int (n mod 10)"
      using 1 by (subst nat_to_dec.simps) (simp add: dec_value_snoc)
    also have "\<dots> = int n" by (metis div_mult_mod_eq of_nat_add of_nat_mult of_nat_numeral mult.commute)
    finally show ?thesis .
  qed
qed

lemma takeWhile_digits:
  "\<forall>c \<in> set ds. is_digit c \<Longrightarrow> (rest = [] \<or> \<not> is_digit (hd rest)) \<Longrightarrow> takeWhile is_digit (ds @ rest) = ds"
  by (cases rest) (simp_all add: takeWhile_append2 takeWhile_eq_all_conv)

lemma digit_not_sign:
  "is_digit c \<Longrightarrow> c \<noteq> CHR ''-'' \<and> c \<noteq> CHR ''+'' \<and> \<not> is_js_space c"
  by (auto simp: is_digit_def is_js_space_def)

lemma nat_to_dec_Cons: "\<exists>c cs. nat_to_dec m = c # cs \<and> is_digit c \<and> (\<forall>x \<in> set cs. is_digit x)"
  using nat_to_dec_digits [of m] by (cases "nat_to_dec m") auto

lemma dropWhile_spaces:
  "list_all is_js_space ws \<Longrightarrow> \<not> is_js_space c \<Longrightarrow> dropWhile is_js_space (ws @ c # t) = c # t"
  by (induction ws) auto

lemma parseInt10_int_to_dec:
  assumes ws: "list_all is_js_space ws" and rest: "rest = [] \<or> \<not> is_digit (hd rest)"
  shows "parseInt10 (ws @ int_to_dec n @ rest) = Some n"
proof -
  obtain c cs where m: "nat_to_dec (nat \<bar>n\<bar>) = c # cs" "is_digit c" "\<forall>x \<in> set cs. is_digit x"
    using nat_to_dec_Cons by blast
  have tw: "takeWhile is_digit (c # cs @ rest) = c # cs"
    using takeWhile_digits [of "c # cs" rest] m(2,3) rest by simp
  have v: "dec_value (c # cs) = \<bar>n\<bar>" using dec_value_nat_to_dec [of "nat \<bar>n\<bar>"] m(1) by simp
  show ?thesis
  proof (cases "n < 0")
    case True
    then have "int_to_dec n @ rest = CHR ''-'' # c # cs @ rest"
      using m(1) by (simp add: int_to_dec_def)
    moreover have "\<not> is_js_space (CHR ''-'')" by (simp add: is_js_space_def)
    ultimately show ?thesis
      using True ws tw v by (simp add: parseInt10_def dropWhile_spaces)
  next
    case False
    then have "int_to_dec n @ rest = c # cs @ rest"
      using m(1) by (simp add: int_to_dec_def)
    then show ?thesis
      using False ws tw v digit_not_sign [OF m(2)] by (simp add: parseInt10_def dropWhile_spaces)
  qed
qed

end
