(* ===== verification/Db.thy ===== *)
theory Db
  imports Prelude
begin

text \<open>
  The persistence gateway, \<open>src/server/db.js\<close>: the five SQLite tables as lists of rows
  in rowid (insertion) order, and one definition per exported function. Statements that
  can fail (\<open>INSERT\<close> on a duplicate primary key, or on a missing referenced row, since the
  connection runs with \<open>foreign_keys = ON\<close>) return \<open>sql_error + database\<close>. The two
  history queries (\<open>ORDER BY timestamp DESC, rowid DESC LIMIT n\<close>, then
  \<open>rows.reverse()\<close>) are shown equal to a reference: the last \<open>n\<close> rows in
  chronological order.
\<close>

section \<open>Tables\<close>

text \<open>
  Passwords are stored as bcrypt digests. bcrypt is an external library the code only
  calls; \<open>pw_hash\<close> models an ideal digest (equal digests for equal passwords only).
  Metadata columns hold \<open>JSON.stringify\<close> of a value that is \<open>JSON.parse\<close>d on every
  read; the model stores the JSON value itself.
\<close>

datatype pw_hash = Bcrypt string

record user_row =
  user_username :: string
  user_password :: pw_hash
  user_avatar :: string
  user_about :: string
  user_created_at :: int

record room_row =
  room_name :: string
  room_description :: string
  room_metadata :: json
  room_created_by :: string
  room_created_at :: int

record member_row =
  member_room :: string
  member_username :: string
  member_joined_at :: int

record msg_row =
  msg_id :: string
  msg_room :: string
  msg_sender :: string
  msg_message :: string
  msg_metadata :: json
  msg_timestamp :: int

record dm_row =
  dm_id :: string
  dm_sender :: string
  dm_recipient :: string
  dm_message :: string
  dm_metadata :: json
  dm_timestamp :: int

record database =
  users :: "user_row list"
  rooms :: "room_row list"
  room_members :: "member_row list"
  messages :: "msg_row list"
  direct_messages :: "dm_row list"

datatype sql_error = Unique_violation string | Foreign_key_violation string

definition init :: database where
  \<comment> \<open>\<open>init()\<close> on a fresh database file: every \<open>CREATE TABLE IF NOT EXISTS\<close> creates an empty table\<close>
  "init = \<lparr>users = [], rooms = [], room_members = [], messages = [], direct_messages = []\<rparr>"

section \<open>Users\<close>

definition getUser :: "database \<Rightarrow> string \<Rightarrow> user_row option" where
  "getUser d u = find (\<lambda>r. user_username r = u) (users d)"

definition user_exists :: "database \<Rightarrow> string \<Rightarrow> bool" where
  "user_exists d u \<longleftrightarrow> (\<exists>r \<in> set (users d). user_username r = u)"

definition createUser :: "database \<Rightarrow> string \<Rightarrow> pw_hash \<Rightarrow> int \<Rightarrow> sql_error + database" where
  "createUser d u h now =
     (if user_exists d u then Inl (Unique_violation ''users.username'')
      else Inr (d\<lparr>users := users d @ [\<lparr>user_username = u, user_password = h, user_avatar = [],
                                          user_about = [], user_created_at = now\<rparr>]\<rparr>))"

definition updatePassword :: "database \<Rightarrow> string \<Rightarrow> pw_hash \<Rightarrow> database" where
  "updatePassword d u h =
     d\<lparr>users := map (\<lambda>r. if user_username r = u then r\<lparr>user_password := h\<rparr> else r) (users d)\<rparr>"

definition updateProfile :: "database \<Rightarrow> string \<Rightarrow> string \<Rightarrow> string \<Rightarrow> database" where
  "updateProfile d u avatar about =
     d\<lparr>users := map (\<lambda>r. if user_username r = u then r\<lparr>user_avatar := avatar, user_about := about\<rparr> else r)
                   (users d)\<rparr>"

section \<open>Rooms and membership\<close>

definition getRoom :: "database \<Rightarrow> string \<Rightarrow> room_row option" where
  "getRoom d n = find (\<lambda>r. room_name r = n) (rooms d)"

definition getRooms :: "database \<Rightarrow> room_row list" where
  "getRooms d = rooms d"

definition room_exists :: "database \<Rightarrow> string \<Rightarrow> bool" where
  "room_exists d n \<longleftrightarrow> (\<exists>r \<in> set (rooms d). room_name r = n)"

definition createRoom :: "database \<Rightarrow> string \<Rightarrow> string \<Rightarrow> json \<Rightarrow> string \<Rightarrow> int \<Rightarrow> sql_error + database" where
  "createRoom d n descr meta by now =
     (if room_exists d n then Inl (Unique_violation ''rooms.name'')
      else if \<not> user_exists d by then Inl (Foreign_key_violation ''rooms.created_by'')
      else Inr (d\<lparr>rooms := rooms d @ [\<lparr>room_name = n, room_description = descr, room_metadata = meta,
                                          room_created_by = by, room_created_at = now\<rparr>]\<rparr>))"

definition is_member :: "database \<Rightarrow> string \<Rightarrow> string \<Rightarrow> bool" where
  "is_member d room u \<longleftrightarrow> (\<exists>m \<in> set (room_members d). member_room m = room \<and> member_username m = u)"

definition addRoomMember :: "database \<Rightarrow> string \<Rightarrow> string \<Rightarrow> int \<Rightarrow> sql_error + database" where
  \<comment> \<open>\<open>INSERT OR IGNORE\<close> ignores the primary-key conflict, not a foreign-key violation\<close>
  "addRoomMember d room u now =
     (if is_member d room u then Inr d
      else if \<not> room_exists d room \<or> \<not> user_exists d u then Inl (Foreign_key_violation ''room_members'')
      else Inr (d\<lparr>room_members := room_members d @
                  [\<lparr>member_room = room, member_username = u, member_joined_at = now\<rparr>]\<rparr>))"

definition removeRoomMember :: "database \<Rightarrow> string \<Rightarrow> string \<Rightarrow> database" where
  "removeRoomMember d room u =
     d\<lparr>room_members := filter (\<lambda>m. \<not> (member_room m = room \<and> member_username m = u)) (room_members d)\<rparr>"

definition getRoomMembers :: "database \<Rightarrow> string \<Rightarrow> string list" where
  "getRoomMembers d room = map member_username (filter (\<lambda>m. member_room m = room) (room_members d))"

section \<open>History ordering\<close>

text \<open>
  \<open>ORDER BY timestamp DESC, rowid DESC\<close>: rows are numbered by their position (the
  rowid SQLite assigns in insertion order, as neither table ever deletes) and sorted on the
  negated key. \<open>LIMIT n\<close> with a negative \<open>n\<close> means no limit in SQLite.
\<close>

definition newest_first :: "('a \<Rightarrow> int) \<Rightarrow> 'a list \<Rightarrow> 'a list" where
  "newest_first ts rows = map snd (sort_key (\<lambda>(i, r). (- ts r, - int i)) (enumerate 0 rows))"

definition sql_limit :: "int \<Rightarrow> 'a list \<Rightarrow> 'a list" where
  "sql_limit n xs = (if n < 0 then xs else take (nat n) xs)"

text \<open>The reference the two queries are measured against.\<close>

definition chronological :: "('a \<Rightarrow> int) \<Rightarrow> 'a list \<Rightarrow> 'a list" where
  "chronological ts rows = map snd (sort_key (\<lambda>(i, r). (ts r, int i)) (enumerate 0 rows))"

definition last_n :: "int \<Rightarrow> 'a list \<Rightarrow> 'a list" where
  "last_n n xs = (if n < 0 then xs else drop (length xs - nat n) xs)"

section \<open>Messages\<close>

definition msg_id_taken :: "database \<Rightarrow> string \<Rightarrow> bool" where
  "msg_id_taken d i \<longleftrightarrow> (\<exists>m \<in> set (messages d). msg_id m = i)"

definition saveMessage :: "database \<Rightarrow> string \<Rightarrow> string \<Rightarrow> string \<Rightarrow> string \<Rightarrow> json \<Rightarrow> int \<Rightarrow> sql_error + database" where
  "saveMessage d i room sender text meta ts =
     (if msg_id_taken d i then Inl (Unique_violation ''messages.id'')
      else if \<not> room_exists d room \<or> \<not> user_exists d sender then Inl (Foreign_key_violation ''messages'')
      else Inr (d\<lparr>messages := messages d @ [\<lparr>msg_id = i, msg_room = room, msg_sender = sender,
                     msg_message = text, msg_metadata = meta, msg_timestamp = ts\<rparr>]\<rparr>))"

definition getMessages :: "int \<Rightarrow> database \<Rightarrow> string \<Rightarrow> int \<Rightarrow> msg_row list" where
  \<comment> \<open>the first argument is \<open>config.HISTORY_LIMIT\<close>\<close>
  "getMessages cfg d room limit =
     rev (sql_limit (int_or (Some limit) cfg)
           (newest_first msg_timestamp (filter (\<lambda>m. msg_room m = room) (messages d))))"

section \<open>Direct messages\<close>

definition dm_id_taken :: "database \<Rightarrow> string \<Rightarrow> bool" where
  "dm_id_taken d i \<longleftrightarrow> (\<exists>m \<in> set (direct_messages d). dm_id m = i)"

definition saveDM :: "database \<Rightarrow> string \<Rightarrow> string \<Rightarrow> string \<Rightarrow> string \<Rightarrow> json \<Rightarrow> int \<Rightarrow> sql_error + database" where
  "saveDM d i sender recipient text meta ts =
     (if dm_id_taken d i then Inl (Unique_violation ''direct_messages.id'')
      else if \<not> user_exists d sender \<or> \<not> user_exists d recipient
        then Inl (Foreign_key_violation ''direct_messages'')
      else Inr (d\<lparr>direct_messages := direct_messages d @ [\<lparr>dm_id = i, dm_sender = sender,
                     dm_recipient = recipient, dm_message = text, dm_metadata = meta, dm_timestamp = ts\<rparr>]\<rparr>))"

definition between :: "string \<Rightarrow> string \<Rightarrow> dm_row \<Rightarrow> bool" where
  "between u1 u2 m \<longleftrightarrow> (dm_sender m = u1 \<and> dm_recipient m = u2) \<or> (dm_sender m = u2 \<and> dm_recipient m = u1)"

definition getDMs :: "int \<Rightarrow> database \<Rightarrow> string \<Rightarrow> string \<Rightarrow> int \<Rightarrow> dm_row list" where
  "getDMs cfg d u1 u2 limit =
     rev (sql_limit (int_or (Some limit) cfg)
           (newest_first dm_timestamp (filter (between u1 u2) (direct_messages d))))"

definition getDMConversations :: "database \<Rightarrow> string \<Rightarrow> string list" where
  \<comment> \<open>\<open>SELECT DISTINCT\<close> in scan (rowid) order, first occurrence kept\<close>
  "getDMConversations d u =
     dedup (map (\<lambda>m. if dm_sender m = u then dm_recipient m else dm_sender m)
              (filter (\<lambda>m. dm_sender m = u \<or> dm_recipient m = u) (direct_messages d)))"

section \<open>History queries against the reference\<close>

lemma sort_key_reversed:
  assumes inj: "inj_on f (set xs)"
    and rev_ord: "\<And>x y. f x \<le> f y \<longleftrightarrow> g y \<le> g x"
  shows "sort_key g xs = rev (sort_key f xs)"
proof (rule sort_key_inj_key_eq)
  show "mset xs = mset (rev (sort_key f xs))" by simp
  show "inj_on g (set xs)"
  proof (rule inj_onI)
    fix x y assume "x \<in> set xs" "y \<in> set xs" "g x = g y"
    then have "f x = f y" using rev_ord [of x y] rev_ord [of y x] by (simp add: order_antisym)
    with inj \<open>x \<in> set xs\<close> \<open>y \<in> set xs\<close> show "x = y" by (simp add: inj_on_def)
  qed
  have "sorted_wrt (\<lambda>x y. f x \<le> f y) (sort_key f xs)"
    using sorted_sort_key [of f xs] by (simp add: sorted_wrt_map)
  then have "sorted_wrt (\<lambda>x y. g y \<le> g x) (sort_key f xs)"
    by (rule sorted_wrt_mono_rel [rotated]) (simp add: rev_ord)
  then show "sorted (map g (rev (sort_key f xs)))"
    by (simp add: rev_map [symmetric] sorted_wrt_rev sorted_wrt_map)
qed

lemma neg_pair_order: "((a::int), (b::int)) \<le> (c, d) \<longleftrightarrow> (- c, - d) \<le> (- a, - b)"
  by (auto simp: less_eq_prod_def)

lemma newest_first_rev: "newest_first ts rows = rev (chronological ts rows)"
proof -
  let ?E = "enumerate 0 rows"
  have inj: "inj_on (\<lambda>(i, r). (ts r, int i)) (set ?E)"
    by (rule inj_onI) (auto simp: in_set_enumerate_eq)
  have "sort_key (\<lambda>(i, r). (- ts r, - int i)) ?E = rev (sort_key (\<lambda>(i, r). (ts r, int i)) ?E)"
    by (rule sort_key_reversed [OF inj]) (auto simp: neg_pair_order)
  then show ?thesis by (simp add: newest_first_def chronological_def rev_map)
qed

lemma rev_sql_limit_rev: "rev (sql_limit n (rev xs)) = last_n n xs"
  by (simp add: sql_limit_def last_n_def rev_take)

lemma getMessages_last_n:
  "getMessages cfg d room limit =
     last_n (int_or (Some limit) cfg) (chronological msg_timestamp (filter (\<lambda>m. msg_room m = room) (messages d)))"
  by (simp add: getMessages_def newest_first_rev rev_sql_limit_rev)

lemma sorted_chronological: "sorted (map ts (chronological ts rows))"
proof -
  have "sorted (map (\<lambda>(i, r). (ts r, int i)) (sort_key (\<lambda>(i, r). (ts r, int i)) (enumerate 0 rows)))"
    by (rule sorted_sort_key)
  then have "sorted_wrt (\<lambda>x y. (ts (snd x), int (fst x)) \<le> (ts (snd y), int (fst y))) (sort_key (\<lambda>(i, r). (ts r, int i)) (enumerate 0 rows))"
    by (simp add: sorted_wrt_map case_prod_beta)
  then have "sorted_wrt (\<lambda>x y. ts (snd x) \<le> ts (snd y)) (sort_key (\<lambda>(i, r). (ts r, int i)) (enumerate 0 rows))"
    by (rule sorted_wrt_mono_rel [rotated]) (auto simp: less_eq_prod_def)
  then show ?thesis by (simp add: chronological_def sorted_wrt_map)
qed

lemma mset_chronological: "mset (chronological ts rows) = mset rows"
proof -
  have "mset (map snd (sort_key (\<lambda>(i, r). (ts r, int i)) (enumerate 0 rows))) = mset (map snd (enumerate 0 rows))"
    by (metis mset_map mset_sort)
  then show ?thesis by (simp add: chronological_def)
qed

lemma length_last_n: "0 \<le> n \<Longrightarrow> length (last_n n xs) = min (nat n) (length xs)"
  by (simp add: last_n_def)

section \<open>Statement lemmas\<close>

lemma addRoomMember_ok:
  assumes "room_exists d r" "user_exists d u"
  shows "\<exists>d'. addRoomMember d r u t = Inr d' \<and> is_member d' r u \<and> rooms d' = rooms d \<and> users d' = users d
           \<and> messages d' = messages d \<and> direct_messages d' = direct_messages d"
  using assms by (auto simp: addRoomMember_def is_member_def)

lemma getUser_None_iff: "getUser d u = None \<longleftrightarrow> \<not> user_exists d u"
  by (auto simp: getUser_def user_exists_def find_None_iff)

lemma find_snoc: "find P xs = None \<Longrightarrow> P x \<Longrightarrow> find P (xs @ [x]) = Some x"
  by (induction xs) (auto split: if_splits)

lemma getUser_append_new:
  "getUser d u = None \<Longrightarrow> user_username row = u \<Longrightarrow> getUser (d\<lparr>users := users d @ [row]\<rparr>) u = Some row"
  by (simp add: getUser_def find_snoc)

lemma getRoom_Some_iff: "getRoom d r \<noteq> None \<longleftrightarrow> room_exists d r"
  by (auto simp: getRoom_def room_exists_def find_None_iff)

text \<open>C5. With a positive limit \<open>n\<close>, the room history query returns \<open>min n k\<close> of the room's \<open>k\<close> messages, sorted by timestamp, as the final segment of the room's chronological history (ties in insertion order), so every omitted message is no newer than every returned one.\<close>

theorem getMessages_most_recent:
  fixes d :: database and room :: string and cfg n :: int
  assumes "0 < n"
  defines "rows \<equiv> filter (\<lambda>m. msg_room m = room) (messages d)"
  defines "ms \<equiv> getMessages cfg d room n"
  shows "length ms = min (nat n) (length rows) \<and> sorted (map msg_timestamp ms)
    \<and> (\<exists>older. chronological msg_timestamp rows = older @ ms
         \<and> (\<forall>x \<in> set older. \<forall>y \<in> set ms. msg_timestamp x \<le> msg_timestamp y))
    \<and> mset ms \<subseteq># mset rows"
proof -
  let ?C = "chronological msg_timestamp rows"
  let ?k = "length ?C - nat n"
  have ms: "ms = drop ?k ?C"
    using assms(1) by (simp add: ms_def rows_def getMessages_last_n last_n_def)
  have len: "length ?C = length rows" using mset_chronological [of msg_timestamp rows] by (metis size_mset)
  have sorted: "sorted (map msg_timestamp ?C)" by (rule sorted_chronological)
  have split: "?C = take ?k ?C @ ms" unfolding ms by simp
  have app: "sorted (map msg_timestamp (take ?k ?C) @ map msg_timestamp (drop ?k ?C))"
    using sorted by (simp only: map_append [symmetric] append_take_drop_id)
  then have cross: "\<forall>x \<in> set (take ?k ?C). \<forall>y \<in> set ms. msg_timestamp x \<le> msg_timestamp y"
    unfolding ms by (simp add: sorted_append)
  have "mset ms \<subseteq># mset ?C" unfolding ms by (metis append_take_drop_id mset_append mset_subset_eq_add_right)
  then have sub: "mset ms \<subseteq># mset rows" by (simp add: mset_chronological)
  have "sorted (map msg_timestamp ms)" using app unfolding ms by (simp add: sorted_append)
  moreover have "length ms = min (nat n) (length rows)" using len unfolding ms by simp
  ultimately show ?thesis using split cross sub by blast
qed

lemma between_sym: "between u1 u2 = between u2 u1"
  by (auto simp: between_def fun_eq_iff)

text \<open>C31. The direct-message history is symmetric in its two users and equals the reference: the last \<open>n\<close> messages between them in chronological order.\<close>

theorem getDMs_symmetric_recent:
  "getDMs cfg d u1 u2 limit = getDMs cfg d u2 u1 limit
   \<and> getDMs cfg d u1 u2 limit =
       last_n (int_or (Some limit) cfg) (chronological dm_timestamp (filter (between u1 u2) (direct_messages d)))"
  by (simp add: getDMs_def between_sym [of u1 u2] newest_first_rev rev_sql_limit_rev)

end
