(* ===== verification/Protocol.thy ===== *)
theory Protocol
  imports Db
begin

text \<open>
  The wire protocol, \<open>src/server/protocol.js\<close>, and the per-connection socket state the
  handlers write to (\<open>ws.user\<close>, \<open>ws.rooms\<close>, \<open>ws.isAlive\<close>, \<open>ws.readyState\<close>).
  An inbound frame is the object \<open>JSON.parse\<close> returns, with the fields the handlers
  read; \<open>None\<close> for the whole frame is a payload \<open>parse\<close> rejects. An outbound frame
  is one constructor of \<open>out\<close> per \<open>type\<close> the server emits; \<open>JSON.stringify\<close> is
  not modelled, so a socket records the structured frames written to it, in order.
\<close>

section \<open>Inbound frames\<close>

record frame =
  f_type :: "string option"
  f_username :: "string option"
  f_password :: "string option"
  f_token :: "string option"
  f_oldPassword :: "string option"
  f_newPassword :: "string option"
  f_avatar :: "string option"
  f_about :: "string option"
  f_name :: "string option"
  f_description :: "string option"
  f_metadata :: "json option"
  f_room :: "string option"
  f_limit :: "int option"
  f_message :: "string option"
  f_to :: "string option"
  f_with :: "string option"
  f_command :: "string option"
  f_args :: "string option"

definition empty_frame :: "string \<Rightarrow> frame" where
  \<comment> \<open>a frame \<open>{type: t}\<close> with no other field\<close>
  "empty_frame t = \<lparr>f_type = Some t, f_username = None, f_password = None, f_token = None,
     f_oldPassword = None, f_newPassword = None, f_avatar = None, f_about = None, f_name = None,
     f_description = None, f_metadata = None, f_room = None, f_limit = None, f_message = None,
     f_to = None, f_with = None, f_command = None, f_args = None\<rparr>"

section \<open>Outbound frames\<close>

record user_info =
  ui_username :: string
  ui_avatar :: string
  ui_about :: string

record room_summary =
  rs_name :: string
  rs_description :: string
  rs_metadata :: json
  rs_userCount :: nat

record online_user =
  ou_username :: string
  ou_avatar :: string

record message_event =
  ev_id :: string
  ev_from :: string
  ev_room :: string
  ev_timestamp :: int
  ev_message :: string
  ev_metadata :: json

record dm_event =
  de_id :: string
  de_from :: string
  de_to :: string
  de_timestamp :: int
  de_message :: string
  de_metadata :: json

datatype out =
    System_error string                            \<comment> \<open>\<open>system:error\<close>\<close>
  | Auth_error string                              \<comment> \<open>\<open>auth:error\<close>\<close>
  | Auth_success string user_info                  \<comment> \<open>\<open>auth:success {token, user}\<close>\<close>
  | Auth_password_changed                          \<comment> \<open>\<open>auth:success {message}\<close>\<close>
  | Auth_profile_updated user_info                 \<comment> \<open>\<open>auth:profile_updated\<close>\<close>
  | Room_list "room_summary list"                  \<comment> \<open>\<open>room:list\<close>\<close>
  | Room_error string                              \<comment> \<open>\<open>room:error\<close>\<close>
  | Room_created "room_row option"                 \<comment> \<open>\<open>room:created\<close>\<close>
  | Room_joined string string                      \<comment> \<open>\<open>room:joined {room, user}\<close>\<close>
  | Room_left string string                        \<comment> \<open>\<open>room:left {room, user}\<close>\<close>
  | Room_users string "online_user list"           \<comment> \<open>\<open>room:users\<close>\<close>
  | Room_history string "msg_row list"             \<comment> \<open>\<open>room:history\<close>\<close>
  | Message_new message_event                      \<comment> \<open>\<open>message:new\<close>\<close>
  | Dm_new dm_event                                \<comment> \<open>\<open>dm:new\<close>\<close>
  | Dm_history string "dm_row list"                \<comment> \<open>\<open>dm:history\<close>\<close>
  | Dm_list "string list"                          \<comment> \<open>\<open>dm:list\<close>\<close>
  | Command_error "string option" string           \<comment> \<open>\<open>command:error {command?, message}\<close>\<close>
  | Command_result "string option" string string   \<comment> \<open>\<open>command:result {room, command, result}\<close>\<close>
  | Command_list "(string \<times> string) list"         \<comment> \<open>\<open>command:list\<close>\<close>
  | Presence_offline string string                 \<comment> \<open>\<open>presence:offline {username, room}\<close>\<close>
  | Pong                                           \<comment> \<open>\<open>pong\<close>\<close>

section \<open>Sockets\<close>

text \<open>
  \<open>readyState\<close> 0 to 3. A socket's \<open>outbox\<close> is the sequence of frames
  \<open>ws.send\<close> wrote to it. The server's client set \<open>wss.clients\<close> is an association
  list from connection identifiers to sockets, in connection order.
\<close>

datatype ready_state = CONNECTING | OPEN | CLOSING | CLOSED

record ws =
  ws_user :: "string option"
  ws_rooms :: "string list"
  is_alive :: bool
  ready :: ready_state
  outbox :: "out list"

type_synonym sockets = "(conn_id \<times> ws) list"

definition new_ws :: ws where
  \<comment> \<open>the socket as the \<open>connection\<close> handler leaves it (handler.js 13--15)\<close>
  "new_ws = \<lparr>ws_user = None, ws_rooms = [], is_alive = True, ready = OPEN, outbox = []\<rparr>"

definition ws_update :: "conn_id \<Rightarrow> (ws \<Rightarrow> ws) \<Rightarrow> sockets \<Rightarrow> sockets" where
  "ws_update c f st = (case map_of st c of None \<Rightarrow> st | Some w \<Rightarrow> AList.update c (f w) st)"

definition deliver :: "out \<Rightarrow> ws \<Rightarrow> ws" where
  "deliver m w = (if ready w = OPEN then w\<lparr>outbox := outbox w @ [m]\<rparr> else w)"

definition send :: "conn_id \<Rightarrow> out \<Rightarrow> sockets \<Rightarrow> sockets" where
  \<comment> \<open>\<open>protocol.send(ws, obj)\<close>: written only to an open socket\<close>
  "send c m st = ws_update c (deliver m) st"

definition broadcast :: "conn_id list \<Rightarrow> out \<Rightarrow> sockets \<Rightarrow> sockets" where
  \<comment> \<open>\<open>protocol.broadcast(wsSet, obj)\<close>\<close>
  "broadcast cs m st = fold (\<lambda>c. send c m) cs st"

section \<open>Socket lemmas\<close>

lemma map_of_ws_update:
  "map_of (ws_update c f st) = (case map_of st c of None \<Rightarrow> map_of st | Some w \<Rightarrow> (map_of st)(c \<mapsto> f w))"
  by (simp add: ws_update_def update_conv' split: option.split)

lemma map_of_ws_update_other [simp]: "c' \<noteq> c \<Longrightarrow> map_of (ws_update c f st) c' = map_of st c'"
  by (simp add: map_of_ws_update split: option.split)

lemma map_of_ws_update_same [simp]: "map_of (ws_update c f st) c = map_option f (map_of st c)"
  by (simp add: map_of_ws_update split: option.split)

lemma keys_ws_update [simp]: "map fst (ws_update c f st) = map fst st"
  by (auto simp: ws_update_def update_keys map_of_eq_None_iff split: option.split dest: map_of_SomeD)

lemma map_of_send_other [simp]: "c' \<noteq> c \<Longrightarrow> map_of (send c m st) c' = map_of st c'"
  by (simp add: send_def)

lemma map_of_send_same [simp]: "map_of (send c m st) c = map_option (deliver m) (map_of st c)"
  by (simp add: send_def)

lemma keys_send [simp]: "map fst (send c m st) = map fst st"
  by (simp add: send_def)

lemma deliver_simps [simp]:
  "ws_user (deliver m w) = ws_user w" "ws_rooms (deliver m w) = ws_rooms w"
  "is_alive (deliver m w) = is_alive w" "ready (deliver m w) = ready w"
  by (simp_all add: deliver_def)

lemma outbox_deliver: "outbox (deliver m w) = (if ready w = OPEN then outbox w @ [m] else outbox w)"
  by (simp add: deliver_def)

end
