(* ===== verification/Rooms.thy ===== *)
theory Rooms
  imports Protocol
begin

text \<open>
  The room registry and fan-out broadcaster, \<open>src/server/rooms.js\<close>. The module-level
  \<open>roomConnections\<close> map (room name to the \<open>Set\<close> of sockets joined to it) and the
  server's client set, whose sockets carry \<open>ws.rooms\<close>, form the record \<open>net\<close>;
  the server state of later theories extends it, so every operation here is stated for
  any extension \<open>'a net_scheme\<close>.

  Abstractly the registry is a relation between rooms and connections. \<open>members\<close> reads
  it from \<open>roomConnections\<close>, \<open>socket_members\<close> from the sockets' own \<open>ws.rooms\<close>;
  the invariant \<open>reg_inv\<close> says the two agree, and the refinement lemmas say how
  \<open>joinRoom\<close>, \<open>leaveRoom\<close> and \<open>leaveAllRooms\<close> change the relation (insert,
  remove one pair, remove every pair of a connection).
\<close>

record net =
  registry :: "(string \<times> conn_id list) list"
  clients :: sockets

definition conns_of :: "'a net_scheme \<Rightarrow> string \<Rightarrow> conn_id list" where
  \<comment> \<open>\<open>roomConnections.get(room)\<close>, the empty list for a missing entry\<close>
  "conns_of s r = (case map_of (registry s) r of None \<Rightarrow> [] | Some cs \<Rightarrow> cs)"

definition rooms_of :: "'a net_scheme \<Rightarrow> conn_id \<Rightarrow> string list" where
  \<comment> \<open>\<open>ws.rooms\<close>\<close>
  "rooms_of s c = (case map_of (clients s) c of None \<Rightarrow> [] | Some w \<Rightarrow> ws_rooms w)"

section \<open>Operations\<close>

definition joinRoom :: "conn_id \<Rightarrow> string \<Rightarrow> 'a net_scheme \<Rightarrow> 'a net_scheme" where
  "joinRoom c r s =
     s\<lparr>registry := AList.update r (set_add c (conns_of s r)) (registry s),
       clients := ws_update c (\<lambda>w. w\<lparr>ws_rooms := set_add r (ws_rooms w)\<rparr>) (clients s)\<rparr>"

definition leaveRoom :: "conn_id \<Rightarrow> string \<Rightarrow> 'a net_scheme \<Rightarrow> 'a net_scheme" where
  "leaveRoom c r s =
     (let s1 = (case map_of (registry s) r of
                  None \<Rightarrow> s
                | Some cs \<Rightarrow>
                    (let cs' = set_delete c cs
                     in s\<lparr>registry := (if cs' = [] then AList.delete r (registry s)
                                         else AList.update r cs' (registry s))\<rparr>))
      in s1\<lparr>clients := ws_update c (\<lambda>w. w\<lparr>ws_rooms := set_delete r (ws_rooms w)\<rparr>) (clients s1)\<rparr>)"

definition leaveAllRooms :: "conn_id \<Rightarrow> 'a net_scheme \<Rightarrow> string list \<times> 'a net_scheme" where
  "leaveAllRooms c s = (let rs = rooms_of s c in (rs, fold (leaveRoom c) rs s))"

definition broadcastToRoom :: "string \<Rightarrow> out \<Rightarrow> conn_id option \<Rightarrow> 'a net_scheme \<Rightarrow> 'a net_scheme" where
  "broadcastToRoom r m excl s =
     (case map_of (registry s) r of
        None \<Rightarrow> s
      | Some cs \<Rightarrow> s\<lparr>clients := fold (\<lambda>c st. if Some c = excl then st else send c m st) cs (clients s)\<rparr>)"

definition live_user :: "'a net_scheme \<Rightarrow> conn_id \<Rightarrow> string list" where
  \<comment> \<open>\<open>if (ws.user) users.push(ws.user)\<close>\<close>
  "live_user s c =
     (case map_of (clients s) c of
        None \<Rightarrow> []
      | Some w \<Rightarrow> (case ws_user w of None \<Rightarrow> [] | Some u \<Rightarrow> if u \<noteq> [] then [u] else []))"

definition getOnlineUsers :: "string \<Rightarrow> 'a net_scheme \<Rightarrow> string list" where
  "getOnlineUsers r s =
     (case map_of (registry s) r of None \<Rightarrow> [] | Some cs \<Rightarrow> dedup (concat (map (live_user s) cs)))"

definition findUserWs :: "string \<Rightarrow> 'a net_scheme \<Rightarrow> conn_id option" where
  "findUserWs u s = map_option fst (find (\<lambda>(c, w). ws_user w = Some u \<and> ready w = OPEN) (clients s))"

section \<open>Abstraction and invariant\<close>

definition members :: "'a net_scheme \<Rightarrow> (string \<times> conn_id) set" where
  "members s = set [(r, c). (r, cs) \<leftarrow> registry s, c \<leftarrow> cs]"

definition socket_members :: "'a net_scheme \<Rightarrow> (string \<times> conn_id) set" where
  "socket_members s = set [(r, c). (c, w) \<leftarrow> clients s, r \<leftarrow> ws_rooms w]"

definition reg_inv :: "'a net_scheme \<Rightarrow> bool" where
  "reg_inv s \<longleftrightarrow>
     distinct (map fst (registry s)) \<and> distinct (map fst (clients s)) \<and>
     list_all (\<lambda>(r, cs). cs \<noteq> [] \<and> distinct cs) (registry s) \<and>
     list_all (\<lambda>(c, w). distinct (ws_rooms w)) (clients s) \<and>
     members s = socket_members s"

section \<open>Registry lemmas\<close>

lemma members_iff:
  assumes "distinct (map fst (registry s))"
  shows "(r, c) \<in> members s \<longleftrightarrow> c \<in> set (conns_of s r)"
proof -
  have "(r, c) \<in> members s \<longleftrightarrow> (\<exists>cs. (r, cs) \<in> set (registry s) \<and> c \<in> set cs)"
    by (force simp: members_def)
  also have "\<dots> \<longleftrightarrow> c \<in> set (conns_of s r)"
    using assms by (auto simp: conns_of_def map_of_is_SomeI split: option.splits dest: map_of_SomeD)
  finally show ?thesis .
qed

lemma socket_members_iff:
  assumes "distinct (map fst (clients s))"
  shows "(r, c) \<in> socket_members s \<longleftrightarrow> r \<in> set (rooms_of s c)"
proof -
  have "(r, c) \<in> socket_members s \<longleftrightarrow> (\<exists>w. (c, w) \<in> set (clients s) \<and> r \<in> set (ws_rooms w))"
    by (force simp: socket_members_def)
  also have "\<dots> \<longleftrightarrow> r \<in> set (rooms_of s c)"
    using assms by (auto simp: rooms_of_def map_of_is_SomeI split: option.splits dest: map_of_SomeD)
  finally show ?thesis .
qed

lemma ws_update_member:
  "x \<in> set (ws_update c f st) \<Longrightarrow> x \<in> set st \<or> (\<exists>w. map_of st c = Some w \<and> x = (c, f w))"
  by (cases x) (auto simp: ws_update_def split: option.splits dest: set_update_member)

lemma conns_of_joinRoom [simp]:
  "conns_of (joinRoom c r s) r' = (if r' = r then set_add c (conns_of s r) else conns_of s r')"
  by (simp add: conns_of_def joinRoom_def update_conv')

lemma rooms_of_joinRoom:
  "rooms_of (joinRoom c r s) c' =
     (if c' = c \<and> map_of (clients s) c \<noteq> None then set_add r (rooms_of s c) else rooms_of s c')"
  by (cases "c' = c") (auto simp: rooms_of_def joinRoom_def split: option.splits)

lemma keys_joinRoom [simp]: "map fst (clients (joinRoom c r s)) = map fst (clients s)"
  by (simp add: joinRoom_def)

lemma distinct_registry_joinRoom [intro]:
  "distinct (map fst (registry s)) \<Longrightarrow> distinct (map fst (registry (joinRoom c r s)))"
  by (simp add: joinRoom_def distinct_update)

lemma registry_leaveRoom:
  "registry (leaveRoom c r s) =
     (case map_of (registry s) r of None \<Rightarrow> registry s
      | Some cs \<Rightarrow> if set_delete c cs = [] then AList.delete r (registry s)
                   else AList.update r (set_delete c cs) (registry s))"
  by (simp add: leaveRoom_def Let_def split: option.split)

lemma conns_of_leaveRoom [simp]:
  "conns_of (leaveRoom c r s) r' = (if r' = r then set_delete c (conns_of s r) else conns_of s r')"
  by (auto simp: conns_of_def registry_leaveRoom update_conv' delete_conv' set_delete_def split: option.splits)

lemma clients_leaveRoom:
  "clients (leaveRoom c r s) = ws_update c (\<lambda>w. w\<lparr>ws_rooms := set_delete r (ws_rooms w)\<rparr>) (clients s)"
  by (simp add: leaveRoom_def Let_def split: option.split)

lemma rooms_of_leaveRoom [simp]:
  "rooms_of (leaveRoom c r s) c' = (if c' = c then set_delete r (rooms_of s c) else rooms_of s c')"
  by (auto simp: rooms_of_def clients_leaveRoom set_delete_def split: option.splits)

lemma keys_leaveRoom [simp]: "map fst (clients (leaveRoom c r s)) = map fst (clients s)"
  by (simp add: clients_leaveRoom)

lemma distinct_registry_leaveRoom [intro]:
  "distinct (map fst (registry s)) \<Longrightarrow> distinct (map fst (registry (leaveRoom c r s)))"
  by (auto simp: registry_leaveRoom distinct_update distinct_delete split: option.split)


lemma members_joinRoom:
  assumes "distinct (map fst (registry s))"
  shows "members (joinRoom c r s) = insert (r, c) (members s)"
proof -
  have "distinct (map fst (registry (joinRoom c r s)))" using assms ..
  then show ?thesis using assms by (auto simp: members_iff split: if_splits)
qed

lemma socket_members_joinRoom:
  assumes "distinct (map fst (clients s))" and "c \<in> fst ` set (clients s)"
  shows "socket_members (joinRoom c r s) = insert (r, c) (socket_members s)"
proof -
  from assms(2) have "map_of (clients s) c \<noteq> None" by (simp add: map_of_eq_None_iff)
  moreover have "distinct (map fst (clients (joinRoom c r s)))" using assms(1) by simp
  ultimately show ?thesis using assms(1) by (auto simp: socket_members_iff rooms_of_joinRoom split: if_splits)
qed

lemma members_leaveRoom:
  assumes "distinct (map fst (registry s))"
  shows "members (leaveRoom c r s) = members s - {(r, c)}"
proof -
  have "distinct (map fst (registry (leaveRoom c r s)))" using assms ..
  then show ?thesis using assms by (auto simp: members_iff split: if_splits)
qed

lemma socket_members_leaveRoom:
  assumes "distinct (map fst (clients s))"
  shows "socket_members (leaveRoom c r s) = socket_members s - {(r, c)}"
proof -
  have "distinct (map fst (clients (leaveRoom c r s)))" using assms by simp
  then show ?thesis using assms by (auto simp: socket_members_iff split: if_splits)
qed

lemma registry_entries_joinRoom:
  assumes "list_all (\<lambda>(r, cs). cs \<noteq> [] \<and> distinct cs) (registry s)"
    and "distinct (map fst (registry s))"
  shows "list_all (\<lambda>(r, cs). cs \<noteq> [] \<and> distinct cs) (registry (joinRoom c r s))"
proof -
  have "distinct (conns_of s r)"
    using assms by (auto simp: conns_of_def list_all_iff split: option.split dest: map_of_SomeD)
  then show ?thesis using assms(1)
    by (auto simp: list_all_iff joinRoom_def set_add_def dest!: set_update_member)
qed

lemma registry_entries_leaveRoom:
  assumes "list_all (\<lambda>(r, cs). cs \<noteq> [] \<and> distinct cs) (registry s)"
  shows "list_all (\<lambda>(r, cs). cs \<noteq> [] \<and> distinct cs) (registry (leaveRoom c r s))"
  using assms
  by (auto simp: list_all_iff registry_leaveRoom split: option.splits if_splits
      dest!: set_update_member set_delete_member map_of_SomeD)

lemma socket_rooms_joinRoom:
  assumes "list_all (\<lambda>(c, w). distinct (ws_rooms w)) (clients s)"
  shows "list_all (\<lambda>(c, w). distinct (ws_rooms w)) (clients (joinRoom c r s))"
  using assms by (auto simp: list_all_iff joinRoom_def dest!: ws_update_member map_of_SomeD)

lemma socket_rooms_leaveRoom:
  assumes "list_all (\<lambda>(c, w). distinct (ws_rooms w)) (clients s)"
  shows "list_all (\<lambda>(c, w). distinct (ws_rooms w)) (clients (leaveRoom c r s))"
  using assms by (auto simp: list_all_iff clients_leaveRoom distinct_set_delete dest!: ws_update_member map_of_SomeD)

lemma reg_inv_parts:
  assumes "reg_inv s"
  shows "distinct (map fst (registry s))" "distinct (map fst (clients s))"
    "list_all (\<lambda>(r, cs). cs \<noteq> [] \<and> distinct cs) (registry s)"
    "list_all (\<lambda>(c, w). distinct (ws_rooms w)) (clients s)" "members s = socket_members s"
  using assms by (simp_all add: reg_inv_def)

theorem reg_inv_joinRoom [reg_inv_rules]:
  assumes inv: "reg_inv s" and c: "c \<in> fst ` set (clients s)"
  shows "reg_inv (joinRoom c r s)"
  unfolding reg_inv_def
  using distinct_registry_joinRoom [OF reg_inv_parts(1) [OF inv]] reg_inv_parts(2,5) [OF inv]
    registry_entries_joinRoom [OF reg_inv_parts(3,1) [OF inv]] socket_rooms_joinRoom [OF reg_inv_parts(4) [OF inv]]
    members_joinRoom [OF reg_inv_parts(1) [OF inv]] socket_members_joinRoom [OF reg_inv_parts(2) [OF inv] c]
  by simp

theorem reg_inv_leaveRoom [reg_inv_rules]:
  assumes inv: "reg_inv s"
  shows "reg_inv (leaveRoom c r s)"
  unfolding reg_inv_def
  using distinct_registry_leaveRoom [OF reg_inv_parts(1) [OF inv]] reg_inv_parts(2,5) [OF inv]
    registry_entries_leaveRoom [OF reg_inv_parts(3) [OF inv]] socket_rooms_leaveRoom [OF reg_inv_parts(4) [OF inv]]
    members_leaveRoom [OF reg_inv_parts(1) [OF inv]] socket_members_leaveRoom [OF reg_inv_parts(2) [OF inv]]
  by simp


lemma fold_leaveRoom_members:
  assumes "distinct (map fst (registry s))"
  shows "members (fold (leaveRoom c) rs s) = members s - set rs \<times> {c}
     \<and> distinct (map fst (registry (fold (leaveRoom c) rs s)))"
  using assms
proof (induction rs arbitrary: s)
  case Nil
  then show ?case by simp
next
  case (Cons r rs)
  from Cons.prems have "distinct (map fst (registry (leaveRoom c r s)))" ..
  with Cons.IH have "members (fold (leaveRoom c) rs (leaveRoom c r s)) = members (leaveRoom c r s) - set rs \<times> {c}
     \<and> distinct (map fst (registry (fold (leaveRoom c) rs (leaveRoom c r s))))" .
  with members_leaveRoom [OF Cons.prems] show ?case by auto
qed

theorem reg_inv_fold_leaveRoom:
  "reg_inv s \<Longrightarrow> reg_inv (fold (leaveRoom c) rs s)"
  by (induction rs arbitrary: s) (simp_all add: reg_inv_leaveRoom)

text \<open>C8. Refinement of disconnect cleanup: on the abstract relation between rooms and connections, \<open>leaveAllRooms c\<close> removes exactly the pairs of connection \<open>c\<close>.\<close>

theorem members_leaveAllRooms:
  assumes "reg_inv s"
  shows "members (snd (leaveAllRooms c s)) = {p \<in> members s. snd p \<noteq> c}"
proof -
  have eq: "(r, c) \<in> members s \<longleftrightarrow> r \<in> set (rooms_of s c)" for r
    using reg_inv_parts [OF assms] by (simp add: socket_members_iff)
  have m: "members (snd (leaveAllRooms c s)) = members s - set (rooms_of s c) \<times> {c}"
    using fold_leaveRoom_members [OF reg_inv_parts(1) [OF assms]] by (simp add: leaveAllRooms_def Let_def)
  have "members s - set (rooms_of s c) \<times> {c} = {p \<in> members s. snd p \<noteq> c}"
  proof (intro set_eqI iffI)
    fix p assume "p \<in> members s - set (rooms_of s c) \<times> {c}"
    then show "p \<in> {p \<in> members s. snd p \<noteq> c}" using eq [of "fst p"] by (cases p) auto
  next
    fix p assume "p \<in> {p \<in> members s. snd p \<noteq> c}"
    then show "p \<in> members s - set (rooms_of s c) \<times> {c}" by (cases p) auto
  qed
  with m show ?thesis by simp
qed

lemma rooms_of_fold_leaveRoom:
  "set (rooms_of (fold (leaveRoom c) rs s) c) = set (rooms_of s c) - set rs"
  by (induction rs arbitrary: s) auto

lemma rooms_of_leaveAllRooms [simp]: "rooms_of (snd (leaveAllRooms c s)) c = []"
  using rooms_of_fold_leaveRoom [of c "rooms_of s c" s] by (simp add: leaveAllRooms_def Let_def)

subsection \<open>Broadcast, presence and lookup\<close>

lemma map_of_fold_send:
  assumes "distinct cs"
  shows "map_of (fold (\<lambda>c st. if Some c = excl then st else send c m st) cs st) c' =
    (if c' \<in> set cs \<and> Some c' \<noteq> excl then map_option (deliver m) (map_of st c') else map_of st c')"
  using assms
proof (induction cs arbitrary: st)
  case Nil
  then show ?case by simp
next
  case (Cons a cs)
  then have "a \<notin> set cs" "distinct cs" by simp_all
  show ?case
  proof (cases "c' = a")
    case True
    with Cons.IH \<open>distinct cs\<close> \<open>a \<notin> set cs\<close> show ?thesis by simp
  next
    case False
    with Cons.IH \<open>distinct cs\<close> show ?thesis by simp
  qed
qed

lemma keys_fold_send [simp]:
  "map fst (fold (\<lambda>c st. if Some c = excl then st else send c m st) cs st) = map fst st"
  by (induction cs arbitrary: st) simp_all

lemma map_of_clients_broadcastToRoom:
  assumes "reg_inv s"
  shows "map_of (clients (broadcastToRoom r m excl s)) c =
    (if c \<in> set (conns_of s r) \<and> Some c \<noteq> excl then map_option (deliver m) (map_of (clients s) c)
     else map_of (clients s) c)"
proof (cases "map_of (registry s) r")
  case None
  then show ?thesis by (simp add: broadcastToRoom_def conns_of_def)
next
  case (Some cs)
  with reg_inv_parts(3) [OF assms] have "distinct cs"
    by (auto simp: list_all_iff dest: map_of_SomeD)
  with Some show ?thesis by (simp add: broadcastToRoom_def conns_of_def map_of_fold_send)
qed

lemma registry_broadcastToRoom [simp]: "registry (broadcastToRoom r m excl s) = registry s"
  by (simp add: broadcastToRoom_def split: option.split)

lemma keys_broadcastToRoom [simp]: "map fst (clients (broadcastToRoom r m excl s)) = map fst (clients s)"
  by (simp add: broadcastToRoom_def split: option.split)

lemma rooms_of_broadcastToRoom [simp]:
  assumes "reg_inv s" shows "rooms_of (broadcastToRoom r m excl s) c = rooms_of s c"
  using assms by (simp add: rooms_of_def map_of_clients_broadcastToRoom split: option.split)


theorem reg_inv_broadcastToRoom [reg_inv_rules]:
  assumes inv: "reg_inv s"
  shows "reg_inv (broadcastToRoom r m excl s)"
proof -
  let ?s' = "broadcastToRoom r m excl s"
  have d: "distinct (map fst (clients ?s'))" using reg_inv_parts(2) [OF inv] by simp
  have "socket_members ?s' = socket_members s"
    using d reg_inv_parts(2) [OF inv] by (auto simp: socket_members_iff rooms_of_broadcastToRoom [OF inv])
  moreover have "members ?s' = members s" by (simp add: members_def)
  moreover have "list_all (\<lambda>(c, w). distinct (ws_rooms w)) (clients ?s')"
    using reg_inv_parts(4) [OF inv] d reg_inv_parts(2) [OF inv]
    by (auto simp: list_all_alist_iff map_of_clients_broadcastToRoom [OF inv] split: if_splits)
  ultimately show ?thesis using reg_inv_parts [OF inv] d by (simp add: reg_inv_def)
qed

text \<open>C6. A room broadcast appends the event once to the outbox of each open connection of the room except the excluded one, and leaves every other connection's outbox unchanged.\<close>

theorem broadcastToRoom_outbox:
  assumes "reg_inv s" and "map_of (clients s) c = Some w"
  shows "map_option outbox (map_of (clients (broadcastToRoom r m excl s)) c) =
     Some (if c \<in> set (conns_of s r) \<and> Some c \<noteq> excl \<and> ready w = OPEN then outbox w @ [m] else outbox w)"
  using assms by (simp add: map_of_clients_broadcastToRoom outbox_deliver)

lemma set_getOnlineUsers:
  "set (getOnlineUsers r s) =
     {u. u \<noteq> [] \<and> (\<exists>c \<in> set (conns_of s r). \<exists>w. map_of (clients s) c = Some w \<and> ws_user w = Some u)}"
proof -
  have lu: "u \<in> set (live_user s c) \<longleftrightarrow> u \<noteq> [] \<and> (\<exists>w. map_of (clients s) c = Some w \<and> ws_user w = Some u)" for u c
    by (cases "map_of (clients s) c") (auto simp: live_user_def split: option.splits)
  show ?thesis
    by (auto simp: getOnlineUsers_def conns_of_def lu split: option.splits)
qed

lemma distinct_getOnlineUsers: "distinct (getOnlineUsers r s)"
  by (simp add: getOnlineUsers_def split: option.split)

lemma findUserWs_Some:
  assumes "distinct (map fst (clients s))" and "findUserWs u s = Some c"
  shows "\<exists>w. map_of (clients s) c = Some w \<and> ws_user w = Some u \<and> ready w = OPEN"
proof -
  from assms(2) obtain w where "find (\<lambda>(c, w). ws_user w = Some u \<and> ready w = OPEN) (clients s) = Some (c, w)"
    by (auto simp: findUserWs_def)
  then have "(c, w) \<in> set (clients s)" "ws_user w = Some u \<and> ready w = OPEN"
    by (auto dest: find_Some_mem)
  with assms(1) show ?thesis by (auto intro: map_of_is_SomeI)
qed

lemma findUserWs_None:
  "findUserWs u s = None \<longleftrightarrow> (\<forall>(c, w) \<in> set (clients s). \<not> (ws_user w = Some u \<and> ready w = OPEN))"
  by (auto simp: findUserWs_def find_None_iff)

subsection \<open>Frame lemmas\<close>

lemma user_joinRoom [simp]:
  "map_option ws_user (map_of (clients (joinRoom c r s)) c') = map_option ws_user (map_of (clients s) c')"
  "map_option ready (map_of (clients (joinRoom c r s)) c') = map_option ready (map_of (clients s) c')"
  "map_option outbox (map_of (clients (joinRoom c r s)) c') = map_option outbox (map_of (clients s) c')"
  by (cases "c' = c"; simp add: joinRoom_def option.map_comp comp_def)+

lemma user_leaveRoom [simp]:
  "map_option ws_user (map_of (clients (leaveRoom c r s)) c') = map_option ws_user (map_of (clients s) c')"
  "map_option ready (map_of (clients (leaveRoom c r s)) c') = map_option ready (map_of (clients s) c')"
  "map_option outbox (map_of (clients (leaveRoom c r s)) c') = map_option outbox (map_of (clients s) c')"
  by (cases "c' = c"; simp add: clients_leaveRoom option.map_comp comp_def)+

lemma map_of_clients_joinRoom_Some:
  "map_of (clients s) c = Some w \<Longrightarrow>
   map_of (clients (joinRoom c r s)) c = Some (w\<lparr>ws_rooms := set_add r (ws_rooms w)\<rparr>)"
  by (simp add: joinRoom_def)

lemma socket_rooms_distinct_iff:
  assumes "distinct (map fst (clients s))"
  shows "list_all (\<lambda>(c, w). distinct (ws_rooms w)) (clients s) \<longleftrightarrow> (\<forall>c. distinct (rooms_of s c))"
proof
  assume "list_all (\<lambda>(c, w). distinct (ws_rooms w)) (clients s)"
  then show "\<forall>c. distinct (rooms_of s c)"
    by (auto simp: rooms_of_def list_all_iff split: option.split dest: map_of_SomeD)
next
  assume a: "\<forall>c. distinct (rooms_of s c)"
  show "list_all (\<lambda>(c, w). distinct (ws_rooms w)) (clients s)"
  proof (clarsimp simp: list_all_iff)
    fix c w assume "(c, w) \<in> set (clients s)"
    with assms have "map_of (clients s) c = Some w" by (rule map_of_is_SomeI)
    with a [rule_format, of c] show "distinct (ws_rooms w)" by (simp add: rooms_of_def)
  qed
qed

lemma reg_inv_cong:
  assumes reg: "registry s' = registry s" and keys: "map fst (clients s') = map fst (clients s)"
    and rooms: "\<And>c. rooms_of s' c = rooms_of s c"
  shows "reg_inv s' = reg_inv s"
proof (cases "distinct (map fst (clients s))")
  case True
  then have d': "distinct (map fst (clients s'))" using keys by simp
  have "socket_members s' = socket_members s"
    using True d' by (auto simp: socket_members_iff rooms)
  moreover have "members s' = members s" using reg by (simp add: members_def)
  ultimately show ?thesis
    using True d' reg by (simp add: reg_inv_def socket_rooms_distinct_iff rooms)
next
  case False
  with keys show ?thesis by (simp add: reg_inv_def)
qed

end
