(* ===== verification/Auth.thy ===== *)
theory Auth
  imports Db
begin

text \<open>
  Credentials and session tokens, \<open>src/server/auth.js\<close>. The token store is the
  module-level \<open>Map\<close> from token to username, an association list here. bcrypt is an
  external library the code only calls (hashing and comparison run asynchronously in its
  thread pool); it is modelled as an ideal digest: \<open>verifyPassword p h\<close> holds exactly
  when \<open>h\<close> is the digest of \<open>p\<close>. Tokens are the \<open>uuidv4()\<close> values the caller
  supplies.
\<close>

type_synonym token_store = "(token \<times> username) list"

definition hashPassword :: "string \<Rightarrow> pw_hash" where
  "hashPassword p = Bcrypt p"

definition verifyPassword :: "string \<Rightarrow> pw_hash \<Rightarrow> bool" where
  "verifyPassword p h \<longleftrightarrow> h = Bcrypt p"

definition createToken :: "token \<Rightarrow> username \<Rightarrow> token_store \<Rightarrow> token \<times> token_store" where
  \<comment> \<open>the first argument is the fresh \<open>uuidv4()\<close>\<close>
  "createToken t u tokens = (t, AList.update t u tokens)"

definition verifyToken :: "token_store \<Rightarrow> token option \<Rightarrow> username option" where
  \<comment> \<open>\<open>tokens.get(token) || null\<close>; a missing token field is \<open>tokens.get(undefined)\<close>\<close>
  "verifyToken tokens t =
     (case t of None \<Rightarrow> None
      | Some k \<Rightarrow> (case map_of tokens k of Some u \<Rightarrow> if u \<noteq> [] then Some u else None | None \<Rightarrow> None))"

definition revokeToken :: "token \<Rightarrow> token_store \<Rightarrow> token_store" where
  "revokeToken t tokens = AList.delete t tokens"

section \<open>Token store lemmas\<close>

lemma verifyPassword_hashPassword [simp]: "verifyPassword p (hashPassword q) \<longleftrightarrow> p = q"
  by (auto simp: verifyPassword_def hashPassword_def)

lemma verifyToken_createToken:
  assumes "createToken t u tokens = (t', tokens')" and "u \<noteq> []"
  shows "verifyToken tokens' (Some t') = Some u"
  using assms by (auto simp: createToken_def verifyToken_def update_conv')

lemma verifyToken_createToken_other:
  "k \<noteq> t \<Longrightarrow> verifyToken (snd (createToken t u tokens)) (Some k) = verifyToken tokens (Some k)"
  by (simp add: createToken_def verifyToken_def update_conv')

lemma verifyToken_revokeToken [simp]: "verifyToken (revokeToken t tokens) (Some t) = None"
  by (simp add: revokeToken_def verifyToken_def delete_conv')

lemma verifyToken_Some_mem:
  "verifyToken tokens t = Some u \<Longrightarrow> \<exists>k. t = Some k \<and> (k, u) \<in> set tokens \<and> u \<noteq> []"
  by (auto simp: verifyToken_def split: option.splits if_splits dest: map_of_SomeD)

end
