(* ===== verification/Commands.thy ===== *)
theory Commands
  imports Protocol
begin

text \<open>
  The command executor, \<open>src/server/commands.js\<close>, and its two plugins
  \<open>src/server/commands/help.js\<close> and \<open>src/server/commands/system.js\<close>. The registry is
  the module-level \<open>Map\<close> from command name to description and handler, built once at
  load time by scanning the plugin directory (\<open>fs.readdirSync\<close>, which lists entries in
  name order). A plugin's handler is one constructor of \<open>plugin_handler\<close>.

  The invocation context gives a handler the broadcast capability of the room registry.
  This theory states it as a parameter \<open>bc :: string \<Rightarrow> out \<Rightarrow> 's \<Rightarrow> 's\<close> over any
  state type \<open>'s\<close>: the dispatcher instantiates it with \<open>broadcastToRoom\<close>, and the
  lemmas here hold for every such capability. \<open>uuidv4()\<close> and \<open>Date.now()\<close> inside a
  handler are the arguments \<open>uid\<close> and \<open>now\<close>.
\<close>

datatype plugin_handler = Help_handler | System_handler

record plugin =
  p_name :: "string option"
  p_description :: "string option"
  p_handler :: "plugin_handler option"

record command =
  cmd_description :: string
  cmd_handler :: plugin_handler

type_synonym cmd_registry = "(string \<times> command) list"

definition register :: "string \<Rightarrow> string \<Rightarrow> plugin_handler \<Rightarrow> cmd_registry \<Rightarrow> cmd_registry" where
  "register n d h reg = AList.update n \<lparr>cmd_description = d, cmd_handler = h\<rparr> reg"

definition commands_list :: "cmd_registry \<Rightarrow> (string \<times> string) list" where
  \<comment> \<open>\<open>list()\<close>\<close>
  "commands_list reg = map (\<lambda>(n, c). (n, cmd_description c)) reg"

definition help_plugin :: plugin where
  "help_plugin = \<lparr>p_name = Some ''help'', p_description = Some ''List available commands'',
     p_handler = Some Help_handler\<rparr>"

definition system_plugin :: plugin where
  "system_plugin = \<lparr>p_name = Some ''system'', p_description = Some ''Broadcast a system message to the room'',
     p_handler = Some System_handler\<rparr>"

definition plugin_files :: "(string \<times> plugin) list" where
  \<comment> \<open>the directory \<open>commands/\<close> as \<open>readdirSync\<close> lists it\<close>
  "plugin_files = [(''help.js'', help_plugin), (''system.js'', system_plugin)]"

definition load_plugin :: "cmd_registry \<Rightarrow> string \<times> plugin \<Rightarrow> cmd_registry" where
  "load_plugin reg f =
     (case f of (file, p) \<Rightarrow>
        if \<not> ends_with ''.js'' file then reg
        else (case (p_name p, p_description p, p_handler p) of
                (Some n, Some d, Some h) \<Rightarrow> if n \<noteq> [] \<and> d \<noteq> [] then register n d h reg else reg
              | _ \<Rightarrow> reg))"

definition discover :: "(string \<times> plugin) list \<Rightarrow> cmd_registry" where
  \<comment> \<open>the auto-discovery loop run when the module is loaded\<close>
  "discover files = fold (\<lambda>f reg. load_plugin reg f) files []"

definition registry0 :: cmd_registry where
  "registry0 = discover plugin_files"

definition help_text :: "cmd_registry \<Rightarrow> string" where
  "help_text reg = join_with ''\<newline>'' (map (\<lambda>(n, d). ''/'' @ n @ '' - '' @ d) (commands_list reg))"

definition template_room :: "string option \<Rightarrow> string" where
  \<comment> \<open>\<open>`${context.room}`\<close> when the frame had no \<open>room\<close>\<close>
  "template_room r = (case r of None \<Rightarrow> ''undefined'' | Some x \<Rightarrow> x)"

definition system_event :: "string \<Rightarrow> string \<Rightarrow> int \<Rightarrow> string \<Rightarrow> out" where
  "system_event uid r now text = Message_new \<lparr>ev_id = uid, ev_from = ''system'', ev_room = r,
     ev_timestamp = now, ev_message = text, ev_metadata = JObj [(''system'', JBool True)]\<rparr>"

fun run_handler :: "cmd_registry \<Rightarrow> plugin_handler \<Rightarrow> string \<Rightarrow> string option \<Rightarrow>
    (string \<Rightarrow> out \<Rightarrow> 's \<Rightarrow> 's) \<Rightarrow> string \<Rightarrow> int \<Rightarrow> 's \<Rightarrow> string \<times> 's" where
  "run_handler reg Help_handler args room bc uid now s = (help_text reg, s)"
| "run_handler reg System_handler args room bc uid now s =
     (if args = [] \<or> trim args = [] then (''Usage: /system <message>'', s)
      else (''System message sent to #'' @ template_room room,
            case room of None \<Rightarrow> s | Some r \<Rightarrow> bc r (system_event uid r now (trim args)) s))"

definition execute :: "cmd_registry \<Rightarrow> string \<Rightarrow> string \<Rightarrow> string option \<Rightarrow>
    (string \<Rightarrow> out \<Rightarrow> 's \<Rightarrow> 's) \<Rightarrow> string \<Rightarrow> int \<Rightarrow> 's \<Rightarrow> string option \<times> 's" where
  \<comment> \<open>\<open>null\<close> for an unknown name is \<open>None\<close>\<close>
  "execute reg n args room bc uid now s =
     (case map_of reg n of
        None \<Rightarrow> (None, s)
      | Some cmd \<Rightarrow> (case run_handler reg (cmd_handler cmd) args room bc uid now s of
                      (res, s') \<Rightarrow> (Some res, s')))"

section \<open>The capability interface\<close>

lemma execute_preserves:
  assumes "\<And>r m st. P st \<Longrightarrow> P (bc r m st)" and "P s"
    and "execute reg n args room bc uid t s = (res, s')"
  shows "P s'"
proof -
  have "P (snd (run_handler reg h args room bc uid t s))" for h
    using assms(1,2) by (cases h) (auto split: option.split)
  then show ?thesis using assms(2,3)
    by (auto simp: execute_def split: option.splits prod.splits dest: sym [THEN arg_cong [where f = snd]])
qed

end
