(* ===== verification/Server.thy ===== *)
theory Server
  imports Rooms Auth Commands
begin

text \<open>
  The process-wide state of the server and its configuration, \<open>src/server/config.js\<close>.
  One record extends the room registry's \<open>net\<close> (\<open>roomConnections\<close> and
  \<open>wss.clients\<close>) with the database, the token store of auth.js and the configured
  history limit; the command registry is the constant \<open>registry0\<close>, since nothing
  registers a command after start-up. Every handler takes the values of \<open>uuidv4()\<close> and
  \<open>Date.now()\<close> it uses as an \<open>env\<close>, and returns \<open>exn + server\<close>: \<open>Inl\<close> is an
  exception escaping the handler, which rejects the promise of the \<open>message\<close> listener.
\<close>

record server = net +
  db :: database
  tokens :: token_store
  history_limit :: int

record env =
  now :: int
  uuid :: string

datatype exn = Sql_exn sql_error | Bcrypt_exn string | Type_exn string

definition env_int :: "string option \<Rightarrow> int \<Rightarrow> int" where
  \<comment> \<open>\<open>parseInt(process.env.X, 10) || d\<close>: an unset variable parses as \<open>NaN\<close>; \<open>NaN\<close> and 0 fall back\<close>
  "env_int v d = int_or (Option.bind v parseInt10) d"

definition config_PORT :: "string option \<Rightarrow> int" where
  "config_PORT v = env_int v 3000"

definition config_DB_PATH :: "string option \<Rightarrow> string \<Rightarrow> string" where
  \<comment> \<open>\<open>process.env.DB_PATH || path.join(__dirname, 'agentchat.db')\<close>, \<open>__dirname\<close> given
      without a trailing separator\<close>
  "config_DB_PATH v dir = str_or v (dir @ ''/agentchat.db'')"

definition config_HISTORY_LIMIT :: "string option \<Rightarrow> int" where
  "config_HISTORY_LIMIT v = env_int v 100"

definition config_BCRYPT_ROUNDS :: "string option \<Rightarrow> int" where
  "config_BCRYPT_ROUNDS v = env_int v 10"

definition HEARTBEAT_INTERVAL :: nat where
  "HEARTBEAT_INTERVAL = 30000"

definition server_init :: "int \<Rightarrow> server" where
  \<comment> \<open>after \<open>db.init()\<close> on a fresh file and \<open>handler.setup(wss)\<close>, before any connection\<close>
  "server_init lim = \<lparr>registry = [], clients = [], db = Db.init, tokens = [], history_limit = lim\<rparr>"

definition with_db :: "server \<Rightarrow> sql_error + database \<Rightarrow> exn + server" where
  \<comment> \<open>a statement that throws propagates its \<open>SqliteError\<close>\<close>
  "with_db s r = (case r of Inl e \<Rightarrow> Inl (Sql_exn e) | Inr d \<Rightarrow> Inr (s\<lparr>db := d\<rparr>))"

definition reply :: "conn_id \<Rightarrow> out \<Rightarrow> server \<Rightarrow> server" where
  \<comment> \<open>\<open>protocol.send(ws, obj)\<close> on the server state\<close>
  "reply c m s = s\<lparr>clients := send c m (clients s)\<rparr>"

definition current_user :: "server \<Rightarrow> conn_id \<Rightarrow> username option" where
  \<comment> \<open>\<open>ws.user\<close> when truthy\<close>
  "current_user s c =
     (case map_of (clients s) c of
        None \<Rightarrow> None
      | Some w \<Rightarrow> (case ws_user w of None \<Rightarrow> None | Some u \<Rightarrow> if u \<noteq> [] then Some u else None))"

definition user_info_of :: "user_row \<Rightarrow> user_info" where
  "user_info_of u = \<lparr>ui_username = user_username u, ui_avatar = user_avatar u, ui_about = user_about u\<rparr>"

section \<open>State lemmas\<close>

lemma with_db_simps [simp]:
  "with_db s (Inl e) = Inl (Sql_exn e)" "with_db s (Inr d) = Inr (s\<lparr>db := d\<rparr>)"
  by (simp_all add: with_db_def)

lemma reply_simps [simp]:
  "registry (reply c m s) = registry s" "db (reply c m s) = db s" "tokens (reply c m s) = tokens s"
  "history_limit (reply c m s) = history_limit s" "map fst (clients (reply c m s)) = map fst (clients s)"
  by (simp_all add: reply_def)

lemma rooms_of_reply [simp]: "rooms_of (reply c m s) c' = rooms_of s c'"
  by (cases "c' = c") (simp_all add: rooms_of_def reply_def split: option.split)

lemma map_of_reply:
  "map_of (clients (reply c m s)) c' = (if c' = c then map_option (deliver m) (map_of (clients s) c') else map_of (clients s) c')"
  by (simp add: reply_def)

lemma members_reply [simp]: "members (reply c m s) = members s"
  by (simp add: members_def)

lemma socket_members_reply [simp]:
  "distinct (map fst (clients s)) \<Longrightarrow> socket_members (reply c m s) = socket_members s"
proof -
  assume d: "distinct (map fst (clients s))"
  then have "distinct (map fst (clients (reply c m s)))" by simp
  with d show ?thesis by (auto simp: socket_members_iff)
qed

lemma server_fields_joinRoom [simp]:
  "db (joinRoom c r s) = db s" "tokens (joinRoom c r s) = tokens s"
  "history_limit (joinRoom c r s) = history_limit s"
  by (simp_all add: joinRoom_def)

lemma server_fields_leaveRoom [simp]:
  "db (leaveRoom c r s) = db s" "tokens (leaveRoom c r s) = tokens s"
  "history_limit (leaveRoom c r s) = history_limit s"
  by (simp_all add: leaveRoom_def Let_def split: option.split)

lemma server_fields_fold_leaveRoom [simp]:
  "db (fold (leaveRoom c) rs s) = db s" "tokens (fold (leaveRoom c) rs s) = tokens s"
  "history_limit (fold (leaveRoom c) rs s) = history_limit s"
  by (induction rs arbitrary: s) simp_all

lemma server_fields_broadcastToRoom [simp]:
  "db (broadcastToRoom r m excl s) = db s" "tokens (broadcastToRoom r m excl s) = tokens s"
  "history_limit (broadcastToRoom r m excl s) = history_limit s"
  by (simp_all add: broadcastToRoom_def split: option.split)

theorem reg_inv_reply [reg_inv_rules]:
  assumes inv: "reg_inv s"
  shows "reg_inv (reply c m s)"
proof -
  have d: "distinct (map fst (clients (reply c m s)))" using reg_inv_parts(2) [OF inv] by simp
  have "list_all (\<lambda>(c, w). distinct (ws_rooms w)) (clients (reply c m s))"
    using reg_inv_parts(2,4) [OF inv] d by (auto simp: list_all_alist_iff map_of_reply split: if_splits)
  then show ?thesis
    using reg_inv_parts [OF inv] d socket_members_reply [OF reg_inv_parts(2) [OF inv]]
    by (simp add: reg_inv_def)
qed

lemma live_user_db_update [simp]: "live_user (s\<lparr>db := d\<rparr>) = live_user s"
  by (simp add: fun_eq_iff live_user_def)

lemma getOnlineUsers_db_update [simp]: "getOnlineUsers r (s\<lparr>db := d\<rparr>) = getOnlineUsers r s"
  unfolding getOnlineUsers_def by (simp only: live_user_db_update) simp

lemma net_view_db_update [simp]:
  "conns_of (s\<lparr>db := d\<rparr>) = conns_of s" "rooms_of (s\<lparr>db := d\<rparr>) = rooms_of s"
  "findUserWs u (s\<lparr>db := d\<rparr>) = findUserWs u s"
  "reg_inv (s\<lparr>db := d\<rparr>) = reg_inv s" "current_user (s\<lparr>db := d\<rparr>) = current_user s"
  by (simp_all add: fun_eq_iff conns_of_def rooms_of_def getOnlineUsers_def findUserWs_def
      reg_inv_def members_def socket_members_def current_user_def)

lemma net_view_tokens_update [simp]:
  "conns_of (s\<lparr>tokens := t\<rparr>) = conns_of s" "rooms_of (s\<lparr>tokens := t\<rparr>) = rooms_of s"
  "reg_inv (s\<lparr>tokens := t\<rparr>) = reg_inv s" "current_user (s\<lparr>tokens := t\<rparr>) = current_user s"
  by (simp_all add: fun_eq_iff conns_of_def rooms_of_def reg_inv_def members_def socket_members_def current_user_def)

lemma conns_of_reply [simp]: "conns_of (reply c m s) = conns_of s"
  by (simp add: fun_eq_iff conns_of_def)

lemma conns_of_broadcastToRoom [simp]: "conns_of (broadcastToRoom r m excl s) = conns_of s"
  by (simp add: fun_eq_iff conns_of_def)

lemma sbind_with_db_Inr: "sbind (with_db s r) f = Inr s' \<longleftrightarrow> (\<exists>d. r = Inr d \<and> f (s\<lparr>db := d\<rparr>) = Inr s')"
  by (cases r) auto

text \<open>C36. \<open>parseInt(process.env.HISTORY_LIMIT, 10) || 100\<close> reads back the integer printed into the variable, except 0, which becomes 100.\<close>

theorem config_HISTORY_LIMIT_roundtrip:
  assumes "list_all is_js_space ws" "rest = [] \<or> \<not> is_digit (hd rest)"
  shows "config_HISTORY_LIMIT (Some (ws @ int_to_dec n @ rest)) = (if n = 0 then 100 else n)"
  using parseInt10_int_to_dec [OF assms] by (simp add: config_HISTORY_LIMIT_def env_int_def)

end
