(* ===== verification/Messages.thy ===== *)
theory Messages
  imports Server
begin

text \<open>
  Room messages and direct messages, \<open>src/server/messages.js\<close>. Both handlers are
  synchronous; a statement that throws (an \<open>INSERT\<close> violating a constraint) ends the
  handler with the exception, after the writes made before it. The sender's name is the
  socket's bound user \<open>u\<close>, which the dispatcher has checked.
\<close>

definition message_meta :: "frame \<Rightarrow> json" where
  \<comment> \<open>\<open>metadata || {}\<close>\<close>
  "message_meta msg = json_or (f_metadata msg) (JObj [])"

definition handleSendMessage :: "conn_id \<Rightarrow> username \<Rightarrow> frame \<Rightarrow> env \<Rightarrow> server \<Rightarrow> exn + server" where
  "handleSendMessage c u msg e s =
     (case (f_room msg, f_message msg) of
        (Some room, Some text) \<Rightarrow>
          if room = [] \<or> text = [] then Inr (reply c (System_error ''Missing room or message'') s)
          else if room \<notin> set (rooms_of s c) then Inr (reply c (System_error ''You have not joined this room'') s)
          else
            (let ev = \<lparr>ev_id = uuid e, ev_from = u, ev_room = room, ev_timestamp = now e,
                       ev_message = text, ev_metadata = message_meta msg\<rparr>
             in sbind (with_db s (saveMessage (db s) (uuid e) room u text (message_meta msg) (now e)))
                  (\<lambda>s'. Inr (broadcastToRoom room (Message_new ev) None s')))
      | _ \<Rightarrow> Inr (reply c (System_error ''Missing room or message'') s))"

definition handleDMSend :: "conn_id \<Rightarrow> username \<Rightarrow> frame \<Rightarrow> env \<Rightarrow> server \<Rightarrow> exn + server" where
  "handleDMSend c u msg e s =
     (case (f_to msg, f_message msg) of
        (Some to, Some text) \<Rightarrow>
          if to = [] \<or> text = [] then Inr (reply c (System_error ''Missing recipient or message'') s)
          else if getUser (db s) to = None then Inr (reply c (System_error ''User not found'') s)
          else
            (let ev = \<lparr>de_id = uuid e, de_from = u, de_to = to, de_timestamp = now e,
                       de_message = text, de_metadata = message_meta msg\<rparr>
             in sbind (with_db s (saveDM (db s) (uuid e) u to text (message_meta msg) (now e)))
                  (\<lambda>s1. let s2 = (case findUserWs to s1 of None \<Rightarrow> s1 | Some rc \<Rightarrow> reply rc (Dm_new ev) s1)
                        in Inr (reply c (Dm_new ev) s2)))
      | _ \<Rightarrow> Inr (reply c (System_error ''Missing recipient or message'') s))"

section \<open>Room messages\<close>

text \<open>C1. A room message from a connection that has not joined the room is refused with the error reply \<open>You have not joined this room\<close>; the resulting state is the old one with only that reply added, so nothing is persisted or broadcast.\<close>

theorem handleSendMessage_not_joined:
  assumes "f_room msg = Some room" "room \<noteq> []" "truthy (f_message msg)"
    and "room \<notin> set (rooms_of s c)"
  shows "handleSendMessage c u msg e s = Inr (reply c (System_error ''You have not joined this room'') s)"
  using assms by (auto simp: handleSendMessage_def truthy_Some_iff)

lemma saveMessage_ok:
  assumes "\<not> msg_id_taken d i" "room_exists d room" "user_exists d u"
  shows "saveMessage d i room u text meta ts = Inr (d\<lparr>messages := messages d @
     [\<lparr>msg_id = i, msg_room = room, msg_sender = u, msg_message = text, msg_metadata = meta, msg_timestamp = ts\<rparr>]\<rparr>)"
  using assms by (simp add: saveMessage_def)

text \<open>C2. A room message from a joined connection is saved as one new row of the messages table and the same \<open>message:new\<close> event is delivered once to every open connection of the room, the sender included; other sockets are unchanged.\<close>

theorem handleSendMessage_delivers:
  assumes inv: "reg_inv s"
    and msg: "f_room msg = Some room" "room \<noteq> []" "f_message msg = Some text" "text \<noteq> []"
    and joined: "room \<in> set (rooms_of s c)"
    and fresh: "\<not> msg_id_taken (db s) (uuid e)"
    and fk: "room_exists (db s) room" "user_exists (db s) u"
  defines "ev \<equiv> \<lparr>ev_id = uuid e, ev_from = u, ev_room = room, ev_timestamp = now e,
                  ev_message = text, ev_metadata = message_meta msg\<rparr>"
  shows "\<exists>s'. handleSendMessage c u msg e s = Inr s'
     \<and> messages (db s') = messages (db s) @ [\<lparr>msg_id = uuid e, msg_room = room, msg_sender = u,
          msg_message = text, msg_metadata = message_meta msg, msg_timestamp = now e\<rparr>]
     \<and> (\<forall>c'. map_of (clients s') c' =
          (if c' \<in> set (conns_of s room) then map_option (deliver (Message_new ev)) (map_of (clients s) c')
           else map_of (clients s) c'))"
proof -
  let ?s1 = "s\<lparr>db := (db s)\<lparr>messages := messages (db s) @ [\<lparr>msg_id = uuid e, msg_room = room, msg_sender = u,
          msg_message = text, msg_metadata = message_meta msg, msg_timestamp = now e\<rparr>]\<rparr>\<rparr>"
  have inv1: "reg_inv ?s1" using inv by (simp add: reg_inv_def members_def socket_members_def)
  have "handleSendMessage c u msg e s = Inr (broadcastToRoom room (Message_new ev) None ?s1)"
    using msg joined saveMessage_ok [OF fresh fk] by (simp add: handleSendMessage_def ev_def)
  moreover have "conns_of ?s1 room = conns_of s room" by (simp add: conns_of_def)
  ultimately show ?thesis
    using map_of_clients_broadcastToRoom [OF inv1, of room "Message_new ev" None] by simp
qed

section \<open>Direct messages\<close>

text \<open>C7. A direct message to an unknown user is refused with the error reply \<open>User not found\<close>; nothing is persisted and no \<open>dm:new\<close> event is sent.\<close>

theorem handleDMSend_unknown_recipient:
  assumes "f_to msg = Some to" "to \<noteq> []" "truthy (f_message msg)"
    and "getUser (db s) to = None"
  shows "handleDMSend c u msg e s = Inr (reply c (System_error ''User not found'') s)"
  using assms by (auto simp: handleDMSend_def truthy_Some_iff)

lemma saveDM_ok:
  assumes "\<not> dm_id_taken d i" "user_exists d u" "user_exists d v"
  shows "saveDM d i u v text meta ts = Inr (d\<lparr>direct_messages := direct_messages d @
     [\<lparr>dm_id = i, dm_sender = u, dm_recipient = v, dm_message = text, dm_metadata = meta, dm_timestamp = ts\<rparr>]\<rparr>)"
  using assms by (simp add: saveDM_def)

text \<open>C29. A direct message is saved once, delivered to the recipient's first open connection and echoed to the sender; a direct message to oneself reaches the sending socket twice.\<close>

theorem handleDMSend_delivers:
  assumes inv: "reg_inv s" and msg: "f_to msg = Some to" "to \<noteq> []" "f_message msg = Some text" "text \<noteq> []"
    and db: "getUser (db s) to \<noteq> None" "\<not> dm_id_taken (db s) (uuid e)" "user_exists (db s) u"
    and c: "map_of (clients s) c = Some w" "ready w = OPEN"
  defines "ev \<equiv> Dm_new \<lparr>de_id = uuid e, de_from = u, de_to = to, de_timestamp = now e, de_message = text,
    de_metadata = message_meta msg\<rparr>"
  shows "\<exists>s'. handleDMSend c u msg e s = Inr s'
    \<and> direct_messages (db s') = direct_messages (db s) @ [\<lparr>dm_id = uuid e, dm_sender = u, dm_recipient = to,
         dm_message = text, dm_metadata = message_meta msg, dm_timestamp = now e\<rparr>]
    \<and> map_option outbox (map_of (clients s') c) = Some (outbox w @ (if findUserWs to s = Some c then [ev, ev] else [ev]))
    \<and> (\<forall>rc w'. findUserWs to s = Some rc \<longrightarrow> rc \<noteq> c \<longrightarrow> map_of (clients s) rc = Some w'
         \<longrightarrow> map_option outbox (map_of (clients s') rc) = Some (outbox w' @ [ev]))"
proof -
  have ex: "user_exists (db s) to" using db(1) by (auto simp: getUser_def user_exists_def find_None_iff)
  let ?d = "(db s)\<lparr>direct_messages := direct_messages (db s) @ [\<lparr>dm_id = uuid e, dm_sender = u, dm_recipient = to,
         dm_message = text, dm_metadata = message_meta msg, dm_timestamp = now e\<rparr>]\<rparr>"
  let ?s1 = "s\<lparr>db := ?d\<rparr>"
  let ?ev = "Dm_new \<lparr>de_id = uuid e, de_from = u, de_to = to, de_timestamp = now e, de_message = text,
    de_metadata = message_meta msg\<rparr>"
  let ?s2 = "case findUserWs to ?s1 of None \<Rightarrow> ?s1 | Some rc \<Rightarrow> reply rc ?ev ?s1"
  have run: "handleDMSend c u msg e s = Inr (reply c ?ev ?s2)"
    using msg saveDM_ok [OF db(2,3) ex] by (simp add: handleDMSend_def with_db_def db(1) Let_def)
  have f: "findUserWs to ?s1 = findUserWs to s" by (simp add: findUserWs_def)
  have dk: "distinct (map fst (clients s))" using inv by (simp add: reg_inv_def)
  show ?thesis
  proof (cases "findUserWs to s")
    case None
    then show ?thesis using run f c by (simp add: map_of_reply outbox_deliver ev_def)
  next
    case (Some rc)
    obtain wr where wr: "map_of (clients s) rc = Some wr" "ready wr = OPEN"
      using findUserWs_Some [OF dk Some] by blast
    show ?thesis
    proof (cases "rc = c")
      case True
      then show ?thesis using run f c Some by (simp add: map_of_reply deliver_def ev_def)
    next
      case False
      then show ?thesis using run f c Some wr by (auto simp: map_of_reply deliver_def ev_def)
    qed
  qed
qed

end
