(* ===== verification/Handler.thy ===== *)
theory Handler
  imports Messages
begin

text \<open>
  The protocol dispatcher, \<open>src/server/handler.js\<close>: the \<open>connection\<close>, \<open>message\<close>,
  \<open>pong\<close> and \<open>close\<close> listeners of \<open>setup\<close>, the heartbeat interval, and the
  family handlers \<open>handleAuth\<close>, \<open>handleRoom\<close>, \<open>handleMessage\<close>, \<open>handleDM\<close>,
  \<open>handleCommand\<close>. Each handler runs to completion as one step on the server state
  (the \<open>await\<close>s on bcrypt and on the command executor are taken as atomic here). A
  handler returns \<open>Inl\<close> when an exception escapes it: the promise of the \<open>async\<close>
  message listener then rejects unhandled.

  The socket events a run consists of are the constructors of \<open>event\<close>; \<open>step\<close>
  applies one, and \<open>reachable\<close> collects the states of every run from
  \<open>server_init\<close>.
\<close>

section \<open>Authentication family\<close>

definition RESERVED_USERNAMES :: "string list" where
  "RESERVED_USERNAMES = [''system'']"

definition bind_user :: "conn_id \<Rightarrow> username \<Rightarrow> server \<Rightarrow> server" where
  \<comment> \<open>\<open>ws.user = username\<close>\<close>
  "bind_user c u s = s\<lparr>clients := ws_update c (\<lambda>w. w\<lparr>ws_user := Some u\<rparr>) (clients s)\<rparr>"

definition auth_error :: "conn_id \<Rightarrow> string \<Rightarrow> server \<Rightarrow> exn + server" where
  "auth_error c m s = Inr (reply c (Auth_error m) s)"

definition auth_register :: "conn_id \<Rightarrow> frame \<Rightarrow> env \<Rightarrow> server \<Rightarrow> exn + server" where
  "auth_register c msg e s =
     (case (f_username msg, f_password msg) of
        (Some u, Some p) \<Rightarrow>
          if u = [] \<or> p = [] then auth_error c ''Username and password required'' s
          else if to_lower u \<in> set RESERVED_USERNAMES then auth_error c ''Username is reserved'' s
          else if getUser (db s) u \<noteq> None then auth_error c ''Username already taken'' s
          else sbind (with_db s (createUser (db s) u (hashPassword p) (now e)))
                 (\<lambda>s1. case createToken (uuid e) u (tokens s1) of
                         (tk, tks) \<Rightarrow>
                           (let s2 = bind_user c u (s1\<lparr>tokens := tks\<rparr>)
                            in case getUser (db s2) u of
                                 None \<Rightarrow> Inl (Type_exn ''user is undefined'')
                               | Some row \<Rightarrow> Inr (reply c (Auth_success tk (user_info_of row)) s2)))
      | _ \<Rightarrow> auth_error c ''Username and password required'' s)"

definition auth_login :: "conn_id \<Rightarrow> frame \<Rightarrow> env \<Rightarrow> server \<Rightarrow> exn + server" where
  "auth_login c msg e s =
     (case (f_username msg, f_password msg) of
        (Some u, Some p) \<Rightarrow>
          if u = [] \<or> p = [] then auth_error c ''Username and password required'' s
          else (case getUser (db s) u of
                  None \<Rightarrow> auth_error c ''Invalid credentials'' s
                | Some row \<Rightarrow>
                    if \<not> verifyPassword p (user_password row) then auth_error c ''Invalid credentials'' s
                    else (case createToken (uuid e) u (tokens s) of
                            (tk, tks) \<Rightarrow>
                              Inr (reply c (Auth_success tk (user_info_of row))
                                     (bind_user c u (s\<lparr>tokens := tks\<rparr>)))))
      | _ \<Rightarrow> auth_error c ''Username and password required'' s)"

definition auth_resume :: "conn_id \<Rightarrow> frame \<Rightarrow> server \<Rightarrow> exn + server" where
  "auth_resume c msg s =
     (case f_token msg of
        None \<Rightarrow> auth_error c ''Invalid or expired token'' s
      | Some tk \<Rightarrow>
          (case verifyToken (tokens s) (Some tk) of
             None \<Rightarrow> auth_error c ''Invalid or expired token'' s
           | Some u \<Rightarrow>
               (let s1 = bind_user c u s
                in case getUser (db s1) u of
                     None \<Rightarrow> Inl (Type_exn ''user is undefined'')
                   | Some row \<Rightarrow> Inr (reply c (Auth_success tk (user_info_of row)) s1))))"

definition auth_change_password :: "conn_id \<Rightarrow> frame \<Rightarrow> server \<Rightarrow> exn + server" where
  \<comment> \<open>bcrypt rejects a missing (\<open>undefined\<close>) password argument\<close>
  "auth_change_password c msg s =
     (case current_user s c of
        None \<Rightarrow> auth_error c ''Not authenticated'' s
      | Some u \<Rightarrow>
          (case getUser (db s) u of
             None \<Rightarrow> Inl (Type_exn ''user is undefined'')
           | Some row \<Rightarrow>
               (case f_oldPassword msg of
                  None \<Rightarrow> Inl (Bcrypt_exn ''data and hash arguments required'')
                | Some old \<Rightarrow>
                    if \<not> verifyPassword old (user_password row) then auth_error c ''Incorrect current password'' s
                    else (case f_newPassword msg of
                            None \<Rightarrow> Inl (Bcrypt_exn ''data and salt arguments required'')
                          | Some np \<Rightarrow>
                              Inr (reply c Auth_password_changed
                                     (s\<lparr>db := updatePassword (db s) u (hashPassword np)\<rparr>))))))"

definition auth_update_profile :: "conn_id \<Rightarrow> frame \<Rightarrow> server \<Rightarrow> exn + server" where
  "auth_update_profile c msg s =
     (case current_user s c of
        None \<Rightarrow> auth_error c ''Not authenticated'' s
      | Some u \<Rightarrow>
          (case getUser (db s) u of
             None \<Rightarrow> Inl (Type_exn ''user is undefined'')
           | Some row \<Rightarrow>
               (let d1 = updateProfile (db s) u (nullish_or (f_avatar msg) (user_avatar row))
                                              (nullish_or (f_about msg) (user_about row))
                in case getUser d1 u of
                     None \<Rightarrow> Inl (Type_exn ''updated is undefined'')
                   | Some upd \<Rightarrow> Inr (reply c (Auth_profile_updated (user_info_of upd)) (s\<lparr>db := d1\<rparr>)))))"

definition handleAuth :: "conn_id \<Rightarrow> frame \<Rightarrow> env \<Rightarrow> server \<Rightarrow> exn + server" where
  "handleAuth c msg e s =
     (case f_type msg of
        None \<Rightarrow> Inr s
      | Some t \<Rightarrow>
          if t = ''auth:register'' then auth_register c msg e s
          else if t = ''auth:login'' then auth_login c msg e s
          else if t = ''auth:resume'' then auth_resume c msg s
          else if t = ''auth:change_password'' then auth_change_password c msg s
          else if t = ''auth:update_profile'' then auth_update_profile c msg s
          else Inr s)"

section \<open>Room family\<close>

definition room_error :: "conn_id \<Rightarrow> string \<Rightarrow> server \<Rightarrow> exn + server" where
  "room_error c m s = Inr (reply c (Room_error m) s)"

definition room_list :: "server \<Rightarrow> room_summary list" where
  "room_list s =
     map (\<lambda>r. \<lparr>rs_name = room_name r, rs_description = room_description r, rs_metadata = room_metadata r,
               rs_userCount = length (getOnlineUsers (room_name r) s)\<rparr>) (getRooms (db s))"

definition room_create :: "conn_id \<Rightarrow> username \<Rightarrow> frame \<Rightarrow> env \<Rightarrow> server \<Rightarrow> exn + server" where
  "room_create c u msg e s =
     (case f_name msg of
        None \<Rightarrow> room_error c ''Room name required'' s
      | Some n \<Rightarrow>
          if n = [] then room_error c ''Room name required'' s
          else if getRoom (db s) n \<noteq> None then room_error c ''Room already exists'' s
          else sbind (with_db s (createRoom (db s) n (str_or (f_description msg) []) (message_meta msg) u (now e)))
                 (\<lambda>s1. Inr (reply c (Room_created (getRoom (db s1) n)) s1)))"

definition room_join :: "conn_id \<Rightarrow> username \<Rightarrow> frame \<Rightarrow> env \<Rightarrow> server \<Rightarrow> exn + server" where
  "room_join c u msg e s =
     (case f_room msg of
        None \<Rightarrow> room_error c ''Room name required'' s
      | Some r \<Rightarrow>
          if r = [] then room_error c ''Room name required'' s
          else if getRoom (db s) r = None then room_error c ''Room does not exist'' s
          else sbind (with_db s (addRoomMember (db s) r u (now e)))
                 (\<lambda>s1. let s2 = joinRoom c r s1;
                           s3 = broadcastToRoom r (Room_joined r u) None s2
                       in Inr (reply c (Room_joined r u) s3)))"

definition room_leave :: "conn_id \<Rightarrow> username \<Rightarrow> frame \<Rightarrow> server \<Rightarrow> exn + server" where
  "room_leave c u msg s =
     (case f_room msg of
        None \<Rightarrow> room_error c ''Room name required'' s
      | Some r \<Rightarrow>
          if r = [] then room_error c ''Room name required'' s
          else (let s1 = broadcastToRoom r (Room_left r u) None s;
                    s2 = leaveRoom c r s1;
                    s3 = s2\<lparr>db := removeRoomMember (db s2) r u\<rparr>
                in Inr (reply c (Room_left r u) s3)))"

definition room_users :: "conn_id \<Rightarrow> frame \<Rightarrow> server \<Rightarrow> exn + server" where
  "room_users c msg s =
     (case f_room msg of
        None \<Rightarrow> room_error c ''Room name required'' s
      | Some r \<Rightarrow>
          if r = [] then room_error c ''Room name required'' s
          else Inr (reply c (Room_users r
                 (map (\<lambda>un. \<lparr>ou_username = un,
                             ou_avatar = (case getUser (db s) un of Some row \<Rightarrow> user_avatar row | None \<Rightarrow> [])\<rparr>)
                      (getOnlineUsers r s))) s))"

definition room_history :: "conn_id \<Rightarrow> frame \<Rightarrow> server \<Rightarrow> exn + server" where
  "room_history c msg s =
     (case f_room msg of
        None \<Rightarrow> room_error c ''Room name required'' s
      | Some r \<Rightarrow>
          if r = [] then room_error c ''Room name required'' s
          else Inr (reply c (Room_history r
                 (getMessages (history_limit s) (db s) r (int_or (f_limit msg) (history_limit s)))) s))"

definition handleRoom :: "conn_id \<Rightarrow> username \<Rightarrow> frame \<Rightarrow> env \<Rightarrow> server \<Rightarrow> exn + server" where
  "handleRoom c u msg e s =
     (case f_type msg of
        None \<Rightarrow> Inr s
      | Some t \<Rightarrow>
          if t = ''room:list'' then Inr (reply c (Room_list (room_list s)) s)
          else if t = ''room:create'' then room_create c u msg e s
          else if t = ''room:join'' then room_join c u msg e s
          else if t = ''room:leave'' then room_leave c u msg s
          else if t = ''room:users'' then room_users c msg s
          else if t = ''room:history'' then room_history c msg s
          else Inr s)"

section \<open>Message, direct-message and command families\<close>

definition handleMessage :: "conn_id \<Rightarrow> username \<Rightarrow> frame \<Rightarrow> env \<Rightarrow> server \<Rightarrow> exn + server" where
  "handleMessage c u msg e s =
     (if f_type msg = Some ''message:send'' then handleSendMessage c u msg e s else Inr s)"

definition handleDM :: "conn_id \<Rightarrow> username \<Rightarrow> frame \<Rightarrow> env \<Rightarrow> server \<Rightarrow> exn + server" where
  "handleDM c u msg e s =
     (case f_type msg of
        None \<Rightarrow> Inr s
      | Some t \<Rightarrow>
          if t = ''dm:send'' then handleDMSend c u msg e s
          else if t = ''dm:history'' then
            (case f_with msg of
               Some w \<Rightarrow> if w = [] then Inr (reply c (System_error ''Missing user'') s)
                         else Inr (reply c (Dm_history w
                                (getDMs (history_limit s) (db s) u w (int_or (f_limit msg) (history_limit s)))) s)
             | None \<Rightarrow> Inr (reply c (System_error ''Missing user'') s))
          else if t = ''dm:list'' then Inr (reply c (Dm_list (getDMConversations (db s) u)) s)
          else Inr s)"

definition room_broadcast :: "string \<Rightarrow> out \<Rightarrow> server \<Rightarrow> server" where
  \<comment> \<open>the context's \<open>broadcast: (r, obj) => rooms.broadcastToRoom(r, obj)\<close>\<close>
  "room_broadcast r m s = broadcastToRoom r m None s"

definition handleCommand :: "conn_id \<Rightarrow> username \<Rightarrow> frame \<Rightarrow> env \<Rightarrow> server \<Rightarrow> exn + server" where
  "handleCommand c u msg e s =
     (case f_type msg of
        None \<Rightarrow> Inr s
      | Some t \<Rightarrow>
          if t = ''command:send'' then
            (case f_command msg of
               None \<Rightarrow> Inr (reply c (Command_error None ''Missing command'') s)
             | Some cmd \<Rightarrow>
                 if cmd = [] then Inr (reply c (Command_error None ''Missing command'') s)
                 else (case execute registry0 cmd (str_or (f_args msg) []) (f_room msg) room_broadcast
                              (uuid e) (now e) s of
                         (None, s1) \<Rightarrow> Inr (reply c (Command_error (Some cmd) ''Unknown command'') s1)
                       | (Some res, s1) \<Rightarrow> Inr (reply c (Command_result (f_room msg) cmd res) s1)))
          else if t = ''command:list'' then Inr (reply c (Command_list (commands_list registry0)) s)
          else Inr s)"

section \<open>Listeners of a connection\<close>

definition onMessage :: "conn_id \<Rightarrow> frame option \<Rightarrow> env \<Rightarrow> server \<Rightarrow> exn + server" where
  "onMessage c raw e s =
     (case raw of
        None \<Rightarrow> Inr (reply c (System_error ''Invalid message'') s)
      | Some msg \<Rightarrow>
          (case f_type msg of
             None \<Rightarrow> Inr (reply c (System_error ''Invalid message'') s)
           | Some t \<Rightarrow>
               if t = [] then Inr (reply c (System_error ''Invalid message'') s)
               else if starts_with ''auth:'' t then handleAuth c msg e s
               else (case current_user s c of
                       None \<Rightarrow> Inr (reply c (System_error ''Not authenticated'') s)
                     | Some u \<Rightarrow>
                         if starts_with ''room:'' t then handleRoom c u msg e s
                         else if starts_with ''message:'' t then handleMessage c u msg e s
                         else if starts_with ''dm:'' t then handleDM c u msg e s
                         else if starts_with ''command:'' t then handleCommand c u msg e s
                         else if t = ''ping'' then Inr (reply c Pong s)
                         else Inr s)))"

definition onConnection :: "conn_id \<Rightarrow> server \<Rightarrow> server" where
  \<comment> \<open>a new socket joins \<open>wss.clients\<close> with the fields the listener initialises\<close>
  "onConnection c s =
     (if c \<in> set (map fst (clients s)) then s else s\<lparr>clients := clients s @ [(c, new_ws)]\<rparr>)"

definition onPong :: "conn_id \<Rightarrow> server \<Rightarrow> server" where
  "onPong c s = s\<lparr>clients := ws_update c (\<lambda>w. w\<lparr>is_alive := True\<rparr>) (clients s)\<rparr>"

definition onClose :: "conn_id \<Rightarrow> server \<Rightarrow> server" where
  \<comment> \<open>the handler's cleanup, then the socket leaves \<open>wss.clients\<close>\<close>
  "onClose c s =
     (let u = current_user s c;
          (left, s1) = leaveAllRooms c s;
          s2 = (case u of
                  None \<Rightarrow> s1
                | Some un \<Rightarrow> fold (\<lambda>r st. broadcastToRoom r (Presence_offline un r) None st) left s1)
      in s2\<lparr>clients := AList.delete c (clients s2)\<rparr>)"

definition terminate :: "ws \<Rightarrow> ws" where
  \<comment> \<open>\<open>ws.terminate()\<close>: the socket is destroyed; its \<open>close\<close> event follows\<close>
  "terminate w = (if ready w = CLOSED then w else w\<lparr>ready := CLOSING\<rparr>)"

definition heartbeat_ws :: "ws \<Rightarrow> ws" where
  \<comment> \<open>one iteration of the interval callback; the ping control frame is not recorded\<close>
  "heartbeat_ws w = (if \<not> is_alive w then terminate w else w\<lparr>is_alive := False\<rparr>)"

definition heartbeat :: "server \<Rightarrow> server" where
  "heartbeat s = s\<lparr>clients := map (\<lambda>(c, w). (c, heartbeat_ws w)) (clients s)\<rparr>"

section \<open>Runs\<close>

datatype event =
    Connection conn_id
  | Message conn_id "frame option"
  | Pong_received conn_id
  | Close conn_id
  | Heartbeat_tick

definition is_open :: "server \<Rightarrow> conn_id \<Rightarrow> bool" where
  "is_open s c \<longleftrightarrow> (case map_of (clients s) c of Some w \<Rightarrow> ready w = OPEN | None \<Rightarrow> False)"

fun step :: "server \<Rightarrow> env \<Rightarrow> event \<Rightarrow> exn + server" where
  "step s e (Connection c) = Inr (onConnection c s)"
| "step s e (Message c raw) = (if is_open s c then onMessage c raw e s else Inr s)"
| "step s e (Pong_received c) = Inr (onPong c s)"
| "step s e (Close c) = (if c \<in> set (map fst (clients s)) then Inr (onClose c s) else Inr s)"
| "step s e Heartbeat_tick = Inr (heartbeat s)"

inductive reachable :: "int \<Rightarrow> server \<Rightarrow> bool" for lim where
  init: "reachable lim (server_init lim)"
| step: "reachable lim s \<Longrightarrow> step s e ev = Inr s' \<Longrightarrow> reachable lim s'"

fun run :: "server \<Rightarrow> (env \<times> event) list \<Rightarrow> exn + server" where
  "run s [] = Inr s"
| "run s ((e, ev) # evs) = sbind (step s e ev) (\<lambda>s'. run s' evs)"

section \<open>The registry invariant on every reachable state\<close>

lemma bind_user_fields [simp]:
  "registry (bind_user c u s) = registry s" "map fst (clients (bind_user c u s)) = map fst (clients s)"
  "db (bind_user c u s) = db s" "tokens (bind_user c u s) = tokens s"
  by (simp_all add: bind_user_def)

lemma rooms_of_bind_user [simp]: "rooms_of (bind_user c u s) = rooms_of s"
  by (simp add: fun_eq_iff rooms_of_def bind_user_def map_of_ws_update split: option.split)

lemma reg_inv_bind_user [reg_inv_rules]: "reg_inv s \<Longrightarrow> reg_inv (bind_user c u s)"
  by (subst reg_inv_cong [of _ s]) simp_all

lemma reg_inv_room_broadcast: "reg_inv s \<Longrightarrow> reg_inv (room_broadcast r m s)"
  by (simp add: room_broadcast_def reg_inv_broadcastToRoom)

lemma reg_inv_auth_register: "auth_register c msg e s = Inr s' \<Longrightarrow> reg_inv s \<Longrightarrow> reg_inv s'"
  by (auto simp: auth_register_def auth_error_def sbind_with_db_Inr Let_def createToken_def intro!: reg_inv_rules
      split: option.splits prod.splits if_splits)

lemma reg_inv_auth_login: "auth_login c msg e s = Inr s' \<Longrightarrow> reg_inv s \<Longrightarrow> reg_inv s'"
  by (auto simp: auth_login_def auth_error_def intro!: reg_inv_rules split: option.splits prod.splits if_splits)

lemma reg_inv_auth_resume: "auth_resume c msg s = Inr s' \<Longrightarrow> reg_inv s \<Longrightarrow> reg_inv s'"
  by (auto simp: auth_resume_def auth_error_def Let_def intro!: reg_inv_rules split: option.splits if_splits)

lemma reg_inv_auth_change_password: "auth_change_password c msg s = Inr s' \<Longrightarrow> reg_inv s \<Longrightarrow> reg_inv s'"
  by (auto simp: auth_change_password_def auth_error_def intro!: reg_inv_rules split: option.splits if_splits)

lemma reg_inv_auth_update_profile: "auth_update_profile c msg s = Inr s' \<Longrightarrow> reg_inv s \<Longrightarrow> reg_inv s'"
  by (auto simp: auth_update_profile_def auth_error_def Let_def intro!: reg_inv_rules split: option.splits if_splits)

lemma reg_inv_handleAuth: "handleAuth c msg e s = Inr s' \<Longrightarrow> reg_inv s \<Longrightarrow> reg_inv s'"
  using reg_inv_auth_register reg_inv_auth_login reg_inv_auth_resume reg_inv_auth_change_password
    reg_inv_auth_update_profile
  by (auto simp: handleAuth_def split: option.splits if_splits)

lemma reg_inv_handleRoom:
  assumes "handleRoom c u msg e s = Inr s'" "reg_inv s" "c \<in> fst ` set (clients s)"
  shows "reg_inv s'"
  using assms
  by (auto simp: handleRoom_def room_create_def room_join_def room_leave_def room_users_def room_history_def
      room_error_def sbind_with_db_Inr Let_def intro!: reg_inv_rules
      split: option.splits if_splits)

lemma reg_inv_handleMessage:
  "handleMessage c u msg e s = Inr s' \<Longrightarrow> reg_inv s \<Longrightarrow> reg_inv s'"
  by (auto simp: handleMessage_def handleSendMessage_def sbind_with_db_Inr Let_def intro!: reg_inv_rules
      split: option.splits if_splits prod.splits)

lemma reg_inv_handleDM:
  "handleDM c u msg e s = Inr s' \<Longrightarrow> reg_inv s \<Longrightarrow> reg_inv s'"
  by (auto simp: handleDM_def handleDMSend_def sbind_with_db_Inr Let_def intro!: reg_inv_rules
      split: option.splits if_splits prod.splits)

lemma reg_inv_handleCommand:
  assumes "handleCommand c u msg e s = Inr s'" "reg_inv s"
  shows "reg_inv s'"
proof -
  have ex: "reg_inv s1" if "execute registry0 n a r room_broadcast i t s = (res, s1)" for n a r i t res s1
    using execute_preserves [where P = reg_inv, OF reg_inv_room_broadcast assms(2) that] .
  show ?thesis
    using assms ex
    by (auto simp: handleCommand_def intro!: reg_inv_rules split: option.splits if_splits prod.splits)
qed

lemma reg_inv_onMessage:
  assumes "onMessage c raw e s = Inr s'" "reg_inv s" "c \<in> fst ` set (clients s)"
  shows "reg_inv s'"
  using assms reg_inv_handleAuth reg_inv_handleRoom reg_inv_handleMessage reg_inv_handleDM reg_inv_handleCommand
  by (auto simp: onMessage_def intro!: reg_inv_rules split: option.splits if_splits)

lemma reg_inv_onPong: "reg_inv s \<Longrightarrow> reg_inv (onPong c s)"
proof -
  assume inv: "reg_inv s"
  have "rooms_of (onPong c s) c' = rooms_of s c'" for c'
    by (cases "c' = c") (simp_all add: rooms_of_def onPong_def split: option.split)
  then show ?thesis using inv by (subst reg_inv_cong [of _ s]) (simp_all add: onPong_def)
qed

lemma reg_inv_heartbeat: "reg_inv s \<Longrightarrow> reg_inv (heartbeat s)"
proof -
  assume inv: "reg_inv s"
  have m: "map_of (clients (heartbeat s)) = map_option heartbeat_ws \<circ> map_of (clients s)"
    by (simp add: heartbeat_def map_of_map [symmetric] case_prod_beta)
  have "rooms_of (heartbeat s) c = rooms_of s c" for c
    by (simp add: rooms_of_def m heartbeat_ws_def terminate_def split: option.split)
  moreover have "map fst (clients (heartbeat s)) = map fst (clients s)"
    by (simp add: heartbeat_def case_prod_beta)
  ultimately show ?thesis using inv by (subst reg_inv_cong [of _ s]) (simp_all add: heartbeat_def)
qed

lemma reg_inv_onConnection: "reg_inv s \<Longrightarrow> reg_inv (onConnection c s)"
proof -
  assume inv: "reg_inv s"
  show ?thesis
  proof (cases "c \<in> set (map fst (clients s))")
    case True
    with inv show ?thesis by (simp add: onConnection_def)
  next
    case False
    let ?s' = "s\<lparr>clients := clients s @ [(c, new_ws)]\<rparr>"
    have d: "distinct (map fst (clients ?s'))" using False reg_inv_parts(2) [OF inv] by simp
    have r: "rooms_of ?s' c' = rooms_of s c'" for c'
    proof (cases "c' = c")
      case True
      with False have "map_of (clients s) c = None" by (simp add: map_of_eq_None_iff)
      with True show ?thesis by (simp add: rooms_of_def new_ws_def map_add_def)
    next
      case False
      then show ?thesis by (simp add: rooms_of_def map_add_def split: option.split)
    qed
    have "socket_members ?s' = socket_members s"
      using d reg_inv_parts(2) [OF inv] by (auto simp: socket_members_iff r)
    moreover have "list_all (\<lambda>(c, w). distinct (ws_rooms w)) (clients ?s')"
      using reg_inv_parts(4) [OF inv] by (simp add: new_ws_def)
    ultimately show ?thesis
      using False inv d by (simp add: onConnection_def reg_inv_def members_def)
  qed
qed

lemma reg_inv_delete_client:
  assumes inv: "reg_inv s" and none: "rooms_of s c = []"
  shows "reg_inv (s\<lparr>clients := AList.delete c (clients s)\<rparr>)"
proof -
  let ?s' = "s\<lparr>clients := AList.delete c (clients s)\<rparr>"
  have d: "distinct (map fst (clients ?s'))" using reg_inv_parts(2) [OF inv] by (simp add: distinct_delete)
  have r: "rooms_of ?s' c' = (if c' = c then [] else rooms_of s c')" for c'
    by (simp add: rooms_of_def delete_conv')
  have "socket_members ?s' = socket_members s"
    using d reg_inv_parts(2) [OF inv] none by (auto simp: socket_members_iff r split: if_splits)
  moreover have "list_all (\<lambda>(c, w). distinct (ws_rooms w)) (clients ?s')"
    using reg_inv_parts(4) [OF inv] by (auto simp: list_all_iff dest: set_delete_member)
  ultimately show ?thesis using inv d by (simp add: reg_inv_def members_def)
qed

lemma fold_broadcast_preserves:
  "reg_inv s \<Longrightarrow> reg_inv (fold (\<lambda>r st. broadcastToRoom r (m r) None st) rs s)
     \<and> rooms_of (fold (\<lambda>r st. broadcastToRoom r (m r) None st) rs s) = rooms_of s"
  by (induction rs arbitrary: s) (simp_all add: reg_inv_broadcastToRoom fun_eq_iff)

lemma reg_inv_onClose: "reg_inv s \<Longrightarrow> reg_inv (onClose c s)"
proof -
  assume inv: "reg_inv s"
  obtain left s1 where la: "leaveAllRooms c s = (left, s1)" by (cases "leaveAllRooms c s")
  from la have "s1 = fold (leaveRoom c) (rooms_of s c) s" by (auto simp: leaveAllRooms_def Let_def)
  then have inv1: "reg_inv s1" using reg_inv_fold_leaveRoom [OF inv] by simp
  have r1: "rooms_of s1 c = []" using rooms_of_leaveAllRooms [of c s] la by simp
  show ?thesis
  proof (cases "current_user s c")
    case None
    with reg_inv_delete_client [OF inv1 r1] la show ?thesis by (simp add: onClose_def)
  next
    case (Some un)
    let ?s2 = "fold (\<lambda>r st. broadcastToRoom r (Presence_offline un r) None st) left s1"
    have "reg_inv ?s2 \<and> rooms_of ?s2 = rooms_of s1"
      using fold_broadcast_preserves [OF inv1, of "\<lambda>r. Presence_offline un r"] by simp
    with reg_inv_delete_client [of ?s2 c] r1 Some la show ?thesis by (simp add: onClose_def Let_def)
  qed
qed

lemma is_open_key: "is_open s c \<Longrightarrow> c \<in> fst ` set (clients s)"
  by (auto simp: is_open_def map_of_Some_key split: option.splits)

theorem reg_inv_step: "step s e ev = Inr s' \<Longrightarrow> reg_inv s \<Longrightarrow> reg_inv s'"
  by (cases ev) (auto simp: reg_inv_onPong reg_inv_heartbeat reg_inv_onConnection reg_inv_onClose
      dest: reg_inv_onMessage is_open_key split: if_splits)

lemma reg_inv_server_init: "reg_inv (server_init lim)"
  by (simp add: reg_inv_def server_init_def members_def socket_members_def)

text \<open>C3. Every reachable server state satisfies the registry invariant: the live set of each room in \<open>roomConnections\<close> holds exactly the connections whose \<open>ws.rooms\<close> contain the room, no set is empty, and no key or member is duplicated.\<close>

theorem reachable_reg_inv: "reachable lim s \<Longrightarrow> reg_inv s"
  by (induction rule: reachable.induct) (auto simp: reg_inv_server_init intro: reg_inv_step)

section \<open>Room membership\<close>

lemma room_join_effect:
  assumes inv: "reg_inv s" and c: "map_of (clients s) c = Some w" "ready w = OPEN" "ws_user w = Some u" "u \<noteq> []"
    and msg: "f_room msg = Some r" "r \<noteq> []"
    and ex: "getRoom (db s) r \<noteq> None" and uex: "user_exists (db s) u"
  shows "\<exists>s'. room_join c u msg e s = Inr s' \<and> c \<in> set (conns_of s' r) \<and> u \<in> set (getOnlineUsers r s')
     \<and> is_member (db s') r u
     \<and> map_option outbox (map_of (clients s') c) = Some (outbox w @ [Room_joined r u, Room_joined r u])"
proof -
  from addRoomMember_ok [OF ex [unfolded getRoom_Some_iff] uex]
  obtain d' where d': "addRoomMember (db s) r u (now e) = Inr d'" "is_member d' r u" by blast
  let ?s1 = "s\<lparr>db := d'\<rparr>"
  let ?s2 = "joinRoom c r ?s1"
  let ?s3 = "broadcastToRoom r (Room_joined r u) None ?s2"
  let ?s4 = "reply c (Room_joined r u) ?s3"
  have keys: "c \<in> fst ` set (clients ?s1)" using c(1) by (simp add: map_of_Some_key)
  have inv2: "reg_inv ?s2" using reg_inv_joinRoom [OF _ keys] inv by simp
  have w2: "map_of (clients ?s2) c = Some (w\<lparr>ws_rooms := set_add r (ws_rooms w)\<rparr>)"
    using c(1) by (simp add: map_of_clients_joinRoom_Some)
  have inroom: "c \<in> set (conns_of ?s2 r)" by simp
  have w3: "map_of (clients ?s3) c = Some (deliver (Room_joined r u) (w\<lparr>ws_rooms := set_add r (ws_rooms w)\<rparr>))"
    using map_of_clients_broadcastToRoom [OF inv2] w2 inroom by simp
  have w4: "map_of (clients ?s4) c = Some (deliver (Room_joined r u) (deliver (Room_joined r u) (w\<lparr>ws_rooms := set_add r (ws_rooms w)\<rparr>)))"
    using w3 by (simp add: map_of_reply)
  have res: "room_join c u msg e s = Inr ?s4"
    using msg ex d'(1) by (auto simp: room_join_def)
  have "u \<in> set (getOnlineUsers r ?s4)"
    using w4 c(3,4) inroom by (auto simp: set_getOnlineUsers)
  moreover have "is_member (db ?s4) r u" using d'(2) by simp
  moreover have "map_option outbox (map_of (clients ?s4) c) = Some (outbox w @ [Room_joined r u, Room_joined r u])"
    using w4 c(2) by (simp add: outbox_deliver)
  ultimately show ?thesis using res inroom by auto
qed

end
