(* ===== verification/Sessions.thy ===== *)
theory Sessions
  imports Handler
begin

text \<open>
  Behaviour of whole connections, stated on the listeners of \<open>handler.js\<close>: the
  authentication gate, authentication round trips and failures, room creation and
  leaving, the \<open>system\<close> command, and the heartbeat.
\<close>

section \<open>The authentication gate\<close>

lemma current_user_reply [simp]: "current_user (reply c m s) c' = current_user s c'"
  by (cases "c' = c") (simp_all add: current_user_def map_of_reply deliver_def split: option.split)

lemma is_open_reply [simp]: "is_open (reply c m s) c' = is_open s c'"
  by (cases "c' = c") (simp_all add: is_open_def map_of_reply deliver_def split: option.split)

text \<open>C16. Before authentication, any run of non-\<open>auth:\<close> frames on a connection (\<open>ping\<close> included) only answers each with \<open>Not authenticated\<close>; no other state changes.\<close>

theorem unauthenticated_gate:
  assumes "current_user s c = None" "is_open s c"
    and "\<forall>m \<in> set ms. \<exists>t. f_type m = Some t \<and> t \<noteq> [] \<and> \<not> starts_with ''auth:'' t"
  shows "run s (map (\<lambda>m. (e, Message c (Some m))) ms) = Inr (fold (\<lambda>_. reply c (System_error ''Not authenticated'')) ms s)"
  using assms by (induction ms arbitrary: s) (auto simp: onMessage_def)

section \<open>Authentication\<close>

text \<open>C20. A password change without \<open>oldPassword\<close> makes the handler throw (bcrypt rejects the missing argument) instead of replying with an error.\<close>

theorem change_password_missing_old:
  assumes "current_user s c = Some u" "getUser (db s) u = Some row"
    and "f_type msg = Some ''auth:change_password''" "f_oldPassword msg = None"
  shows "onMessage c (Some msg) e s = Inl (Bcrypt_exn ''data and hash arguments required'')"
  using assms by (simp add: onMessage_def handleAuth_def auth_change_password_def starts_with_def)


text \<open>C17. Register then log in: registration stores the user with the digest of its password and issues a token; logging in with the same credentials succeeds and issues another token, and both resolve to the user.\<close>

theorem register_then_login:
  assumes reg: "f_type m1 = Some ''auth:register''" "f_username m1 = Some u" "f_password m1 = Some p"
      "u \<noteq> []" "p \<noteq> []" "to_lower u \<notin> set RESERVED_USERNAMES" "getUser (db s) u = None"
    and login: "f_type m2 = Some ''auth:login''" "f_username m2 = Some u" "f_password m2 = Some p"
  shows "\<exists>s1 s2 row. onMessage c (Some m1) e1 s = Inr s1 \<and> onMessage c' (Some m2) e2 s1 = Inr s2
    \<and> getUser (db s2) u = Some row \<and> user_password row = hashPassword p
    \<and> verifyToken (tokens s2) (Some (uuid e1)) = Some u \<and> verifyToken (tokens s2) (Some (uuid e2)) = Some u"
proof -
  define row where "row = \<lparr>user_username = u, user_password = hashPassword p, user_avatar = [], user_about = [],
    user_created_at = now e1\<rparr>"
  define d1 where "d1 = (db s)\<lparr>users := users (db s) @ [row]\<rparr>"
  define s1 where "s1 = reply c (Auth_success (uuid e1) (user_info_of row))
    (bind_user c u (s\<lparr>db := d1, tokens := AList.update (uuid e1) u (tokens s)\<rparr>))"
  define s2 where "s2 = reply c' (Auth_success (uuid e2) (user_info_of row))
    (bind_user c' u (s1\<lparr>tokens := AList.update (uuid e2) u (tokens s1)\<rparr>))"
  have g1: "getUser d1 u = Some row" unfolding d1_def by (rule getUser_append_new) (simp_all add: reg row_def)
  have "createUser (db s) u (hashPassword p) (now e1) = Inr d1"
    using reg(7) by (simp add: createUser_def getUser_None_iff d1_def row_def)
  then have r1: "onMessage c (Some m1) e1 s = Inr s1"
    using reg g1 by (simp add: onMessage_def handleAuth_def auth_register_def starts_with_def with_db_def
      createToken_def s1_def bind_user_def)
  have db1: "db s1 = d1" "tokens s1 = AList.update (uuid e1) u (tokens s)" by (simp_all add: s1_def bind_user_def)
  have r2: "onMessage c' (Some m2) e2 s1 = Inr s2"
    using login reg(4,5) g1 db1 by (simp add: onMessage_def handleAuth_def auth_login_def starts_with_def
      verifyPassword_def hashPassword_def row_def createToken_def s2_def)
  have "getUser (db s2) u = Some row" "tokens s2 = AList.update (uuid e2) u (AList.update (uuid e1) u (tokens s))"
    using g1 db1 by (simp_all add: s2_def bind_user_def)
  with r1 r2 reg(4) show ?thesis
    by (intro exI [of _ s1] exI [of _ s2] exI [of _ row]) (simp add: row_def verifyToken_def update_conv')
qed

section \<open>Rooms\<close>

text \<open>C22. Creating a room whose name exists is refused with \<open>Room already exists\<close>; nothing else changes.\<close>

theorem room_create_existing:
  assumes "f_name msg = Some n" "n \<noteq> []" "getRoom (db s) n \<noteq> None"
  shows "room_create c u msg e s = Inr (reply c (Room_error ''Room already exists'') s)"
  using assms by (simp add: room_create_def room_error_def)

text \<open>C21. Leaving a room one has not joined still announces \<open>room:left\<close> to every open member of that room.\<close>

theorem leave_unjoined_broadcasts:
  assumes inv: "reg_inv s" and "f_room msg = Some r" "r \<noteq> []" "r \<notin> set (rooms_of s c)"
    and c2: "c2 \<in> set (conns_of s r)" "map_of (clients s) c2 = Some w2" "ready w2 = OPEN"
  shows "\<exists>s'. room_leave c u msg s = Inr s' \<and> map_option outbox (map_of (clients s') c2) = Some (outbox w2 @ [Room_left r u])"
proof -
  have ne: "c2 \<noteq> c"
    using c2(1) inv assms(4) members_iff [of s r c2] socket_members_iff [of s r c2] by (auto simp: reg_inv_def)
  let ?s1 = "broadcastToRoom r (Room_left r u) None s"
  have "map_of (clients ?s1) c2 = Some (deliver (Room_left r u) w2)"
    using c2 by (simp add: map_of_clients_broadcastToRoom [OF inv])
  then have "map_of (clients (leaveRoom c r ?s1)) c2 = Some (deliver (Room_left r u) w2)"
    using ne by (simp add: clients_leaveRoom map_of_ws_update split: option.split)
  then show ?thesis
    using assms(2,3) ne c2(3) by (simp add: room_leave_def map_of_reply deliver_def)
qed

subsection \<open>Closing a connection\<close>

lemma map_of_fold_broadcast:
  "reg_inv st \<Longrightarrow> map_of (clients (fold (\<lambda>r st. broadcastToRoom r (m r) None st) rs st)) c2 =
     map_option (fold (\<lambda>r w. if c2 \<in> set (conns_of st r) then deliver (m r) w else w) rs) (map_of (clients st) c2)"
proof (induction rs arbitrary: st)
  case (Cons r rs)
  have "reg_inv (broadcastToRoom r (m r) None st)" by (rule reg_inv_broadcastToRoom [OF Cons.prems])
  with Cons.IH show ?case
    by (simp add: map_of_clients_broadcastToRoom [OF Cons.prems] option.map_comp comp_def split: option.split)
qed (simp add: option.map_id)

lemma fold_deliver:
  "fold (\<lambda>r w. if P r then deliver (m r) w else w) rs w =
     (if ready w = OPEN then w\<lparr>outbox := outbox w @ map m (filter P rs)\<rparr> else w)"
  by (induction rs arbitrary: w) (simp_all add: deliver_def)

lemma map_of_fold_leaveRoom_other:
  "c2 \<noteq> c \<Longrightarrow> map_of (clients (fold (leaveRoom c) rs s)) c2 = map_of (clients s) c2"
  by (induction rs arbitrary: s) (simp_all add: clients_leaveRoom map_of_ws_update split: option.split)

lemma onClose_effect:
  assumes inv: "reg_inv s" and u: "current_user s c = Some u" and c2: "c2 \<noteq> c" "map_of (clients s) c2 = Some w2"
  shows "map_of (clients (onClose c s)) c = None \<and> (\<forall>r. c \<notin> set (conns_of (onClose c s) r))
    \<and> (\<forall>r. c2 \<in> set (conns_of (onClose c s) r) \<longleftrightarrow> c2 \<in> set (conns_of s r)) \<and> db (onClose c s) = db s
    \<and> map_of (clients (onClose c s)) c2 =
        Some (if ready w2 = OPEN
              then w2\<lparr>outbox := outbox w2 @ map (Presence_offline u) (filter (\<lambda>r. c2 \<in> set (conns_of s r)) (rooms_of s c))\<rparr>
              else w2)"
proof -
  let ?left = "rooms_of s c"
  let ?s1 = "fold (leaveRoom c) ?left s"
  let ?b = "\<lambda>r st. broadcastToRoom r (Presence_offline u r) None st"
  let ?s2 = "fold ?b ?left ?s1"
  have oc: "onClose c s = ?s2\<lparr>clients := AList.delete c (clients ?s2)\<rparr>"
    using u by (simp add: onClose_def leaveAllRooms_def Let_def)
  have inv1: "reg_inv ?s1" by (rule reg_inv_fold_leaveRoom [OF inv])
  have m1: "members ?s1 = members s - set ?left \<times> {c}"
    using fold_leaveRoom_members [of s c ?left] inv by (simp add: reg_inv_def)
  have d: "distinct (map fst (registry s))" "distinct (map fst (registry ?s1))" "distinct (map fst (clients s))"
    using inv inv1 by (simp_all add: reg_inv_def)
  have eq: "(r, c') \<in> members s \<longleftrightarrow> c' \<in> set (conns_of s r)" "(r, c') \<in> members ?s1 \<longleftrightarrow> c' \<in> set (conns_of ?s1 r)"
    for r c' by (rule members_iff [OF d(1)], rule members_iff [OF d(2)])
  have "members s = socket_members s" using inv by (simp add: reg_inv_def)
  then have cs: "(r, c) \<in> members s \<longleftrightarrow> r \<in> set ?left" for r
    using socket_members_iff [OF d(3), of r c] by simp
  have gone: "c \<notin> set (conns_of ?s1 r)" for r using m1 eq cs by blast
  have keep: "c2 \<in> set (conns_of ?s1 r) \<longleftrightarrow> c2 \<in> set (conns_of s r)" for r using m1 eq c2(1) by blast
  have reg2: "conns_of (fold ?b rs st) = conns_of st" "db (fold ?b rs st) = db st" for rs and st :: server
    by (induction rs arbitrary: st) simp_all
  have conns: "conns_of (onClose c s) = conns_of ?s1"
    using reg2(1) [of ?left ?s1] by (simp add: oc conns_of_def fun_eq_iff)
  have out: "map_of (clients ?s2) c2 =
      map_option (fold (\<lambda>r w. if c2 \<in> set (conns_of ?s1 r) then deliver (Presence_offline u r) w else w) ?left)
        (map_of (clients ?s1) c2)"
    by (rule map_of_fold_broadcast [OF inv1])
  have filt: "filter (\<lambda>r. c2 \<in> set (conns_of ?s1 r)) ?left = filter (\<lambda>r. c2 \<in> set (conns_of s r)) ?left"
    using keep by (simp cong: filter_cong)
  show ?thesis
  proof (intro conjI allI)
    show "map_of (clients (onClose c s)) c = None" by (simp add: oc map_of_delete_same)
    show "c \<notin> set (conns_of (onClose c s) r)" for r using gone conns by simp
    show "c2 \<in> set (conns_of (onClose c s) r) \<longleftrightarrow> c2 \<in> set (conns_of s r)" for r using keep conns by simp
    show "db (onClose c s) = db s" by (simp add: oc reg2(2))
    show "map_of (clients (onClose c s)) c2 =
        Some (if ready w2 = OPEN
              then w2\<lparr>outbox := outbox w2 @ map (Presence_offline u) (filter (\<lambda>r. c2 \<in> set (conns_of s r)) ?left)\<rparr>
              else w2)"
      using c2 out filt by (simp add: oc map_of_fold_leaveRoom_other fold_deliver)
  qed
qed

text \<open>C15. A close event for an authenticated connection removes it from the clients and from every live room set, keeps the durable membership, and sends each other open member of its rooms one \<open>presence:offline\<close> per shared room, in the order the rooms were joined.\<close>

theorem onClose_presence:
  assumes inv: "reg_inv s" and u: "current_user s c = Some u" and c2: "c2 \<noteq> c" "map_of (clients s) c2 = Some w2"
  shows "\<exists>s'. step s e (Close c) = Inr s' \<and> map_of (clients s') c = None \<and> (\<forall>r. c \<notin> set (conns_of s' r)) \<and> db s' = db s
    \<and> map_option outbox (map_of (clients s') c2) =
        Some (if ready w2 = OPEN then outbox w2 @ map (Presence_offline u) (filter (\<lambda>r. c2 \<in> set (conns_of s r)) (rooms_of s c))
              else outbox w2)"
proof -
  have "c \<in> set (map fst (clients s))"
    using u by (auto simp: current_user_def split: option.splits dest: map_of_SomeD intro: rev_image_eqI)
  then have "step s e (Close c) = Inr (onClose c s)" by simp
  with onClose_effect [OF inv u c2] show ?thesis by auto
qed

section \<open>Commands\<close>

lemma registry0_system: "map_of registry0 ''system'' = Some \<lparr>cmd_description = ''Broadcast a system message to the room'', cmd_handler = System_handler\<rparr>"
  by (simp add: registry0_def discover_def plugin_files_def load_plugin_def register_def help_plugin_def system_plugin_def
    ends_with_def)

text \<open>C19. The \<open>system\<close> command needs no membership: any authenticated connection can make every open member of a room receive a \<open>message:new\<close> from \<open>system\<close>, and nothing is persisted.\<close>

theorem system_command_from_outside:
  assumes inv: "reg_inv s" and cu: "current_user s c = Some u"
    and msg: "f_type msg = Some ''command:send''" "f_command msg = Some ''system''" "f_args msg = Some a"
      "trim a \<noteq> []" "f_room msg = Some r"
    and c2: "c2 \<in> set (conns_of s r)" "c2 \<noteq> c" "map_of (clients s) c2 = Some w2" "ready w2 = OPEN"
  shows "\<exists>s'. onMessage c (Some msg) e s = Inr s' \<and> db s' = db s
    \<and> map_option outbox (map_of (clients s') c2) = Some (outbox w2 @ [system_event (uuid e) r (now e) (trim a)])"
proof -
  have a: "a \<noteq> []" using msg(4) by (auto simp: trim_def)
  let ?s1 = "broadcastToRoom r (system_event (uuid e) r (now e) (trim a)) None s"
  have "onMessage c (Some msg) e s =
      Inr (reply c (Command_result (Some r) ''system'' (''System message sent to #'' @ r)) ?s1)"
    using cu msg a by (simp add: onMessage_def handleCommand_def starts_with_def execute_def registry0_system
      room_broadcast_def template_room_def)
  moreover have "map_of (clients ?s1) c2 = Some (deliver (system_event (uuid e) r (now e) (trim a)) w2)"
    using c2 by (simp add: map_of_clients_broadcastToRoom [OF inv])
  ultimately show ?thesis using c2 by (simp add: map_of_reply deliver_def)
qed

lemma length_live_user: "length (live_user s c) \<le> 1"
  by (simp add: live_user_def split: option.split)

lemma length_concat_live_user: "length (concat (map (live_user s) cs)) \<le> length cs"
proof (induction cs)
  case (Cons c cs)
  then show ?case using length_live_user [of s c] by simp
qed simp

text \<open>C32. The \<open>userCount\<close> of every room in \<open>room:list\<close> is bounded by the number of live connections in that room.\<close>

theorem room_list_userCount:
  "list_all (\<lambda>x. rs_userCount x \<le> length (conns_of s (rs_name x))) (room_list s)"
proof -
  have "length (getOnlineUsers r s) \<le> length (conns_of s r)" for r
  proof (cases "map_of (registry s) r")
    case (Some cs)
    have "length (dedup (concat (map (live_user s) cs))) \<le> length (concat (map (live_user s) cs))"
      by (subst length_dedup) (rule card_length)
    also have "\<dots> \<le> length cs" by (rule length_concat_live_user)
    finally show ?thesis by (simp add: Some getOnlineUsers_def conns_of_def)
  qed (simp add: getOnlineUsers_def conns_of_def)
  then show ?thesis by (simp add: room_list_def list_all_iff)
qed

text \<open>C30. Login failures do not distinguish an unknown user from a wrong password: both get exactly \<open>Invalid credentials\<close> and nothing else changes.\<close>

theorem login_failures_indistinguishable:
  assumes "f_type m = Some ''auth:login''" "f_username m = Some u" "f_password m = Some p" "u \<noteq> []" "p \<noteq> []"
    and "getUser (db s) u = None \<or> (\<exists>row. getUser (db s) u = Some row \<and> \<not> verifyPassword p (user_password row))"
  shows "onMessage c (Some m) e s = Inr (reply c (Auth_error ''Invalid credentials'') s)"
  using assms by (auto simp: onMessage_def handleAuth_def auth_login_def auth_error_def starts_with_def)

section \<open>Heartbeat\<close>

lemma map_of_heartbeat: "map_of (clients (heartbeat s)) c = map_option heartbeat_ws (map_of (clients s) c)"
  by (simp add: heartbeat_def map_of_map)

text \<open>C18. Heartbeat: two ticks without a pong take a socket out of the open state, while an alive socket that answers the ping between the ticks stays open.\<close>

theorem heartbeat_liveness:
  assumes "map_of (clients s) c = Some w"
  shows "map_option ready (map_of (clients (heartbeat (heartbeat s))) c) \<noteq> Some OPEN
    \<and> (ready w = OPEN \<and> is_alive w \<longrightarrow> map_option ready (map_of (clients (heartbeat (onPong c (heartbeat s)))) c) = Some OPEN)"
  using assms by (simp_all add: map_of_heartbeat onPong_def heartbeat_ws_def terminate_def)

text \<open>C37. A negative \<open>HISTORY_LIMIT\<close> removes the bound on \<open>room:history\<close>: a request without a limit returns every message of the room.\<close>

theorem negative_history_limit:
  assumes "history_limit s = config_HISTORY_LIMIT (Some v)" "parseInt10 v = Some n" "n < 0"
    and "f_room msg = Some r" "r \<noteq> []" "f_limit msg = None"
  shows "room_history c msg s =
    Inr (reply c (Room_history r (chronological msg_timestamp (filter (\<lambda>m. msg_room m = r) (messages (db s))))) s)"
proof -
  have "history_limit s = n" using assms(1-3) by (simp add: config_HISTORY_LIMIT_def env_int_def)
  then show ?thesis
    using assms(3-6) by (simp add: room_history_def getMessages_last_n last_n_def)
qed

end
