(* ===== verification/Interleaving.thy ===== *)
theory Interleaving
  imports Handler
begin

text \<open>
  Suspension points inside a handler. \<open>auth:register\<close> checks that the username is
  free and then \<open>await\<close>s \<open>auth.hashPassword\<close> before inserting the row
  (\<open>handler.js\<close>, lines 69 to 88); other frames can be handled meanwhile. The handler is
  split at the \<open>await\<close> into \<open>register_check\<close>, which either answers or yields the
  credentials, and \<open>register_finish\<close>, which runs on the state current when the digest
  is ready. Run back to back they are \<open>auth_register\<close>.
\<close>

definition register_check :: "conn_id \<Rightarrow> frame \<Rightarrow> server \<Rightarrow> (exn + server) + (username \<times> string)" where
  "register_check c msg s =
     (case (f_username msg, f_password msg) of
        (Some u, Some p) \<Rightarrow>
          if u = [] \<or> p = [] then Inl (auth_error c ''Username and password required'' s)
          else if to_lower u \<in> set RESERVED_USERNAMES then Inl (auth_error c ''Username is reserved'' s)
          else if getUser (db s) u \<noteq> None then Inl (auth_error c ''Username already taken'' s)
          else Inr (u, p)
      | _ \<Rightarrow> Inl (auth_error c ''Username and password required'' s))"

definition register_finish :: "conn_id \<Rightarrow> username \<Rightarrow> string \<Rightarrow> env \<Rightarrow> server \<Rightarrow> exn + server" where
  "register_finish c u p e s =
     sbind (with_db s (createUser (db s) u (hashPassword p) (now e)))
       (\<lambda>s1. case createToken (uuid e) u (tokens s1) of
               (tk, tks) \<Rightarrow>
                 (let s2 = bind_user c u (s1\<lparr>tokens := tks\<rparr>)
                  in case getUser (db s2) u of
                       None \<Rightarrow> Inl (Type_exn ''user is undefined'')
                     | Some row \<Rightarrow> Inr (reply c (Auth_success tk (user_info_of row)) s2)))"

lemma auth_register_split:
  "auth_register c msg e s =
     (case register_check c msg s of Inl r \<Rightarrow> r | Inr (u, p) \<Rightarrow> register_finish c u p e s)"
  by (simp add: auth_register_def register_check_def register_finish_def split: option.split)

lemma register_finish_fresh:
  assumes "getUser (db s) u = None"
  shows "\<exists>s1. register_finish c u p e s = Inr s1 \<and> user_exists (db s1) u"
proof -
  let ?row = "\<lparr>user_username = u, user_password = hashPassword p, user_avatar = [], user_about = [],
    user_created_at = now e\<rparr>"
  have "\<not> user_exists (db s) u" using assms by (simp add: getUser_None_iff)
  moreover have "getUser ((db s)\<lparr>users := users (db s) @ [?row]\<rparr>) u = Some ?row"
    by (rule getUser_append_new [OF assms]) simp
  ultimately show ?thesis
    by (simp add: register_finish_def createUser_def with_db_def createToken_def bind_user_def Let_def user_exists_def)
qed


text \<open>C28. Registration races at its \<open>await\<close>: two registrations of one free name that both pass the check lead to a unique-key exception for the second, where a check after the first insert would have answered \<open>Username already taken\<close>.\<close>

theorem register_race:
  assumes c1: "register_check c1 m1 s = Inr (u, p1)" and c2: "register_check c2 m2 s = Inr (u, p2)"
  shows "\<exists>s1. register_finish c1 u p1 e1 s = Inr s1
    \<and> register_finish c2 u p2 e2 s1 = Inl (Sql_exn (Unique_violation ''users.username''))
    \<and> register_check c2 m2 s1 = Inl (auth_error c2 ''Username already taken'' s1)"
proof -
  have free: "getUser (db s) u = None" using c1 by (auto simp: register_check_def split: option.splits if_splits)
  from register_finish_fresh [OF free] obtain s1 where
    s1: "register_finish c1 u p1 e1 s = Inr s1" "user_exists (db s1) u" by blast
  have "register_finish c2 u p2 e2 s1 = Inl (Sql_exn (Unique_violation ''users.username''))"
    using s1(2) by (simp add: register_finish_def createUser_def with_db_def)
  moreover have "register_check c2 m2 s1 = Inl (auth_error c2 ''Username already taken'' s1)"
    using c2 s1(2) by (auto simp: register_check_def getUser_None_iff split: option.splits if_splits)
  ultimately show ?thesis using s1(1) by blast
qed

end
