(* ===== verification/Sdk.thy ===== *)
theory Sdk
  imports Protocol
begin

text \<open>
  The client SDK, \<open>src/sdk/index.js\<close> (class \<open>AgentChat\<close>). One object is the record
  \<open>sdk\<close>: its constructor fields, the current socket's \<open>readyState\<close> (\<open>None\<close> before
  the first \<open>connect\<close>), the frames it has written to the socket (\<open>sent\<close>), the
  registered event handlers (\<open>_handlers\<close>, a handler is an opaque number) and the
  pending one-shot callbacks (\<open>_pendingCallbacks\<close>). A JavaScript promise is a number
  drawn from \<open>next_promise\<close>; its settlement is recorded once in \<open>settled\<close>, and a
  call of an event handler is recorded in \<open>handled\<close>. Frames arriving from the server
  are the values of \<open>out\<close> the server writes (Protocol), so a server outbox can be fed
  to \<open>dispatch\<close> as it is. The socket of a reconnect replaces the old one.
\<close>

section \<open>State\<close>

datatype callback =
    Auth_cb nat      \<comment> \<open>the \<open>auth\<close> callback of \<open>connect\<close>, settling promise \<open>p\<close>\<close>
  | Resolve_cb nat   \<comment> \<open>\<open>resolve\<close> of a \<open>_request\<close> promise\<close>

datatype settlement =
    Resolved nat out
  | Resolved_user nat "user_info option"   \<comment> \<open>\<open>resolve(msg.user)\<close>, undefined without user\<close>
  | Rejected nat string                     \<comment> \<open>\<open>reject(new Error(msg.message))\<close>\<close>

record sdk =
  sdk_username :: "string option"
  sdk_password :: "string option"
  sdk_register :: bool
  sdk_autoReconnect :: bool
  sdk_token :: "token option"
  sdk_ws :: "ready_state option"
  handlers :: "(string \<times> nat) list"
  pending :: "(string \<times> callback) list"
  reconnect_timer :: bool
  connected :: bool
  sent :: "frame list"
  settled :: "settlement list"
  handled :: "(nat \<times> out) list"
  next_promise :: nat

definition AgentChat :: "string option \<Rightarrow> string option \<Rightarrow> bool option \<Rightarrow> bool option \<Rightarrow> sdk" where
  \<comment> \<open>\<open>register = opts.register || false\<close>, \<open>autoReconnect = opts.autoReconnect !== false\<close>\<close>
  "AgentChat u pw reg auto = \<lparr>sdk_username = u, sdk_password = pw, sdk_register = (reg = Some True),
     sdk_autoReconnect = (auto \<noteq> Some False), sdk_token = None, sdk_ws = None, handlers = [],
     pending = [], reconnect_timer = False, connected = False, sent = [], settled = [], handled = [],
     next_promise = 0\<rparr>"

section \<open>Reading inbound frames\<close>

fun msg_type :: "out \<Rightarrow> string" where
  "msg_type (System_error _) = ''system:error''"
| "msg_type (Auth_error _) = ''auth:error''"
| "msg_type (Auth_success _ _) = ''auth:success''"
| "msg_type Auth_password_changed = ''auth:success''"
| "msg_type (Auth_profile_updated _) = ''auth:profile_updated''"
| "msg_type (Room_list _) = ''room:list''"
| "msg_type (Room_error _) = ''room:error''"
| "msg_type (Room_created _) = ''room:created''"
| "msg_type (Room_joined _ _) = ''room:joined''"
| "msg_type (Room_left _ _) = ''room:left''"
| "msg_type (Room_users _ _) = ''room:users''"
| "msg_type (Room_history _ _) = ''room:history''"
| "msg_type (Message_new _) = ''message:new''"
| "msg_type (Dm_new _) = ''dm:new''"
| "msg_type (Dm_history _ _) = ''dm:history''"
| "msg_type (Dm_list _) = ''dm:list''"
| "msg_type (Command_error _ _) = ''command:error''"
| "msg_type (Command_result _ _ _) = ''command:result''"
| "msg_type (Command_list _) = ''command:list''"
| "msg_type (Presence_offline _ _) = ''presence:offline''"
| "msg_type Pong = ''pong''"

fun callbackKeyFor :: "out \<Rightarrow> string option" where
  "callbackKeyFor (Room_joined r _) = Some (''join:'' @ r)"
| "callbackKeyFor (Room_left r _) = Some (''leave:'' @ r)"
| "callbackKeyFor (Room_list _) = Some ''room:list''"
| "callbackKeyFor (Room_created ro) =
     Some (''room:create:'' @ (case ro of None \<Rightarrow> ''undefined'' | Some row \<Rightarrow> room_name row))"
| "callbackKeyFor (Room_history r _) = Some (''history:'' @ r)"
| "callbackKeyFor (Dm_history w _) = Some (''dm:history:'' @ w)"
| "callbackKeyFor (Dm_list _) = Some ''dm:list''"
| "callbackKeyFor _ = None"

fun handler_key :: "out \<Rightarrow> string option" where
  \<comment> \<open>the \<open>if\<close>/\<open>else if\<close> chain of \<open>_dispatch\<close>; \<open>presence:online\<close> is never sent\<close>
  "handler_key (Message_new _) = Some ''message''"
| "handler_key (Dm_new _) = Some ''dm''"
| "handler_key (Room_joined _ _) = Some ''roomJoined''"
| "handler_key (Room_left _ _) = Some ''roomLeft''"
| "handler_key (Presence_offline _ _) = Some ''presence''"
| "handler_key (Command_result _ _ _) = Some ''command''"
| "handler_key (System_error _) = Some ''error''"
| "handler_key (Room_error _) = Some ''error''"
| "handler_key (Command_error _ _) = Some ''error''"
| "handler_key _ = None"

section \<open>Operations\<close>

definition settle_id :: "settlement \<Rightarrow> nat" where
  "settle_id x = (case x of Resolved p _ \<Rightarrow> p | Resolved_user p _ \<Rightarrow> p | Rejected p _ \<Rightarrow> p)"

definition settle :: "settlement \<Rightarrow> sdk \<Rightarrow> sdk" where
  \<comment> \<open>a promise settles once; later \<open>resolve\<close>/\<open>reject\<close> calls are ignored\<close>
  "settle x st = (if settle_id x \<in> settle_id ` set (settled st) then st
                  else st\<lparr>settled := settled st @ [x]\<rparr>)"

definition run_callback :: "callback \<Rightarrow> out \<Rightarrow> sdk \<Rightarrow> sdk" where
  "run_callback cb msg st =
     (case cb of
        Resolve_cb p \<Rightarrow> settle (Resolved p msg) st
      | Auth_cb p \<Rightarrow>
          (case msg of
             Auth_success t u \<Rightarrow> settle (Resolved_user p (Some u))
               (st\<lparr>sdk_token := Some t, connected := True, sdk_register := False\<rparr>)
           | Auth_password_changed \<Rightarrow> settle (Resolved_user p None)
               (st\<lparr>sdk_token := None, connected := True, sdk_register := False\<rparr>)
           | Auth_error m \<Rightarrow> settle (Rejected p m) st
           | _ \<Rightarrow> st))"

definition dispatch :: "out \<Rightarrow> sdk \<Rightarrow> sdk" where
  "dispatch msg st =
     (case (if starts_with ''auth:'' (msg_type msg) then map_of (pending st) ''auth'' else None) of
        Some cb \<Rightarrow>
          (let st' = run_callback cb msg st
           in if msg_type msg = ''auth:success'' \<or> msg_type msg = ''auth:error''
              then st'\<lparr>pending := AList.delete ''auth'' (pending st')\<rparr> else st')
      | None \<Rightarrow>
          (case (case callbackKeyFor msg of None \<Rightarrow> None
                 | Some k \<Rightarrow> map_option (Pair k) (map_of (pending st) k)) of
             Some (k, cb) \<Rightarrow> (let st' = run_callback cb msg st
                            in st'\<lparr>pending := AList.delete k (pending st')\<rparr>)
           | None \<Rightarrow>
               (case handler_key msg of
                  None \<Rightarrow> st
                | Some h \<Rightarrow> (case map_of (handlers st) h of
                             None \<Rightarrow> st
                           | Some hid \<Rightarrow> st\<lparr>handled := handled st @ [(hid, msg)]\<rparr>))))"

definition on_raw :: "out option \<Rightarrow> sdk \<Rightarrow> sdk" where
  \<comment> \<open>the \<open>message\<close> listener: unparsable text is dropped\<close>
  "on_raw raw st = (case raw of None \<Rightarrow> st | Some msg \<Rightarrow> dispatch msg st)"

definition connect :: "sdk \<Rightarrow> nat \<times> sdk" where
  "connect st =
     (let p = next_promise st
      in (p, st\<lparr>sdk_ws := Some CONNECTING, pending := AList.update ''auth'' (Auth_cb p) (pending st),
                next_promise := Suc p\<rparr>))"

definition auth_frame :: "sdk \<Rightarrow> frame" where
  "auth_frame st =
     (if truthy (sdk_token st) then (empty_frame ''auth:resume'')\<lparr>f_token := sdk_token st\<rparr>
      else (empty_frame (if sdk_register st then ''auth:register'' else ''auth:login''))
             \<lparr>f_username := sdk_username st, f_password := sdk_password st\<rparr>)"

definition on_open :: "sdk \<Rightarrow> sdk" where
  "on_open st = st\<lparr>sdk_ws := Some OPEN, sent := sent st @ [auth_frame st]\<rparr>"

definition on_close :: "sdk \<Rightarrow> sdk" where
  "on_close st = st\<lparr>connected := False, sdk_ws := Some CLOSED,
     reconnect_timer := (if sdk_autoReconnect st \<and> truthy (sdk_token st) then True else reconnect_timer st)\<rparr>"

definition reconnect_fire :: "sdk \<Rightarrow> sdk" where
  \<comment> \<open>the timer's callback \<open>this.connect().catch(() => {})\<close>\<close>
  "reconnect_fire st = snd (connect (st\<lparr>reconnect_timer := False\<rparr>))"

definition send_frame :: "frame \<Rightarrow> sdk \<Rightarrow> sdk" where
  \<comment> \<open>\<open>_send\<close>: dropped unless the socket is open\<close>
  "send_frame obj st = (if sdk_ws st = Some OPEN then st\<lparr>sent := sent st @ [obj]\<rparr> else st)"

definition request :: "frame \<Rightarrow> string \<Rightarrow> sdk \<Rightarrow> nat \<times> sdk" where
  "request obj k st =
     (let p = next_promise st
      in (p, send_frame obj (st\<lparr>pending := AList.update k (Resolve_cb p) (pending st), next_promise := Suc p\<rparr>)))"

definition join :: "string \<Rightarrow> sdk \<Rightarrow> nat \<times> sdk" where
  "join r = request ((empty_frame ''room:join'')\<lparr>f_room := Some r\<rparr>) (''join:'' @ r)"

definition leave :: "string \<Rightarrow> sdk \<Rightarrow> nat \<times> sdk" where
  "leave r = request ((empty_frame ''room:leave'')\<lparr>f_room := Some r\<rparr>) (''leave:'' @ r)"

definition send_msg :: "string \<Rightarrow> string \<Rightarrow> json \<Rightarrow> sdk \<Rightarrow> sdk" where
  "send_msg r m meta = send_frame ((empty_frame ''message:send'')\<lparr>f_room := Some r, f_message := Some m, f_metadata := Some meta\<rparr>)"

definition dm :: "string \<Rightarrow> string \<Rightarrow> json \<Rightarrow> sdk \<Rightarrow> sdk" where
  "dm u m meta = send_frame ((empty_frame ''dm:send'')\<lparr>f_to := Some u, f_message := Some m, f_metadata := Some meta\<rparr>)"

definition command_sdk :: "string \<Rightarrow> string \<Rightarrow> string \<Rightarrow> sdk \<Rightarrow> sdk" where
  "command_sdk r c a = send_frame ((empty_frame ''command:send'')\<lparr>f_room := Some r, f_command := Some c, f_args := Some a\<rparr>)"

definition listRooms :: "sdk \<Rightarrow> nat \<times> sdk" where
  "listRooms = request (empty_frame ''room:list'') ''room:list''"

definition history :: "string \<Rightarrow> int \<Rightarrow> sdk \<Rightarrow> nat \<times> sdk" where
  "history r l = request ((empty_frame ''room:history'')\<lparr>f_room := Some r, f_limit := Some l\<rparr>) (''history:'' @ r)"

definition dmHistory :: "string \<Rightarrow> int \<Rightarrow> sdk \<Rightarrow> nat \<times> sdk" where
  "dmHistory u l = request ((empty_frame ''dm:history'')\<lparr>f_with := Some u, f_limit := Some l\<rparr>) (''dm:history:'' @ u)"

definition dmList :: "sdk \<Rightarrow> nat \<times> sdk" where
  "dmList = request (empty_frame ''dm:list'') ''dm:list''"

definition on_handler :: "string \<Rightarrow> nat \<Rightarrow> sdk \<Rightarrow> sdk" where
  \<comment> \<open>\<open>onMessage\<close>, \<open>onDM\<close>, \<open>onRoomJoined\<close>, \<open>onRoomLeft\<close>, \<open>onPresence\<close>,
      \<open>onCommand\<close>, \<open>onError\<close>: \<open>this._handlers[key] = handler\<close>\<close>
  "on_handler key h st = st\<lparr>handlers := AList.update key h (handlers st)\<rparr>"

definition disconnect :: "sdk \<Rightarrow> sdk" where
  "disconnect st = st\<lparr>sdk_autoReconnect := False, reconnect_timer := False,
     sdk_ws := map_option (\<lambda>rs. if rs = CLOSED then CLOSED else CLOSING) (sdk_ws st)\<rparr>"

section \<open>Runs\<close>

datatype sdk_event =
    Connect | Opened | Receive "out option" | Closed | Timer_fired
  | Call_join string | Call_leave string | Call_send string string json | Call_dm string string json
  | Call_command string string string | Call_listRooms | Call_history string int
  | Call_dmHistory string int | Call_dmList | Call_on string nat | Call_disconnect

fun sdk_step :: "sdk_event \<Rightarrow> sdk \<Rightarrow> sdk" where
  "sdk_step Connect st = snd (connect st)"
| "sdk_step Opened st = (if sdk_ws st = Some CONNECTING then on_open st else st)"
| "sdk_step (Receive raw) st = (if sdk_ws st = Some OPEN then on_raw raw st else st)"
| "sdk_step Closed st = (if sdk_ws st \<noteq> None then on_close st else st)"
| "sdk_step Timer_fired st = (if reconnect_timer st then reconnect_fire st else st)"
| "sdk_step (Call_join r) st = snd (join r st)"
| "sdk_step (Call_leave r) st = snd (leave r st)"
| "sdk_step (Call_send r m meta) st = send_msg r m meta st"
| "sdk_step (Call_dm u m meta) st = dm u m meta st"
| "sdk_step (Call_command r c a) st = command_sdk r c a st"
| "sdk_step Call_listRooms st = snd (listRooms st)"
| "sdk_step (Call_history r l) st = snd (history r l st)"
| "sdk_step (Call_dmHistory u l) st = snd (dmHistory u l st)"
| "sdk_step Call_dmList st = snd (dmList st)"
| "sdk_step (Call_on k h) st = on_handler k h st"
| "sdk_step Call_disconnect st = disconnect st"

definition sdk_run :: "sdk_event list \<Rightarrow> sdk \<Rightarrow> sdk" where
  "sdk_run evs st = fold sdk_step evs st"

primrec cb_id :: "callback \<Rightarrow> nat" where
  "cb_id (Auth_cb p) = p"
| "cb_id (Resolve_cb p) = p"

definition pending_ids :: "sdk \<Rightarrow> nat set" where
  "pending_ids st = cb_id ` snd ` set (pending st)"

definition settled_ids :: "sdk \<Rightarrow> nat set" where
  "settled_ids st = settle_id ` set (settled st)"

definition orphan :: "nat \<Rightarrow> sdk \<Rightarrow> bool" where
  \<comment> \<open>a promise that was handed out, is not settled, and has no callback left to settle it\<close>
  "orphan p st \<longleftrightarrow> p < next_promise st \<and> p \<notin> pending_ids st \<and> p \<notin> settled_ids st"

definition promise_step :: "sdk \<Rightarrow> sdk \<Rightarrow> bool" where
  \<comment> \<open>what one step may do to promises: draw fresh ones, settle pending ones\<close>
  "promise_step st st' \<longleftrightarrow> next_promise st \<le> next_promise st'
     \<and> pending_ids st' \<subseteq> pending_ids st \<union> {next_promise st..<next_promise st'}
     \<and> settled_ids st' \<subseteq> settled_ids st \<union> pending_ids st"

definition ids_below :: "sdk \<Rightarrow> bool" where
  "ids_below st \<longleftrightarrow> (\<forall>p \<in> pending_ids st. p < next_promise st) \<and> (\<forall>p \<in> settled_ids st. p < next_promise st)"

inductive sdk_reachable :: "sdk \<Rightarrow> bool" where
  init: "sdk_reachable (AgentChat u pw reg auto)"
| step: "sdk_reachable st \<Longrightarrow> sdk_reachable (sdk_step ev st)"

section \<open>Promises\<close>

lemma pending_ids_update: "pending_ids (st\<lparr>pending := AList.update k cb (pending st)\<rparr>) \<subseteq> insert (cb_id cb) (pending_ids st)"
  by (auto simp: pending_ids_def dest!: set_update_member)

lemma pending_ids_delete: "pending_ids (st\<lparr>pending := AList.delete k (pending st)\<rparr>) \<subseteq> pending_ids st"
  by (auto simp: pending_ids_def dest!: set_delete_member)

lemma settle_fields [simp]:
  "pending (settle x st) = pending st" "next_promise (settle x st) = next_promise st"
  "handlers (settle x st) = handlers st" "sdk_ws (settle x st) = sdk_ws st"
  "sent (settle x st) = sent st" "handled (settle x st) = handled st"
  "sdk_autoReconnect (settle x st) = sdk_autoReconnect st"
  by (simp_all add: settle_def)

lemma settled_ids_settle: "settled_ids (settle x st) = insert (settle_id x) (settled_ids st)"
  by (auto simp: settle_def settled_ids_def)

lemma run_callback_fields [simp]:
  "pending (run_callback cb msg st) = pending st" "next_promise (run_callback cb msg st) = next_promise st"
  "handlers (run_callback cb msg st) = handlers st" "sdk_ws (run_callback cb msg st) = sdk_ws st"
  "sent (run_callback cb msg st) = sent st" "handled (run_callback cb msg st) = handled st"
  by (auto simp: run_callback_def split: callback.splits out.splits)

lemma settled_ids_run_callback:
  "settled_ids (run_callback cb msg st) \<subseteq> insert (cb_id cb) (settled_ids st)"
  by (auto simp: run_callback_def settled_ids_settle settle_id_def split: callback.splits out.splits)
    (auto simp: settled_ids_def)

lemma map_of_pending_id: "map_of (pending st) k = Some cb \<Longrightarrow> cb_id cb \<in> pending_ids st"
  by (force simp: pending_ids_def dest: map_of_SomeD)

lemma next_promise_dispatch [simp]: "next_promise (dispatch msg st) = next_promise st"
  by (simp add: dispatch_def Let_def split: option.splits)

lemma pending_dispatch: "set (pending (dispatch msg st)) \<subseteq> set (pending st)"
  by (auto simp: dispatch_def Let_def AList.delete_eq split: option.splits)

lemma pending_ids_dispatch: "pending_ids (dispatch msg st) \<subseteq> pending_ids st"
  using pending_dispatch [of msg st] by (auto simp: pending_ids_def)

lemma settled_ids_dispatch: "settled_ids (dispatch msg st) \<subseteq> settled_ids st \<union> pending_ids st"

proof -
  have cb: "settled_ids (run_callback cb msg st) \<subseteq> settled_ids st \<union> pending_ids st"
    if "map_of (pending st) k = Some cb" for cb k
    using settled_ids_run_callback [of cb msg st] map_of_pending_id [OF that] by blast
  have "settled_ids (st'\<lparr>pending := x\<rparr>) = settled_ids st'" for st' :: sdk and x
    by (simp add: settled_ids_def)
  moreover have "settled_ids (st\<lparr>handled := x\<rparr>) = settled_ids st" for x
    by (simp add: settled_ids_def)
  ultimately show ?thesis
    using cb unfolding dispatch_def Let_def by (auto split: option.splits if_splits)

qed

lemma send_frame_fields [simp]:
  "pending (send_frame obj st) = pending st" "next_promise (send_frame obj st) = next_promise st"
  "settled (send_frame obj st) = settled st" "handlers (send_frame obj st) = handlers st"
  "sdk_ws (send_frame obj st) = sdk_ws st"
  by (simp_all add: send_frame_def)

lemma request_promises:
  "fst (request obj k st) = next_promise st"
  "next_promise (snd (request obj k st)) = Suc (next_promise st)"
  "pending (snd (request obj k st)) = AList.update k (Resolve_cb (next_promise st)) (pending st)"
  "settled (snd (request obj k st)) = settled st"
  "handlers (snd (request obj k st)) = handlers st"
  "handled (snd (request obj k st)) = handled st"
  by (simp_all add: request_def Let_def send_frame_def)

lemma connect_promises:
  "fst (connect st) = next_promise st"
  "next_promise (snd (connect st)) = Suc (next_promise st)"
  "pending (snd (connect st)) = AList.update ''auth'' (Auth_cb (next_promise st)) (pending st)"
  "settled (snd (connect st)) = settled st"
  by (simp_all add: connect_def Let_def)

lemma promise_step_frame:
  "next_promise st' = next_promise st \<Longrightarrow> pending st' = pending st \<Longrightarrow> settled st' = settled st
   \<Longrightarrow> promise_step st st'"
  by (simp add: promise_step_def pending_ids_def settled_ids_def)

lemma promise_step_dispatch: "promise_step st (dispatch msg st)"
  using pending_ids_dispatch [of msg st] settled_ids_dispatch [of msg st]
  by (auto simp: promise_step_def)

lemma promise_step_fresh:
  assumes "next_promise st' = Suc (next_promise st)" "pending st' = AList.update k cb (pending st)"
    "cb_id cb = next_promise st" "settled st' = settled st"
  shows "promise_step st st'"
  using pending_ids_update [where st = st and k = k and cb = cb] assms
  by (auto simp: promise_step_def pending_ids_def settled_ids_def)

lemma promise_step_connect: "promise_step st (snd (connect st))"
  by (rule promise_step_fresh [where k = "''auth''" and cb = "Auth_cb (next_promise st)"])
    (simp_all add: connect_promises)

lemma promise_step_request: "promise_step st (snd (request obj k st))"
  by (rule promise_step_fresh [where k = k and cb = "Resolve_cb (next_promise st)"])
    (simp_all add: request_promises)

lemma promise_fields [simp]:
  "next_promise (on_open st) = next_promise st" "pending (on_open st) = pending st" "settled (on_open st) = settled st"
  "next_promise (on_close st) = next_promise st" "pending (on_close st) = pending st" "settled (on_close st) = settled st"
  "next_promise (disconnect st) = next_promise st" "pending (disconnect st) = pending st"
  "settled (disconnect st) = settled st"
  "next_promise (on_handler k h st) = next_promise st" "pending (on_handler k h st) = pending st"
  "settled (on_handler k h st) = settled st"
  by (simp_all add: on_open_def on_close_def disconnect_def on_handler_def)

lemma promise_step_sdk_step: "promise_step st (sdk_step ev st)"

proof (cases ev)
  case (Receive raw)
  then show ?thesis using promise_step_dispatch by (simp add: on_raw_def promise_step_frame split: option.splits)

next
  case Timer_fired
  have "promise_step st (snd (connect (st\<lparr>reconnect_timer := False\<rparr>)))"
    by (rule promise_step_fresh [where k = "''auth''" and cb = "Auth_cb (next_promise st)"])
      (simp_all add: connect_promises)
  then show ?thesis using Timer_fired by (simp add: reconnect_fire_def promise_step_frame)

qed (auto intro: promise_step_connect promise_step_request promise_step_frame
  simp: join_def leave_def listRooms_def history_def dmHistory_def dmList_def send_msg_def dm_def command_sdk_def)

lemma orphan_step: "orphan p st \<Longrightarrow> orphan p (sdk_step ev st)"
  using promise_step_sdk_step [of st ev] by (auto simp: orphan_def promise_step_def)

lemma orphan_sdk_run: "orphan p st \<Longrightarrow> orphan p (sdk_run evs st)"
  unfolding sdk_run_def by (induction evs arbitrary: st) (simp_all add: orphan_step)

lemma ids_below_step: "ids_below st \<Longrightarrow> ids_below (sdk_step ev st)"
  using promise_step_sdk_step [of st ev] unfolding ids_below_def promise_step_def
  by (metis (no_types, lifting) Un_iff atLeastLessThan_iff order_less_le_trans subsetD)

lemma sdk_reachable_ids_below: "sdk_reachable st \<Longrightarrow> ids_below st"

proof (induction rule: sdk_reachable.induct)
  case (init u pw reg auto)
  then show ?case by (simp add: ids_below_def AgentChat_def pending_ids_def settled_ids_def)

next
  case (step st ev)
  then show ?case by (simp add: ids_below_step)

qed

lemma sdk_reachable_run: "sdk_reachable st \<Longrightarrow> sdk_reachable (sdk_run evs st)"
  unfolding sdk_run_def by (induction evs arbitrary: st) (auto intro: sdk_reachable.step)

lemma fresh_promise_unsettled: "sdk_reachable st \<Longrightarrow> next_promise st \<notin> settled_ids st"
  using sdk_reachable_ids_below by (auto simp: ids_below_def)

lemma fresh_promise_not_pending: "sdk_reachable st \<Longrightarrow> next_promise st \<notin> pending_ids st"
  using sdk_reachable_ids_below by (auto simp: ids_below_def)

text \<open>C12. Two overlapping \<open>join\<close> calls for one room: the second overwrites the first's callback under \<open>join:room\<close>, and the first promise is never settled, whatever events follow.\<close>

theorem join_again_orphans:
  assumes "sdk_reachable st"
  shows "fst (join r st) \<notin> settled_ids (sdk_run evs (snd (join r (snd (join r st)))))"

proof -
  let ?p = "next_promise st"
  let ?st2 = "snd (join r (snd (join r st)))"
  have pend: "pending ?st2 = AList.update (''join:'' @ r) (Resolve_cb (Suc ?p)) (pending st)"
    by (simp add: join_def request_promises)
  have "pending_ids ?st2 \<subseteq> insert (Suc ?p) (pending_ids st)"
    using pending_ids_update [where st = st and k = "''join:'' @ r" and cb = "Resolve_cb (Suc ?p)"] pend
    by (simp add: pending_ids_def)
  then have "orphan ?p ?st2"
    using fresh_promise_unsettled [OF assms] fresh_promise_not_pending [OF assms]
    by (auto simp: orphan_def join_def request_promises settled_ids_def)
  then have "orphan ?p (sdk_run evs ?st2)" by (rule orphan_sdk_run)
  then show ?thesis by (simp add: orphan_def join_def request_promises)

qed

lemma dispatch_resolves:
  assumes "\<not> starts_with ''auth:'' (msg_type msg)" "callbackKeyFor msg = Some k"
    "map_of (pending st) k = Some (Resolve_cb p)" "p \<notin> settled_ids st"
  shows "dispatch msg st = st\<lparr>pending := AList.delete k (pending st), settled := settled st @ [Resolved p msg]\<rparr>"
  using assms by (simp add: dispatch_def run_callback_def settle_def settle_id_def settled_ids_def)

lemma dispatch_to_handler:
  assumes "\<not> starts_with ''auth:'' (msg_type msg)"
    "case callbackKeyFor msg of None \<Rightarrow> True | Some k \<Rightarrow> map_of (pending st) k = None"
    "handler_key msg = Some hk" "map_of (handlers st) hk = Some h"
  shows "dispatch msg st = st\<lparr>handled := handled st @ [(h, msg)]\<rparr>"
  using assms by (simp add: dispatch_def split: option.splits)

lemma join_reply_twice:
  fixes st :: sdk and r u :: string
  assumes "sdk_reachable st" "map_of (handlers st) ''roomJoined'' = Some h"
  defines "p \<equiv> fst (join r st)" and "st1 \<equiv> snd (join r st)"
  shows "settled (fold dispatch [Room_joined r u, Room_joined r u] st1) = settled st @ [Resolved p (Room_joined r u)]
    \<and> handled (fold dispatch [Room_joined r u, Room_joined r u] st1) = handled st @ [(h, Room_joined r u)]"

proof -
  have na: "\<not> starts_with ''auth:'' (msg_type (Room_joined r u))" by (simp add: starts_with_def)
  have pend: "pending st1 = AList.update (''join:'' @ r) (Resolve_cb p) (pending st)"
    by (simp add: st1_def p_def join_def request_promises)
  have fresh: "p \<notin> settled_ids st1"
    using fresh_promise_unsettled [OF assms(1)] by (simp add: p_def st1_def join_def request_promises settled_ids_def)
  have hs: "handlers st1 = handlers st" "handled st1 = handled st" "settled st1 = settled st"
    by (simp_all add: st1_def join_def request_promises)
  let ?st2 = "dispatch (Room_joined r u) st1"
  have st2: "?st2 = st1\<lparr>pending := AList.delete (''join:'' @ r) (pending st1), settled := settled st1 @ [Resolved p (Room_joined r u)]\<rparr>"
    by (rule dispatch_resolves [OF na]) (simp_all add: pend fresh update_conv')
  have "dispatch (Room_joined r u) ?st2 = ?st2\<lparr>handled := handled ?st2 @ [(h, Room_joined r u)]\<rparr>"
  proof (rule dispatch_to_handler [OF na])
    show "map_of (handlers ?st2) ''roomJoined'' = Some h"
      using assms(2) hs by (simp add: st2)
  qed (simp_all add: st2 pend delete_update_same map_of_delete_same)
  then show ?thesis by (simp add: st2 hs)

qed

text \<open>C14. A join refused with \<open>room:error\<close> is reported to the \<open>error\<close> handler, while the join promise stays unsettled with its callback still pending: the SDK has no request timeout.\<close>

theorem join_error_pending:
  fixes st :: sdk and r m :: string
  assumes "sdk_reachable st"
  defines "p \<equiv> fst (join r st)" and "st1 \<equiv> snd (join r st)"
  shows "map_of (pending (dispatch (Room_error m) st1)) (''join:'' @ r) = Some (Resolve_cb p)
    \<and> p \<notin> settled_ids (dispatch (Room_error m) st1)
    \<and> handled (dispatch (Room_error m) st1) =
         handled st1 @ (case map_of (handlers st1) ''error'' of None \<Rightarrow> [] | Some h \<Rightarrow> [(h, Room_error m)])"

proof -
  have "settled (dispatch (Room_error m) st1) = settled st1 \<and> pending (dispatch (Room_error m) st1) = pending st1"
    by (simp add: dispatch_def starts_with_def split: option.splits)
  moreover have "handled (dispatch (Room_error m) st1) =
      handled st1 @ (case map_of (handlers st1) ''error'' of None \<Rightarrow> [] | Some h \<Rightarrow> [(h, Room_error m)])"
    by (simp add: dispatch_def starts_with_def split: option.splits)
  ultimately show ?thesis
    using fresh_promise_unsettled [OF assms(1)]
    by (simp add: p_def st1_def join_def request_promises settled_ids_def update_conv')

qed

lemma reconnect_sends_resume:
  fixes st :: sdk and t :: string and u :: user_info
  assumes "sdk_reachable st" "sdk_autoReconnect st" "t \<noteq> []"
  defines "p \<equiv> fst (connect st)" and "st1 \<equiv> dispatch (Auth_success t u) (snd (connect st))"
  shows "settled st1 = settled st @ [Resolved_user p (Some u)] \<and> sdk_token st1 = Some t \<and> connected st1
    \<and> \<not> sdk_register st1 \<and> reconnect_timer (on_close st1)
    \<and> last (sent (on_open (reconnect_fire (on_close st1)))) = (empty_frame ''auth:resume'')\<lparr>f_token := Some t\<rparr>"

proof -
  have fresh: "p \<notin> settled_ids st"
    using fresh_promise_unsettled [OF assms(1)] by (simp add: p_def connect_promises)
  have st1: "st1 = (snd (connect st))\<lparr>sdk_token := Some t, connected := True, sdk_register := False,
      settled := settled st @ [Resolved_user p (Some u)], pending := AList.delete ''auth'' (pending (snd (connect st)))\<rparr>"
    using fresh by (simp add: st1_def p_def dispatch_def starts_with_def connect_def Let_def update_conv'
      run_callback_def settle_def settle_id_def settled_ids_def)
  have auto: "sdk_autoReconnect st1" using assms(2) by (simp add: st1 connect_def Let_def)
  show ?thesis
    using assms(3) auto by (simp add: st1 on_close_def reconnect_fire_def on_open_def auth_frame_def connect_def Let_def)

qed

end
