(* ===== verification/Client.thy ===== *)
theory Client
  imports Protocol
begin

text \<open>
  The web client's state, \<open>src/client/src/context/ChatContext.jsx\<close> (the reducer and the
  frame handler \<open>onMessageRef.current\<close>) and \<open>src/client/src/hooks/useWebSocket.js\<close>
  (one socket, \<open>send\<close>, automatic reconnect). The React state is the record
  \<open>chat\<close>; an object keyed by room or user is an association list. The values kept
  under \<open>messages[room]\<close> are history rows, live events or local command notes, as
  in the JavaScript arrays, so \<open>chat_item\<close> has one constructor per shape.
  \<open>Date.now()\<close> is an input. The 100 ms \<open>setInterval\<close> of \<open>login\<close>,
  \<open>register\<close> and the resume effect is the event \<open>Auth_tick\<close>.
\<close>

section \<open>State\<close>

datatype chat_item =
    Hist msg_row                              \<comment> \<open>a row of \<open>room:history\<close>\<close>
  | Live message_event                        \<comment> \<open>a \<open>message:new\<close> event\<close>
  | Note string "string option" string int json
      \<comment> \<open>a local note: id prefix (the id is the prefix and the time), from (null), text, time, metadata\<close>

datatype dm_item = Dm_hist dm_row | Dm_live dm_event

datatype room_entry = Listed room_summary | Created "room_row option"

record online_entry =
  oe_username :: string
  oe_avatar :: "string option"   \<comment> \<open>absent in entries added by \<open>USER_JOINED_ROOM\<close>\<close>

record chat =
  cs_user :: "user_info option"
  cs_token :: "token option"
  cs_rooms :: "room_entry list"
  joinedRooms :: "string list"
  currentRoom :: "string option"
  currentDM :: "string option"
  cs_messages :: "(string \<times> chat_item list) list"
  dmConversations :: "string list"
  dmMessages :: "(string \<times> dm_item list) list"
  onlineUsers :: "(string \<times> online_entry list) list"
  cs_commands :: "(string \<times> string) list"
  authError :: "string option"

definition initialState :: "token option \<Rightarrow> chat" where
  \<comment> \<open>the token is \<open>localStorage.getItem('agentchat_token')\<close>\<close>
  "initialState tk = \<lparr>cs_user = None, cs_token = tk, cs_rooms = [], joinedRooms = [], currentRoom = None,
     currentDM = None, cs_messages = [], dmConversations = [], dmMessages = [], onlineUsers = [],
     cs_commands = [], authError = None\<rparr>"

datatype action =
    AUTH_SUCCESS "user_info option" "token option"
  | AUTH_ERROR string
  | LOGOUT
  | SET_ROOMS "room_summary list"
  | ROOM_CREATED "room_row option"
  | ROOM_JOINED string
  | ROOM_LEFT string
  | SET_CURRENT_ROOM string
  | SET_CURRENT_DM string
  | ROOM_HISTORY string "msg_row list"
  | NEW_MESSAGE string chat_item            \<comment> \<open>the message and its \<open>room\<close> key\<close>
  | ROOM_USERS string "online_user list"
  | USER_JOINED_ROOM string string
  | USER_LEFT_ROOM string string
  | DM_LIST "string list"
  | DM_HISTORY string "dm_row list"
  | NEW_DM dm_event
  | SET_COMMANDS "(string \<times> string) list"
  | PROFILE_UPDATED user_info

section \<open>The reducer\<close>

definition lookup_or_nil :: "('k \<times> 'v list) list \<Rightarrow> 'k \<Rightarrow> 'v list" where
  \<comment> \<open>\<open>state.x[k] || []\<close>\<close>
  "lookup_or_nil m k = (case map_of m k of None \<Rightarrow> [] | Some v \<Rightarrow> v)"

fun reducer :: "chat \<Rightarrow> action \<Rightarrow> chat" where
  "reducer st (AUTH_SUCCESS u tk) = st\<lparr>cs_user := u, cs_token := tk, authError := None\<rparr>"
| "reducer st (AUTH_ERROR m) = st\<lparr>authError := Some m\<rparr>"
| "reducer st LOGOUT = initialState None"
| "reducer st (SET_ROOMS rs) = st\<lparr>cs_rooms := map Listed rs\<rparr>"
| "reducer st (ROOM_CREATED r) = st\<lparr>cs_rooms := cs_rooms st @ [Created r]\<rparr>"
| "reducer st (ROOM_JOINED r) =
     st\<lparr>joinedRooms := (if r \<in> set (joinedRooms st) then joinedRooms st else joinedRooms st @ [r])\<rparr>"
| "reducer st (ROOM_LEFT r) =
     st\<lparr>joinedRooms := filter (\<lambda>x. x \<noteq> r) (joinedRooms st),
        currentRoom := (if currentRoom st = Some r then None else currentRoom st)\<rparr>"
| "reducer st (SET_CURRENT_ROOM r) = st\<lparr>currentRoom := Some r, currentDM := None\<rparr>"
| "reducer st (SET_CURRENT_DM u) = st\<lparr>currentDM := Some u, currentRoom := None\<rparr>"
| "reducer st (ROOM_HISTORY r ms) = st\<lparr>cs_messages := AList.update r (map Hist ms) (cs_messages st)\<rparr>"
| "reducer st (NEW_MESSAGE r m) =
     st\<lparr>cs_messages := AList.update r (lookup_or_nil (cs_messages st) r @ [m]) (cs_messages st)\<rparr>"
| "reducer st (ROOM_USERS r us) =
     st\<lparr>onlineUsers := AList.update r (map (\<lambda>x. \<lparr>oe_username = ou_username x, oe_avatar = Some (ou_avatar x)\<rparr>) us)
                        (onlineUsers st)\<rparr>"
| "reducer st (USER_JOINED_ROOM r u) =
     (let us = lookup_or_nil (onlineUsers st) r
      in if find (\<lambda>x. oe_username x = u) us \<noteq> None then st
         else st\<lparr>onlineUsers := AList.update r (us @ [\<lparr>oe_username = u, oe_avatar = None\<rparr>]) (onlineUsers st)\<rparr>)"
| "reducer st (USER_LEFT_ROOM r u) =
     st\<lparr>onlineUsers := AList.update r (filter (\<lambda>x. oe_username x \<noteq> u) (lookup_or_nil (onlineUsers st) r))
                        (onlineUsers st)\<rparr>"
| "reducer st (DM_LIST cs) = st\<lparr>dmConversations := cs\<rparr>"
| "reducer st (DM_HISTORY w ms) = st\<lparr>dmMessages := AList.update w (map Dm_hist ms) (dmMessages st)\<rparr>"
| "reducer st (NEW_DM m) =
     (let other = (if Some (de_from m) = map_option ui_username (cs_user st) then de_to m else de_from m)
      in st\<lparr>dmMessages := AList.update other (lookup_or_nil (dmMessages st) other @ [Dm_live m]) (dmMessages st),
            dmConversations := (if other \<in> set (dmConversations st) then dmConversations st
                                else dmConversations st @ [other])\<rparr>)"
| "reducer st (SET_COMMANDS cs) = st\<lparr>cs_commands := cs\<rparr>"
| "reducer st (PROFILE_UPDATED u) = st\<lparr>cs_user := Some u\<rparr>"

section \<open>Frames to actions\<close>

definition own :: "chat \<Rightarrow> string \<Rightarrow> bool" where
  \<comment> \<open>\<open>msg.user === stateRef.current.user?.username\<close>\<close>
  "own st u \<longleftrightarrow> map_option ui_username (cs_user st) = Some u"

fun frame_actions :: "int \<Rightarrow> chat \<Rightarrow> out \<Rightarrow> action list" where
  "frame_actions t st (Auth_success tk u) = [AUTH_SUCCESS (Some u) (Some tk)]"
| "frame_actions t st Auth_password_changed = [AUTH_SUCCESS None None]"
| "frame_actions t st (Auth_error m) = [AUTH_ERROR m]"
| "frame_actions t st (Auth_profile_updated u) = [PROFILE_UPDATED u]"
| "frame_actions t st (Room_list rs) = [SET_ROOMS rs]"
| "frame_actions t st (Room_created r) = [ROOM_CREATED r]"
| "frame_actions t st (Room_joined r u) = (if own st u then [ROOM_JOINED r] else []) @ [USER_JOINED_ROOM r u]"
| "frame_actions t st (Room_left r u) = (if own st u then [ROOM_LEFT r] else []) @ [USER_LEFT_ROOM r u]"
| "frame_actions t st (Room_history r ms) = [ROOM_HISTORY r ms]"
| "frame_actions t st (Room_users r us) = [ROOM_USERS r us]"
| "frame_actions t st (Message_new ev) = [NEW_MESSAGE (ev_room ev) (Live ev)]"
| "frame_actions t st (Dm_new ev) = [NEW_DM ev]"
| "frame_actions t st (Dm_list cs) = [DM_LIST cs]"
| "frame_actions t st (Dm_history w ms) = [DM_HISTORY w ms]"
| "frame_actions t st (Command_result r cmd res) =
     [NEW_MESSAGE (case r of None \<Rightarrow> ''undefined'' | Some x \<Rightarrow> x)
        (Note ''cmd-'' None res t (JObj [(''system'', JBool True), (''command'', JStr cmd)]))]"
| "frame_actions t st (Command_error cmd m) =
     [NEW_MESSAGE (case currentRoom st of None \<Rightarrow> ''null'' | Some x \<Rightarrow> x)
        (Note ''cmd-err-'' None m t (JObj [(''system'', JBool True), (''error'', JBool True)]))]"
| "frame_actions t st (Command_list cs) = [SET_COMMANDS cs]"
| "frame_actions t st (Presence_offline u r) = [USER_LEFT_ROOM r u]"
| "frame_actions t st (System_error _) = []"
| "frame_actions t st (Room_error _) = []"
| "frame_actions t st Pong = []"

definition on_frame :: "int \<Rightarrow> out \<Rightarrow> chat \<Rightarrow> chat" where
  \<comment> \<open>\<open>onMessageRef.current(msg)\<close>: each \<open>dispatch\<close> in order; \<open>stateRef\<close> is read
      before the first one\<close>
  "on_frame t m st = fold (\<lambda>a s. reducer s a) (frame_actions t st m) st"

section \<open>The socket hook and the provider's actions\<close>

record web =
  w_chat :: chat
  stored_token :: "token option"      \<comment> \<open>\<open>localStorage['agentchat_token']\<close>\<close>
  w_ws :: "ready_state option"        \<comment> \<open>\<open>wsRef.current\<close>\<close>
  w_connected :: bool
  w_timer :: bool                     \<comment> \<open>a reconnect \<open>setTimeout\<close> is scheduled\<close>
  w_interval :: "frame option"        \<comment> \<open>the pending 100 ms auth interval and its frame\<close>
  w_sent :: "frame list"

definition web_init :: "token option \<Rightarrow> web" where
  "web_init tk = \<lparr>w_chat = initialState tk, stored_token = tk, w_ws = None, w_connected = False,
     w_timer = False, w_interval = None, w_sent = []\<rparr>"

definition ws_connect :: "web \<Rightarrow> web" where
  \<comment> \<open>\<open>connect\<close>: nothing while the current socket is connecting or open\<close>
  "ws_connect w = (if w_ws w = Some CONNECTING \<or> w_ws w = Some OPEN then w else w\<lparr>w_ws := Some CONNECTING\<rparr>)"

definition ws_send :: "frame \<Rightarrow> web \<Rightarrow> web" where
  "ws_send f w = (if w_ws w = Some OPEN then w\<lparr>w_sent := w_sent w @ [f]\<rparr> else w)"

definition ws_onopen :: "web \<Rightarrow> web" where
  "ws_onopen w = w\<lparr>w_ws := Some OPEN, w_connected := True\<rparr>"

definition ws_onclose :: "web \<Rightarrow> web" where
  "ws_onclose w = w\<lparr>w_ws := Some CLOSED, w_connected := False, w_timer := True\<rparr>"

definition ws_onmessage :: "int \<Rightarrow> out \<Rightarrow> web \<Rightarrow> web" where
  \<comment> \<open>\<open>auth:success\<close> also writes \<open>msg.token\<close> to \<open>localStorage\<close> (\<open>undefined\<close> is stored as text)\<close>
  "ws_onmessage t m w =
     (let w1 = w\<lparr>w_chat := on_frame t m (w_chat w)\<rparr>
      in case m of
           Auth_success tk _ \<Rightarrow> w1\<lparr>stored_token := Some tk\<rparr>
         | Auth_password_changed \<Rightarrow> w1\<lparr>stored_token := Some ''undefined''\<rparr>
         | _ \<Rightarrow> w1)"

definition ws_disconnect :: "web \<Rightarrow> web" where
  "ws_disconnect w = w\<lparr>w_timer := False,
     w_ws := map_option (\<lambda>rs. if rs = CLOSED then CLOSED else CLOSING) (w_ws w)\<rparr>"

definition start_auth :: "frame \<Rightarrow> web \<Rightarrow> web" where
  \<comment> \<open>\<open>connect()\<close> then \<open>setInterval(() => { send(frame); clearInterval(check) }, 100)\<close>\<close>
  "start_auth f w = (ws_connect w)\<lparr>w_interval := Some f\<rparr>"

definition auth_tick :: "web \<Rightarrow> web" where
  "auth_tick w = (case w_interval w of None \<Rightarrow> w | Some f \<Rightarrow> ws_send f (w\<lparr>w_interval := None\<rparr>))"

definition login_web :: "string \<Rightarrow> string \<Rightarrow> web \<Rightarrow> web" where
  "login_web u p = start_auth ((empty_frame ''auth:login'')\<lparr>f_username := Some u, f_password := Some p\<rparr>)"

definition register_web :: "string \<Rightarrow> string \<Rightarrow> web \<Rightarrow> web" where
  "register_web u p = start_auth ((empty_frame ''auth:register'')\<lparr>f_username := Some u, f_password := Some p\<rparr>)"

definition resume_on_mount :: "web \<Rightarrow> web" where
  "resume_on_mount w =
     (case cs_token (w_chat w) of
        Some tk \<Rightarrow> if tk \<noteq> [] \<and> cs_user (w_chat w) = None
                   then start_auth ((empty_frame ''auth:resume'')\<lparr>f_token := Some tk\<rparr>) w else w
      | None \<Rightarrow> w)"

definition logout_web :: "web \<Rightarrow> web" where
  "logout_web w = (let w1 = ws_disconnect (w\<lparr>stored_token := None\<rparr>) in w1\<lparr>w_chat := reducer (w_chat w1) LOGOUT\<rparr>)"

definition setCurrentRoom :: "string \<Rightarrow> web \<Rightarrow> web" where
  "setCurrentRoom r w =
     ws_send ((empty_frame ''room:users'')\<lparr>f_room := Some r\<rparr>)
       (ws_send ((empty_frame ''room:history'')\<lparr>f_room := Some r\<rparr>)
          (w\<lparr>w_chat := reducer (w_chat w) (SET_CURRENT_ROOM r)\<rparr>))"

definition setCurrentDM :: "string \<Rightarrow> web \<Rightarrow> web" where
  "setCurrentDM u w =
     ws_send ((empty_frame ''dm:history'')\<lparr>f_with := Some u\<rparr>) (w\<lparr>w_chat := reducer (w_chat w) (SET_CURRENT_DM u)\<rparr>)"

definition handleSubmit :: "string \<Rightarrow> web \<Rightarrow> web" where
  \<comment> \<open>\<open>MessageInput.handleSubmit\<close> (\<open>components/MessageInput.jsx\<close>): a leading slash in a
      room is a command, the first space separating its name from its arguments\<close>
  "handleSubmit text w =
     (let t = trim text; st = w_chat w
      in if t = [] then w
         else if truthy (currentRoom st) \<and> starts_with ''/'' t then
           (let parts = split_on (CHR '' '') (tl t)
            in ws_send ((empty_frame ''command:send'')\<lparr>f_room := currentRoom st, f_command := Some (hd parts),
                          f_args := Some (join_with '' '' (tl parts))\<rparr>) w)
         else if truthy (currentDM st) then
           ws_send ((empty_frame ''dm:send'')\<lparr>f_to := currentDM st, f_message := Some t\<rparr>) w
         else if truthy (currentRoom st) then
           ws_send ((empty_frame ''message:send'')\<lparr>f_room := currentRoom st, f_message := Some t\<rparr>) w
         else w)"

definition ws_unmount :: "web \<Rightarrow> web" where
  \<comment> \<open>the hook's cleanup effect runs the two statements of \<open>disconnect\<close>\<close>
  "ws_unmount w = ws_disconnect w"

datatype web_event =
    Mount | Login string string | Register string string | Logout | Auth_tick
  | Ws_open | Ws_message int out | Ws_close | Reconnect_timer
  | Send_frame frame     \<comment> \<open>\<open>listRooms\<close>, \<open>createRoom\<close>, \<open>joinRoom\<close>, \<open>leaveRoom\<close>, \<open>sendMessage\<close>, \<open>sendDM\<close>,
                             \<open>sendCommand\<close>, \<open>listCommands\<close>, \<open>loadDMList\<close>, \<open>updateProfile\<close>\<close>
  | Set_room string | Set_dm string | Submit string

fun web_step :: "web_event \<Rightarrow> web \<Rightarrow> web" where
  "web_step Mount w = resume_on_mount w"
| "web_step (Login u p) w = login_web u p w"
| "web_step (Register u p) w = register_web u p w"
| "web_step Logout w = logout_web w"
| "web_step Auth_tick w = auth_tick w"
| "web_step Ws_open w = (if w_ws w = Some CONNECTING then ws_onopen w else w)"
| "web_step (Ws_message t m) w = (if w_ws w = Some OPEN then ws_onmessage t m w else w)"
| "web_step Ws_close w = (if w_ws w = Some CONNECTING \<or> w_ws w = Some OPEN \<or> w_ws w = Some CLOSING
                          then ws_onclose w else w)"
| "web_step Reconnect_timer w = (if w_timer w then ws_connect (w\<lparr>w_timer := False\<rparr>) else w)"
| "web_step (Send_frame f) w = ws_send f w"
| "web_step (Set_room r) w = setCurrentRoom r w"
| "web_step (Set_dm u) w = setCurrentDM u w"
| "web_step (Submit t) w = handleSubmit t w"

definition web_run :: "web_event list \<Rightarrow> web \<Rightarrow> web" where
  "web_run evs w = fold web_step evs w"

definition idle_event :: "web_event \<Rightarrow> bool" where
  "idle_event ev \<longleftrightarrow> ev = Auth_tick \<or> ev = Ws_open \<or> (\<exists>t m. ev = Ws_message t m)"

inductive web_reachable :: "web \<Rightarrow> bool" where
  init: "web_reachable (web_init tk)"
| step: "web_reachable w \<Longrightarrow> web_reachable (web_step ev w)"

section \<open>Properties\<close>

lemma reducer_user [simp]:
  "a \<noteq> LOGOUT \<Longrightarrow> (\<forall>u tk. a \<noteq> AUTH_SUCCESS u tk) \<Longrightarrow> (\<forall>u. a \<noteq> PROFILE_UPDATED u) \<Longrightarrow> cs_user (reducer st a) = cs_user st"
  by (cases a) (simp_all add: Let_def)

lemma own_join_actions: "own st u \<Longrightarrow> frame_actions t st (Room_joined r u) = [ROOM_JOINED r, USER_JOINED_ROOM r u]"
  by simp

lemma lookup_or_nil_update: "lookup_or_nil (AList.update k v m) k' = (if k' = k then v else lookup_or_nil m k')"
  by (simp add: lookup_or_nil_def update_conv')

text \<open>C24. The web client absorbs the duplicated \<open>room:joined\<close>: a second copy for its own user changes nothing, and after the first the room is joined and the user listed online.\<close>

theorem own_join_idempotent:
  assumes "own st u"
  shows "on_frame t' (Room_joined r u) (on_frame t (Room_joined r u) st) = on_frame t (Room_joined r u) st
    \<and> r \<in> set (joinedRooms (on_frame t (Room_joined r u) st))
    \<and> u \<in> oe_username ` set (lookup_or_nil (onlineUsers (on_frame t (Room_joined r u) st)) r)"

proof -
  let ?s1 = "on_frame t (Room_joined r u) st"
  have s1: "?s1 = reducer (reducer st (ROOM_JOINED r)) (USER_JOINED_ROOM r u)"
    using assms by (simp add: on_frame_def)
  have own1: "own ?s1 u" using assms by (simp add: s1 own_def Let_def)
  have j: "r \<in> set (joinedRooms ?s1)" by (simp add: s1 Let_def)
  have o: "find (\<lambda>x. oe_username x = u) (lookup_or_nil (onlineUsers ?s1) r) \<noteq> None"
    by (auto simp: s1 Let_def lookup_or_nil_update find_None_iff)
  have "on_frame t' (Room_joined r u) ?s1 = ?s1"
    using own1 j o by (simp add: on_frame_def)
  moreover have "u \<in> oe_username ` set (lookup_or_nil (onlineUsers ?s1) r)"
    using o by (auto simp: find_None_iff)
  ultimately show ?thesis using j by blast

qed

text \<open>C25. Logout does not stop reconnection: the close handler schedules a reconnect regardless, so a new socket is opened after logout (with the stored token cleared).\<close>

theorem logout_reconnects:
  assumes "w_ws w = Some OPEN"
  shows "stored_token (web_run [Logout, Ws_close, Reconnect_timer] w) = None
    \<and> w_ws (web_run [Logout, Ws_close, Reconnect_timer] w) = Some CONNECTING"
  using assms by (simp add: web_run_def logout_web_def ws_disconnect_def ws_onclose_def ws_connect_def Let_def)

lemma ws_onmessage_fields [simp]:
  "w_sent (ws_onmessage t m w) = w_sent w" "w_interval (ws_onmessage t m w) = w_interval w"
  "w_ws (ws_onmessage t m w) = w_ws w" "w_timer (ws_onmessage t m w) = w_timer w"
  by (simp_all add: ws_onmessage_def Let_def split: out.split)

lemma idle_quiet:
  "w_interval w = None \<Longrightarrow> \<forall>ev \<in> set evs. idle_event ev \<Longrightarrow>
   w_sent (web_run evs w) = w_sent w \<and> w_interval (web_run evs w) = None"
  unfolding web_run_def

proof (induction evs arbitrary: w)
  case (Cons ev evs)
  then have "w_sent (web_step ev w) = w_sent w \<and> w_interval (web_step ev w) = None"
    by (auto simp: idle_event_def auth_tick_def ws_onopen_def)
  with Cons show ?case by simp

qed simp

text \<open>C26. A login whose 100 ms timer fires before the socket opens is lost: the frame is dropped, the timer cleared, and nothing later sends it, although the socket then connects.\<close>

theorem login_lost_before_open:
  assumes "w_ws w = None \<or> w_ws w = Some CLOSED" "\<forall>ev \<in> set evs. idle_event ev"
  shows "w_sent (web_run evs (web_run [Login u p, Auth_tick, Ws_open] w)) = w_sent w
    \<and> w_connected (web_run [Login u p, Auth_tick, Ws_open] w)"

proof -
  let ?w1 = "web_run [Login u p, Auth_tick, Ws_open] w"
  have w1: "w_sent ?w1 = w_sent w" "w_interval ?w1 = None" "w_connected ?w1"
    using assms(1) by (auto simp: web_run_def login_web_def start_auth_def ws_connect_def auth_tick_def
      ws_send_def ws_onopen_def)
  then show ?thesis using idle_quiet [OF w1(2) assms(2)] by simp

qed

lemma web_reachable_run: "web_reachable w \<Longrightarrow> web_reachable (web_run evs w)"
  unfolding web_run_def by (induction evs arbitrary: w) (auto intro: web_reachable.step)

lemma distinct_reducer: "distinct (joinedRooms st) \<Longrightarrow> distinct (joinedRooms (reducer st a))"
  by (cases a) (simp_all add: Let_def initialState_def)

lemma distinct_fold_reducer:
  "distinct (joinedRooms st) \<Longrightarrow> distinct (joinedRooms (fold (\<lambda>a s. reducer s a) as st))"
  by (induction as arbitrary: st) (simp_all add: distinct_reducer)

lemma distinct_on_frame: "distinct (joinedRooms st) \<Longrightarrow> distinct (joinedRooms (on_frame t m st))"
  unfolding on_frame_def by (rule distinct_fold_reducer)

text \<open>C27. Every reachable web-client state lists each joined room once.\<close>

theorem web_joined_distinct: "web_reachable w \<Longrightarrow> distinct (joinedRooms (w_chat w))"
proof (induction rule: web_reachable.induct)
  case (init tk)
  then show ?case by (simp add: web_init_def initialState_def)
next
  case (step w ev)
  then show ?case
    by (cases ev) (auto simp: resume_on_mount_def login_web_def register_web_def start_auth_def ws_connect_def
      logout_web_def ws_disconnect_def Let_def auth_tick_def ws_send_def ws_onopen_def ws_onmessage_def ws_onclose_def
      setCurrentRoom_def setCurrentDM_def handleSubmit_def distinct_reducer distinct_on_frame initialState_def split: option.split out.split)
qed

text \<open>C33. A slash line \<open>/c a\<close> typed in a room (a non-empty, so truthy, room name) is sent as \<open>command:send\<close> with command \<open>c\<close> and arguments \<open>a\<close> unchanged: \<open>split(' ')\<close> followed by \<open>join(' ')\<close> is the identity on the arguments.\<close>

theorem submit_command_roundtrip:
  assumes "currentRoom (w_chat w) = Some r" "r \<noteq> []" "w_ws w = Some OPEN"
    and "CHR '' '' \<notin> set c" "trim (''/'' @ c @ '' '' @ a) = ''/'' @ c @ '' '' @ a"
  shows "w_sent (handleSubmit (''/'' @ c @ '' '' @ a) w) =
    w_sent w @ [(empty_frame ''command:send'')\<lparr>f_room := Some r, f_command := Some c, f_args := Some a\<rparr>]"
proof -
  have "split_on (CHR '' '') (c @ '' '' @ a) = c # split_on (CHR '' '') a"
    using split_on_no_sep [OF assms(4)] by simp
  then show ?thesis
    using assms by (simp add: handleSubmit_def Let_def starts_with_def ws_send_def join_split_on truthy_def)
qed

end
