(* ===== verification/Integrity.thy ===== *)
theory Integrity
  imports Interleaving
begin

text \<open>
  Referential integrity of the server's state. The schema of \<open>db.js\<close> (\<open>init\<close>) declares a
  primary key on every table and foreign keys from rooms, memberships, messages and direct
  messages to users and rooms; \<open>db_wf\<close> states these constraints on the model's tables. The
  handlers keep further references outside the database: \<open>ws.rooms\<close> names rooms,
  \<open>ws.user\<close> and the token store name users; \<open>refs_ok\<close> says each of them exists in its
  table. Both hold in every reachable state.

  Which exceptions a handler can raise depends on the schedule. \<open>ireachable\<close> adds to the
  steps of \<open>reachable\<close> the suspension of \<open>auth:register\<close> at its \<open>await\<close>
  (\<open>register_check\<close>, theory \<open>Interleaving\<close>) and its later resumption
  (\<open>register_finish\<close>) on the state current then, with any events in between. The other
  \<open>await\<close>s of handler.js (lines 101, 137, 141, 282) are followed only by writes that no
  other handler can make fail (a user row is never deleted, \<open>execute\<close> touches no
  table), so they add no exception and are kept atomic.
\<close>

definition db_wf :: "database \<Rightarrow> bool" where
  \<comment> \<open>the \<open>PRIMARY KEY\<close> and \<open>FOREIGN KEY\<close> clauses of the five \<open>CREATE TABLE\<close> statements\<close>
  "db_wf d \<longleftrightarrow>
     distinct (map user_username (users d)) \<and>
     distinct (map room_name (rooms d)) \<and>
     distinct (map (\<lambda>m. (member_room m, member_username m)) (room_members d)) \<and>
     distinct (map msg_id (messages d)) \<and>
     distinct (map dm_id (direct_messages d)) \<and>
     list_all (\<lambda>r. user_exists d (room_created_by r)) (rooms d) \<and>
     list_all (\<lambda>m. room_exists d (member_room m) \<and> user_exists d (member_username m)) (room_members d) \<and>
     list_all (\<lambda>m. room_exists d (msg_room m) \<and> user_exists d (msg_sender m)) (messages d) \<and>
     list_all (\<lambda>m. user_exists d (dm_sender m) \<and> user_exists d (dm_recipient m)) (direct_messages d)"

definition db_grows :: "database \<Rightarrow> database \<Rightarrow> bool" where
  \<comment> \<open>no user and no room disappears\<close>
  "db_grows d d' \<longleftrightarrow>
     set (map user_username (users d)) \<subseteq> set (map user_username (users d')) \<and>
     set (map room_name (rooms d)) \<subseteq> set (map room_name (rooms d'))"

definition sock_ok :: "database \<Rightarrow> ws \<Rightarrow> bool" where
  "sock_ok d w \<longleftrightarrow> list_all (room_exists d) (ws_rooms w) \<and> pred_option (user_exists d) (ws_user w)"

definition refs_ok :: "server \<Rightarrow> bool" where
  "refs_ok s \<longleftrightarrow>
     list_all (\<lambda>(c, w). sock_ok (db s) w) (clients s) \<and> list_all (\<lambda>(t, u). user_exists (db s) u) (tokens s)"

definition integrity :: "server \<Rightarrow> bool" where
  "integrity s \<longleftrightarrow> db_wf (db s) \<and> refs_ok s"

definition expected_exn :: "exn \<Rightarrow> bool" where
  \<comment> \<open>a missing password given to bcrypt, a \<open>uuidv4()\<close> that repeats a stored id, or two
      registrations of one name interleaved at the \<open>await\<close>\<close>
  "expected_exn x =
     (case x of
        Bcrypt_exn _ \<Rightarrow> True
      | Sql_exn e \<Rightarrow> e = Unique_violation ''messages.id'' \<or> e = Unique_violation ''direct_messages.id''
                    \<or> e = Unique_violation ''users.username''
      | Type_exn _ \<Rightarrow> False)"

inductive ireachable :: "int \<Rightarrow> server \<Rightarrow> (conn_id \<times> username \<times> string) list \<Rightarrow> bool" for lim where
  init: "ireachable lim (server_init lim) []"
| step: "ireachable lim s ps \<Longrightarrow> step s e ev = Inr s' \<Longrightarrow> ireachable lim s' ps"
| suspend: "ireachable lim s ps \<Longrightarrow> is_open s c \<Longrightarrow> f_type msg = Some ''auth:register'' \<Longrightarrow>
    register_check c msg s = Inr (u, p) \<Longrightarrow> ireachable lim s (ps @ [(c, u, p)])"
| resume: "ireachable lim s ps \<Longrightarrow> (c, u, p) \<in> set ps \<Longrightarrow> register_finish c u p e s = Inr s' \<Longrightarrow>
    ireachable lim s' (remove1 (c, u, p) ps)"

section \<open>Tables\<close>

lemma user_exists_iff: "user_exists d u \<longleftrightarrow> u \<in> set (map user_username (users d))"
  by (auto simp: user_exists_def)

lemma room_exists_iff: "room_exists d r \<longleftrightarrow> r \<in> set (map room_name (rooms d))"
  by (auto simp: room_exists_def)

lemma db_grows_refl [simp]: "db_grows d d"
  by (simp add: db_grows_def)

lemma db_grows_exists:
  "db_grows d d' \<Longrightarrow> user_exists d u \<Longrightarrow> user_exists d' u"
  "db_grows d d' \<Longrightarrow> room_exists d r \<Longrightarrow> room_exists d' r"
  by (auto simp: db_grows_def user_exists_iff room_exists_iff)

lemma sock_ok_grows: "db_grows d d' \<Longrightarrow> sock_ok d w \<Longrightarrow> sock_ok d' w"
  by (auto simp: sock_ok_def list_all_iff db_grows_exists elim: option.pred_mono_strong)

lemma map_user_username_update:
  "map user_username (map (\<lambda>r. if user_username r = u then f r else r) us) = map user_username us"
  if "\<And>r. user_username (f r) = user_username r"
  using that by (induction us) auto

lemma users_updatePassword [simp]:
  "map user_username (users (updatePassword d u h)) = map user_username (users d)"
  by (simp add: updatePassword_def map_user_username_update)

lemma users_updateProfile [simp]:
  "map user_username (users (updateProfile d u a b)) = map user_username (users d)"
  by (simp add: updateProfile_def map_user_username_update)

lemma db_wf_same_keys:
  assumes "db_wf d" "map user_username (users d') = map user_username (users d)"
    "rooms d' = rooms d" "room_members d' = room_members d" "messages d' = messages d"
    "direct_messages d' = direct_messages d"
  shows "db_wf d'"
  using assms by (simp add: db_wf_def user_exists_iff room_exists_iff)

lemma createUser_wf: "createUser d u h n = Inr d' \<Longrightarrow> db_wf d \<Longrightarrow> db_wf d' \<and> db_grows d d'"
  by (auto simp: createUser_def db_wf_def db_grows_def user_exists_iff room_exists_iff list_all_iff
      split: if_splits)

lemma createRoom_wf: "createRoom d n ds m u t = Inr d' \<Longrightarrow> db_wf d \<Longrightarrow> db_wf d' \<and> db_grows d d'"
  by (auto simp: createRoom_def db_wf_def db_grows_def user_exists_iff room_exists_iff list_all_iff
      split: if_splits)

lemma addRoomMember_wf: "addRoomMember d r u t = Inr d' \<Longrightarrow> db_wf d \<Longrightarrow> db_wf d' \<and> db_grows d d'"
  by (auto simp: addRoomMember_def is_member_def db_wf_def db_grows_def user_exists_iff room_exists_iff
      list_all_iff split: if_splits) blast

lemma saveMessage_wf: "saveMessage d i r u x m t = Inr d' \<Longrightarrow> db_wf d \<Longrightarrow> db_wf d' \<and> db_grows d d'"
  by (auto simp: saveMessage_def msg_id_taken_def db_wf_def db_grows_def user_exists_iff room_exists_iff
      list_all_iff split: if_splits)

lemma saveDM_wf: "saveDM d i u v x m t = Inr d' \<Longrightarrow> db_wf d \<Longrightarrow> db_wf d' \<and> db_grows d d'"
  by (auto simp: saveDM_def dm_id_taken_def db_wf_def db_grows_def user_exists_iff room_exists_iff
      list_all_iff split: if_splits)

lemma removeRoomMember_wf: "db_wf d \<Longrightarrow> db_wf (removeRoomMember d r u)"
  by (auto simp: removeRoomMember_def db_wf_def user_exists_iff room_exists_iff list_all_iff
      intro: distinct_map_filter)

lemma update_wf:
  "db_wf d \<Longrightarrow> db_wf (updatePassword d u h)"
  "db_wf d \<Longrightarrow> db_wf (updateProfile d u a b)"
  by (rule db_wf_same_keys; simp add: updatePassword_def updateProfile_def)+

lemma db_grows_updates [simp]:
  "db_grows d (updatePassword d u h)" "db_grows d (updateProfile d u a b)" "db_grows d (removeRoomMember d r u)"
  by (simp_all add: db_grows_def) (simp_all add: updatePassword_def updateProfile_def removeRoomMember_def)

lemma createUser_exists: "createUser d u h n = Inr d' \<Longrightarrow> user_exists d' u"
  by (auto simp: createUser_def user_exists_def split: if_splits)

lemma getUser_exists: "getUser d u = Some row \<Longrightarrow> user_exists d u"
  by (metis getUser_None_iff option.distinct(1))

section \<open>Sockets and tokens\<close>

lemma list_all_update: "list_all P xs \<Longrightarrow> P (k, v) \<Longrightarrow> list_all P (AList.update k v xs)"
  by (induction xs) auto

lemma list_all_ws_update:
  assumes "list_all (\<lambda>(c, w). Q w) st" "\<And>w. Q w \<Longrightarrow> Q (f w)"
  shows "list_all (\<lambda>(c, w). Q w) (ws_update c f st)"
proof (cases "map_of st c")
  case (Some w)
  then have "Q w" using assms(1) by (auto simp: list_all_iff dest: map_of_SomeD)
  then show ?thesis using Some assms by (simp add: ws_update_def list_all_update)
qed (simp add: ws_update_def assms(1))

lemma sock_ok_deliver [simp]: "sock_ok d (deliver m w) = sock_ok d w"
  by (simp add: sock_ok_def)

lemma list_all_fold_send:
  "list_all (\<lambda>(c, w). sock_ok d w) st \<Longrightarrow>
   list_all (\<lambda>(c, w). sock_ok d w) (fold (\<lambda>c st. if Some c = x then st else send c m st) cs st)"
  by (induction cs arbitrary: st) (simp_all add: send_def list_all_ws_update)

lemma refs_ok_reply [integrity_rules]: "refs_ok s \<Longrightarrow> refs_ok (reply c m s)"
  by (simp add: refs_ok_def reply_def send_def list_all_ws_update)

lemma refs_ok_broadcastToRoom [integrity_rules]: "refs_ok s \<Longrightarrow> refs_ok (broadcastToRoom r m x s)"
  by (simp add: refs_ok_def broadcastToRoom_def list_all_fold_send split: option.split)

lemma refs_ok_clients:
  assumes "refs_ok s" "\<And>w. sock_ok (db s) w \<Longrightarrow> sock_ok (db s) (f w)"
  shows "refs_ok (s\<lparr>clients := ws_update c f (clients s)\<rparr>)"
  using assms list_all_ws_update [of "sock_ok (db s)" "clients s" f c] by (simp add: refs_ok_def)

lemma refs_ok_bind_user [integrity_rules]:
  "refs_ok s \<Longrightarrow> user_exists (db s) u \<Longrightarrow> refs_ok (bind_user c u s)"
  unfolding bind_user_def by (rule refs_ok_clients) (simp_all add: sock_ok_def)

lemma refs_ok_joinRoom [integrity_rules]:
  assumes "refs_ok s" "room_exists (db s) r"
  shows "refs_ok (joinRoom c r s)"
proof -
  have "refs_ok (s\<lparr>clients := ws_update c (\<lambda>w. w\<lparr>ws_rooms := set_add r (ws_rooms w)\<rparr>) (clients s)\<rparr>)"
    using assms by (intro refs_ok_clients) (auto simp: sock_ok_def list_all_iff)
  then show ?thesis by (simp add: joinRoom_def refs_ok_def)
qed

lemma refs_ok_leaveRoom [integrity_rules]:
  assumes "refs_ok s"
  shows "refs_ok (leaveRoom c r s)"
proof -
  have "refs_ok (s1\<lparr>clients := ws_update c (\<lambda>w. w\<lparr>ws_rooms := set_delete r (ws_rooms w)\<rparr>) (clients s1)\<rparr>)"
    if "refs_ok s1" for s1 :: server
    using that by (intro refs_ok_clients) (auto simp: sock_ok_def list_all_iff)
  moreover have "refs_ok (s\<lparr>registry := x\<rparr>)" for x using assms by (simp add: refs_ok_def)
  ultimately show ?thesis using assms by (simp add: leaveRoom_def Let_def split: option.split)
qed

lemma refs_ok_fold_leaveRoom: "refs_ok s \<Longrightarrow> refs_ok (fold (leaveRoom c) rs s)"
  by (induction rs arbitrary: s) (simp_all add: refs_ok_leaveRoom)

lemma refs_ok_tokens [integrity_rules]:
  "refs_ok s \<Longrightarrow> user_exists (db s) u \<Longrightarrow> refs_ok (s\<lparr>tokens := AList.update t u (tokens s)\<rparr>)"
  by (simp add: refs_ok_def list_all_update)

lemma refs_ok_db_tokens [integrity_rules]:
  "refs_ok s \<Longrightarrow> db_grows (db s) d \<Longrightarrow> user_exists d u \<Longrightarrow>
   refs_ok (s\<lparr>db := d, tokens := AList.update t u (tokens s)\<rparr>)"
proof -
  assume a: "refs_ok s" "db_grows (db s) d" "user_exists d u"
  then have "list_all (\<lambda>(t, u). user_exists d u) (tokens s)"
    by (auto simp: refs_ok_def list_all_iff db_grows_exists)
  then have "list_all (\<lambda>(t, u). user_exists d u) (AList.update t u (tokens s))"
    using a(3) by (simp add: list_all_update)
  with a show ?thesis by (auto simp: refs_ok_def list_all_iff sock_ok_grows)
qed

lemma refs_ok_db [integrity_rules]: "refs_ok s \<Longrightarrow> db_grows (db s) d \<Longrightarrow> refs_ok (s\<lparr>db := d\<rparr>)"
  by (auto simp: refs_ok_def list_all_iff sock_ok_grows db_grows_exists)

lemma refs_ok_current_user: "refs_ok s \<Longrightarrow> current_user s c = Some u \<Longrightarrow> user_exists (db s) u"
  by (auto simp: refs_ok_def current_user_def sock_ok_def list_all_iff split: option.splits if_splits
      dest!: map_of_SomeD)

lemma refs_ok_rooms_of:
  assumes "refs_ok s" "r \<in> set (rooms_of s c)"
  shows "room_exists (db s) r"
proof -
  obtain w where "map_of (clients s) c = Some w" "r \<in> set (ws_rooms w)"
    using assms(2) by (cases "map_of (clients s) c") (auto simp: rooms_of_def)
  then show ?thesis using assms(1) by (auto simp: refs_ok_def sock_ok_def list_all_iff dest!: map_of_SomeD)
qed

lemma refs_ok_token_user: "refs_ok s \<Longrightarrow> verifyToken (tokens s) t = Some u \<Longrightarrow> user_exists (db s) u"
  by (auto simp: refs_ok_def list_all_iff dest!: verifyToken_Some_mem)

section \<open>Handlers\<close>

lemma integrity_simple [integrity_rules]:
  "integrity s \<Longrightarrow> integrity (reply c m s)"
  "integrity s \<Longrightarrow> integrity (broadcastToRoom r m x s)"
  "integrity s \<Longrightarrow> integrity (leaveRoom c r s)"
  "integrity s \<Longrightarrow> user_exists (db s) u \<Longrightarrow> integrity (bind_user c u s)"
  "integrity s \<Longrightarrow> room_exists (db s) r \<Longrightarrow> integrity (joinRoom c r s)"
  by (simp_all add: integrity_def integrity_rules)

lemma integrity_db [integrity_rules]:
  "integrity s \<Longrightarrow> db_wf d \<and> db_grows (db s) d \<Longrightarrow> integrity (s\<lparr>db := d\<rparr>)"
  "integrity s \<Longrightarrow> user_exists (db s) u \<Longrightarrow> integrity (s\<lparr>tokens := AList.update t u (tokens s)\<rparr>)"
  "integrity s \<Longrightarrow> db_wf d \<and> db_grows (db s) d \<Longrightarrow> user_exists d u \<Longrightarrow>
   integrity (s\<lparr>db := d, tokens := AList.update t u (tokens s)\<rparr>)"
  by (simp_all add: integrity_def refs_ok_db refs_ok_tokens refs_ok_db_tokens)

lemma integrity_ops:
  "integrity s \<Longrightarrow> createUser (db s) u h n = Inr d \<Longrightarrow> db_wf d \<and> db_grows (db s) d"
  "integrity s \<Longrightarrow> createRoom (db s) r ds m u t = Inr d \<Longrightarrow> db_wf d \<and> db_grows (db s) d"
  "integrity s \<Longrightarrow> addRoomMember (db s) r u t = Inr d \<Longrightarrow> db_wf d \<and> db_grows (db s) d"
  "integrity s \<Longrightarrow> saveMessage (db s) i r u x m t = Inr d \<Longrightarrow> db_wf d \<and> db_grows (db s) d"
  "integrity s \<Longrightarrow> saveDM (db s) i u v x m t = Inr d \<Longrightarrow> db_wf d \<and> db_grows (db s) d"
  "integrity s \<Longrightarrow> db_wf (updatePassword (db s) u h) \<and> db_grows (db s) (updatePassword (db s) u h)"
  "integrity s \<Longrightarrow> db_wf (updateProfile (db s) u a b) \<and> db_grows (db s) (updateProfile (db s) u a b)"
  "integrity s \<Longrightarrow> db_wf (removeRoomMember (db s) r u) \<and> db_grows (db s) (removeRoomMember (db s) r u)"
  by (simp_all add: integrity_def createUser_wf createRoom_wf addRoomMember_wf saveMessage_wf saveDM_wf
      update_wf removeRoomMember_wf)

lemmas integrity_db_ops = integrity_ops [THEN conjunct1] integrity_ops [THEN conjunct2]

lemma integrity_auth_register: "auth_register c msg e s = Inr s' \<Longrightarrow> integrity s \<Longrightarrow> integrity s'"
  by (auto simp: auth_register_def auth_error_def sbind_with_db_Inr Let_def createToken_def
      intro!: integrity_rules createUser_exists intro: integrity_db_ops split: option.splits prod.splits if_splits)

lemma integrity_refs:
  "integrity s \<Longrightarrow> current_user s c = Some u \<Longrightarrow> user_exists (db s) u"
  "integrity s \<Longrightarrow> verifyToken (tokens s) t = Some u \<Longrightarrow> user_exists (db s) u"
  "integrity s \<Longrightarrow> r \<in> set (rooms_of s c) \<Longrightarrow> room_exists (db s) r"
  by (simp_all add: integrity_def refs_ok_current_user refs_ok_token_user refs_ok_rooms_of)

lemma integrity_auth_login: "auth_login c msg e s = Inr s' \<Longrightarrow> integrity s \<Longrightarrow> integrity s'"
  by (auto simp: auth_login_def auth_error_def createToken_def
      intro!: integrity_rules getUser_exists split: option.splits prod.splits if_splits)

lemma integrity_auth_resume: "auth_resume c msg s = Inr s' \<Longrightarrow> integrity s \<Longrightarrow> integrity s'"
  by (auto simp: auth_resume_def auth_error_def Let_def intro!: integrity_rules intro: integrity_refs
      split: option.splits if_splits)

lemma integrity_auth_change_password:
  "auth_change_password c msg s = Inr s' \<Longrightarrow> integrity s \<Longrightarrow> integrity s'"
  by (auto simp: auth_change_password_def auth_error_def intro!: integrity_rules intro: integrity_db_ops
      split: option.splits if_splits)

lemma integrity_auth_update_profile:
  "auth_update_profile c msg s = Inr s' \<Longrightarrow> integrity s \<Longrightarrow> integrity s'"
  by (auto simp: auth_update_profile_def auth_error_def Let_def intro!: integrity_rules intro: integrity_db_ops
      split: option.splits if_splits)

lemma integrity_handleAuth: "handleAuth c msg e s = Inr s' \<Longrightarrow> integrity s \<Longrightarrow> integrity s'"
  using integrity_auth_register integrity_auth_login integrity_auth_resume integrity_auth_change_password
    integrity_auth_update_profile
  by (auto simp: handleAuth_def split: option.splits if_splits)

lemma room_exists_addRoomMember:
  "addRoomMember d r u t = Inr d' \<Longrightarrow> getRoom d r \<noteq> None \<Longrightarrow> room_exists d' r"
  by (auto simp: addRoomMember_def getRoom_def room_exists_def find_None_iff split: if_splits)

lemma integrity_handleRoom: "handleRoom c u msg e s = Inr s' \<Longrightarrow> integrity s \<Longrightarrow> integrity s'"
  by (auto simp: handleRoom_def room_create_def room_join_def room_leave_def room_users_def room_history_def
      room_error_def sbind_with_db_Inr Let_def intro!: integrity_rules room_exists_addRoomMember
      intro: integrity_db_ops split: option.splits if_splits)

lemma integrity_handleMessage: "handleMessage c u msg e s = Inr s' \<Longrightarrow> integrity s \<Longrightarrow> integrity s'"
  by (auto simp: handleMessage_def handleSendMessage_def sbind_with_db_Inr Let_def intro!: integrity_rules
      intro: integrity_db_ops split: option.splits if_splits prod.splits)

lemma integrity_handleDM: "handleDM c u msg e s = Inr s' \<Longrightarrow> integrity s \<Longrightarrow> integrity s'"
  by (auto simp: handleDM_def handleDMSend_def sbind_with_db_Inr Let_def intro!: integrity_rules
      intro: integrity_db_ops split: option.splits if_splits prod.splits)

lemma integrity_handleCommand:
  assumes "handleCommand c u msg e s = Inr s'" "integrity s"
  shows "integrity s'"
proof -
  have ex: "integrity s1" if "execute registry0 n a r room_broadcast i t s = (res, s1)" for n a r i t res s1
    using execute_preserves [where P = integrity, OF _ assms(2) that] integrity_simple(2)
    by (simp add: room_broadcast_def)
  show ?thesis
    using assms ex
    by (auto simp: handleCommand_def intro!: integrity_rules split: option.splits if_splits prod.splits)
qed

lemma integrity_onMessage: "onMessage c raw e s = Inr s' \<Longrightarrow> integrity s \<Longrightarrow> integrity s'"
  using integrity_handleAuth integrity_handleRoom integrity_handleMessage integrity_handleDM
    integrity_handleCommand
  by (auto simp: onMessage_def intro!: integrity_rules split: option.splits if_splits)

lemma integrity_clients:
  "integrity s \<Longrightarrow> list_all (\<lambda>(c, w). sock_ok (db s) w) cs \<Longrightarrow> integrity (s\<lparr>clients := cs\<rparr>)"
  by (simp add: integrity_def refs_ok_def)

lemma integrity_sockets: "integrity s \<Longrightarrow> list_all (\<lambda>(c, w). sock_ok (db s) w) (clients s)"
  by (simp add: integrity_def refs_ok_def)

lemma integrity_onConnection: "integrity s \<Longrightarrow> integrity (onConnection c s)"
  by (auto simp: onConnection_def new_ws_def sock_ok_def intro!: integrity_clients dest: integrity_sockets)

lemma integrity_onPong:
  assumes inv: "integrity s"
  shows "integrity (onPong c s)"
proof -
  have "list_all (\<lambda>(c, w). sock_ok (db s) w) (ws_update c (\<lambda>w. w\<lparr>is_alive := True\<rparr>) (clients s))"
    using integrity_sockets [OF inv] by (rule list_all_ws_update) (simp add: sock_ok_def)
  then show ?thesis unfolding onPong_def by (rule integrity_clients [OF inv])
qed

lemma sock_ok_heartbeat_ws [simp]: "sock_ok d (heartbeat_ws w) = sock_ok d w"
  by (simp add: heartbeat_ws_def terminate_def sock_ok_def)

lemma integrity_heartbeat: "integrity s \<Longrightarrow> integrity (heartbeat s)"
  unfolding heartbeat_def
  by (rule integrity_clients, assumption) (auto simp: list_all_iff dest!: integrity_sockets)

lemma integrity_fold_broadcast:
  "integrity s \<Longrightarrow> integrity (fold (\<lambda>r st. broadcastToRoom r (m r) None st) rs s)"
  by (induction rs arbitrary: s) (simp_all add: integrity_simple(2))

lemma integrity_fold_leaveRoom: "integrity s \<Longrightarrow> integrity (fold (leaveRoom c) rs s)"
  by (induction rs arbitrary: s) (simp_all add: integrity_simple(3))

lemma integrity_onClose: "integrity s \<Longrightarrow> integrity (onClose c s)"
proof -
  assume inv: "integrity s"
  let ?s1 = "fold (leaveRoom c) (rooms_of s c) s"
  have i1: "integrity ?s1" using inv by (rule integrity_fold_leaveRoom)
  then have "integrity (fold (\<lambda>r st. broadcastToRoom r (Presence_offline un r) None st) (rooms_of s c) ?s1)"
    for un by (rule integrity_fold_broadcast)
  then have i2: "integrity (case current_user s c of None \<Rightarrow> ?s1
      | Some un \<Rightarrow> fold (\<lambda>r st. broadcastToRoom r (Presence_offline un r) None st) (rooms_of s c) ?s1)"
    using i1 by (simp split: option.split)
  have "list_all P (AList.delete c xs)" if "list_all P xs" for P and xs :: sockets
    using that by (auto simp: list_all_iff dest: set_delete_member)
  with i2 show ?thesis
    by (auto simp: onClose_def leaveAllRooms_def Let_def intro!: integrity_clients dest: integrity_sockets)
qed

lemma integrity_step: "step s e ev = Inr s' \<Longrightarrow> integrity s \<Longrightarrow> integrity s'"
  by (cases ev) (auto simp: integrity_onConnection integrity_onPong integrity_heartbeat integrity_onClose
      dest: integrity_onMessage split: if_splits)

lemma integrity_server_init: "integrity (server_init lim)"
  by (simp add: integrity_def db_wf_def refs_ok_def server_init_def Db.init_def)

lemma reachable_integrity: "reachable lim s \<Longrightarrow> integrity s"
  by (induction rule: reachable.induct) (auto simp: integrity_server_init intro: integrity_step)

section \<open>Exceptions\<close>

lemma sbind_with_db_Inl:
  "sbind (with_db s r) f = Inl x \<longleftrightarrow> (\<exists>e. r = Inl e \<and> x = Sql_exn e) \<or> (\<exists>d. r = Inr d \<and> f (s\<lparr>db := d\<rparr>) = Inl x)"
  by (cases r) auto

lemma db_ops_Inl:
  "createUser d u h n = Inl x \<Longrightarrow> user_exists d u"
  "createRoom d r ds m u t = Inl x \<Longrightarrow> room_exists d r \<or> \<not> user_exists d u"
  "addRoomMember d r u t = Inl x \<Longrightarrow> \<not> room_exists d r \<or> \<not> user_exists d u"
  "saveMessage d i r u y m t = Inl x \<Longrightarrow> x = Unique_violation ''messages.id'' \<or> \<not> room_exists d r \<or> \<not> user_exists d u"
  "saveDM d i u v y m t = Inl x \<Longrightarrow> x = Unique_violation ''direct_messages.id'' \<or> \<not> user_exists d u \<or> \<not> user_exists d v"
  by (auto simp: createUser_def createRoom_def addRoomMember_def saveMessage_def saveDM_def split: if_splits)

lemma user_exists_updateProfile [simp]: "user_exists (updateProfile d u a b) v = user_exists d v"
  by (simp add: user_exists_iff)

lemma exn_handleAuth: "handleAuth c msg e s = Inl x \<Longrightarrow> integrity s \<Longrightarrow> expected_exn x"
  by (auto simp: handleAuth_def auth_register_def auth_login_def auth_resume_def auth_change_password_def
      auth_update_profile_def auth_error_def expected_exn_def sbind_with_db_Inl Let_def createToken_def
      getUser_None_iff dest: db_ops_Inl integrity_refs createUser_exists split: option.splits prod.splits if_splits)

lemma exn_handleRoom:
  "handleRoom c u msg e s = Inl x \<Longrightarrow> integrity s \<Longrightarrow> current_user s c = Some u \<Longrightarrow> expected_exn x"
  by (auto simp: handleRoom_def room_create_def room_join_def room_leave_def room_users_def room_history_def
      room_error_def sbind_with_db_Inl Let_def getRoom_Some_iff [symmetric]
      dest: db_ops_Inl integrity_refs split: option.splits if_splits)

lemma exn_handleMessage:
  "handleMessage c u msg e s = Inl x \<Longrightarrow> integrity s \<Longrightarrow> current_user s c = Some u \<Longrightarrow> expected_exn x"
  by (auto simp: handleMessage_def handleSendMessage_def sbind_with_db_Inl Let_def expected_exn_def
      dest: db_ops_Inl integrity_refs split: option.splits if_splits prod.splits)

lemma exn_handleDM:
  "handleDM c u msg e s = Inl x \<Longrightarrow> integrity s \<Longrightarrow> current_user s c = Some u \<Longrightarrow> expected_exn x"
  by (auto simp: handleDM_def handleDMSend_def sbind_with_db_Inl Let_def expected_exn_def getUser_None_iff
      dest: db_ops_Inl integrity_refs split: option.splits if_splits prod.splits)

lemma exn_handleCommand: "handleCommand c u msg e s \<noteq> Inl x"
  by (auto simp: handleCommand_def split: option.splits if_splits prod.splits)

lemma exn_onMessage: "onMessage c raw e s = Inl x \<Longrightarrow> integrity s \<Longrightarrow> expected_exn x"
  using exn_handleAuth exn_handleRoom exn_handleMessage exn_handleDM exn_handleCommand
  by (auto simp: onMessage_def split: option.splits if_splits)

lemma integrity_register_finish: "register_finish c u p e s = Inr s' \<Longrightarrow> integrity s \<Longrightarrow> integrity s'"
  by (auto simp: register_finish_def sbind_with_db_Inr Let_def createToken_def
      intro!: integrity_rules createUser_exists intro: integrity_db_ops split: option.splits prod.splits)

lemma exn_register_finish: "register_finish c u p e s = Inl x \<Longrightarrow> expected_exn x"
  by (auto simp: register_finish_def sbind_with_db_Inl Let_def createToken_def expected_exn_def
      getUser_None_iff createUser_def user_exists_def split: option.splits prod.splits if_splits)

lemma ireachable_integrity: "ireachable lim s ps \<Longrightarrow> integrity s"
  by (induction rule: ireachable.induct)
     (auto simp: integrity_server_init intro: integrity_step integrity_register_finish)

section \<open>Properties\<close>

text \<open>C9. In every reachable state the references the handlers keep outside the database, \<open>ws.rooms\<close>, \<open>ws.user\<close> and the token store, name existing rooms and users.\<close>

theorem reachable_refs_ok: "reachable lim s \<Longrightarrow> refs_ok s"
  using reachable_integrity by (simp add: integrity_def)

text \<open>C10. With \<open>auth:register\<close> suspended at its \<open>await\<close> in any interleaving, a step or a resumed registration raises only bcrypt's exception on a missing password, a unique-key violation on a repeated message or DM id, or the \<open>users.username\<close> violation of two registrations of one name.\<close>

theorem interleaved_step_exn:
  assumes "ireachable lim s ps"
    and "step s e ev = Inl x \<or> (\<exists>c u p. (c, u, p) \<in> set ps \<and> register_finish c u p e s = Inl x)"
  shows "expected_exn x"
  using assms(2)
proof
  assume "step s e ev = Inl x"
  then show ?thesis
    using ireachable_integrity [OF assms(1)] exn_onMessage by (cases ev) (auto split: if_splits)
next
  assume "\<exists>c u p. (c, u, p) \<in> set ps \<and> register_finish c u p e s = Inl x"
  then show ?thesis using exn_register_finish by blast
qed

end
