(* ===== verification/Ui.thy ===== *)
theory Ui
  imports Client Commands
begin

text \<open>
  The React components of the web client, \<open>src/client/src/App.jsx\<close>, \<open>pages\<close> and
  \<open>components\<close>: the routing of \<open>App\<close>, the panels \<open>ChatPage\<close> shows, the header, the
  suggestion list of the message box, and every click and form handler. A handler is a
  transformer of the client's \<open>web\<close> state built from the provider's actions of
  \<open>ChatContext.jsx\<close> (\<open>setCurrentRoom\<close>, \<open>setCurrentDM\<close>, \<open>send\<close>, \<open>login\<close>,
  \<open>register\<close>, \<open>logout\<close>); \<open>ui_step\<close> dispatches the events. A click is an event only
  where the component renders its button (a listed room, user or conversation, the
  header's leave button); the markup and styling are not modelled.
\<close>

section \<open>Views\<close>

datatype page = Login_page | Chat_page | Navigate string

definition route :: "string \<Rightarrow> chat \<Rightarrow> page" where
  \<comment> \<open>\<open>App\<close>'s routes, \<open>ProtectedRoute\<close> and the redirect at the top of \<open>LoginPage\<close>\<close>
  "route path st =
     (if path = ''/login'' then (if cs_user st \<noteq> None then Navigate ''/chat'' else Login_page)
      else if path = ''/chat'' then (if cs_user st = None then Navigate ''/login'' else Chat_page)
      else Navigate ''/chat'')"

definition chat_panels :: "chat \<Rightarrow> bool \<times> bool" where
  \<comment> \<open>\<open>ChatPage\<close>: whether \<open>MessageInput\<close> and \<open>UserList\<close> are rendered\<close>
  "chat_panels st = (truthy (currentRoom st) \<or> truthy (currentDM st), truthy (currentRoom st))"

definition entry_name :: "room_entry \<Rightarrow> string option" where
  \<comment> \<open>\<open>room.name\<close> of an entry of \<open>rooms\<close>\<close>
  "entry_name e = (case e of Listed r \<Rightarrow> Some (rs_name r) | Created (Some r) \<Rightarrow> Some (room_name r) | Created None \<Rightarrow> None)"

definition entry_description :: "room_entry \<Rightarrow> string" where
  "entry_description e =
     (case e of Listed r \<Rightarrow> rs_description r | Created (Some r) \<Rightarrow> room_description r | Created None \<Rightarrow> [])"

fun find_room :: "string \<Rightarrow> room_entry list \<Rightarrow> room_entry option option" where
  \<comment> \<open>\<open>rooms.find(r => r.name === currentRoom)\<close>; \<open>None\<close> is the \<open>TypeError\<close> of reading
      \<open>name\<close> of a null entry\<close>
  "find_room r [] = Some None"
| "find_room r (e # es) =
     (case entry_name e of None \<Rightarrow> None | Some n \<Rightarrow> if n = r then Some (Some e) else find_room r es)"

datatype header = Dm_header string | Select_room | Room_header string "string option" nat | Header_crash

definition roomHeader :: "chat \<Rightarrow> header" where
  \<comment> \<open>\<open>RoomHeader\<close>: the DM title, the placeholder, or the room with its description and online count\<close>
  "roomHeader st =
     (if truthy (currentDM st) then Dm_header (the (currentDM st))
      else if \<not> truthy (currentRoom st) then Select_room
      else (let r = the (currentRoom st);
                n = length (lookup_or_nil (onlineUsers st) r)
            in case find_room r (cs_rooms st) of
                 None \<Rightarrow> Header_crash
               | Some None \<Rightarrow> Room_header r None n
               | Some (Some e) \<Rightarrow>
                   Room_header r (if entry_description e \<noteq> [] then Some (entry_description e) else None) n))"

definition userList_users :: "chat \<Rightarrow> string list" where
  \<comment> \<open>\<open>UserList\<close>: \<open>onlineUsers[currentRoom] || []\<close>\<close>
  "userList_users st = map oe_username (lookup_or_nil (onlineUsers st) (the (currentRoom st)))"

section \<open>Messages\<close>

definition json_prop :: "json \<Rightarrow> string \<Rightarrow> json option" where
  \<comment> \<open>\<open>v?.key\<close>: a member of an object (the last of duplicate keys, as \<open>JSON.parse\<close> keeps
      it); \<open>undefined\<close> on every other value\<close>
  "json_prop v k = (case v of JObj kvs \<Rightarrow> map_of (rev kvs) k | _ \<Rightarrow> None)"

definition prop_truthy :: "json \<Rightarrow> string \<Rightarrow> bool" where
  "prop_truthy v k = (case json_prop v k of None \<Rightarrow> False | Some j \<Rightarrow> json_truthy j)"

datatype item_view =
    System_line bool string                   \<comment> \<open>error flag, text\<close>
  | User_line "string option" int string      \<comment> \<open>sender, timestamp, text\<close>

definition message_view :: "json \<Rightarrow> string option \<Rightarrow> int \<Rightarrow> string \<Rightarrow> item_view" where
  \<comment> \<open>\<open>MessageItem\<close>: \<open>metadata?.system\<close> selects the system line, \<open>metadata?.error\<close> its colour\<close>
  "message_view meta sender ts text =
     (if prop_truthy meta ''system'' then System_line (prop_truthy meta ''error'') text else User_line sender ts text)"

fun chat_item_view :: "chat_item \<Rightarrow> item_view" where
  \<comment> \<open>\<open>message.from || message.sender\<close>: history rows carry \<open>sender\<close>, live events \<open>from\<close>\<close>
  "chat_item_view (Hist m) = message_view (msg_metadata m) (Some (msg_sender m)) (msg_timestamp m) (msg_message m)"
| "chat_item_view (Live ev) = message_view (ev_metadata ev) (Some (ev_from ev)) (ev_timestamp ev) (ev_message ev)"
| "chat_item_view (Note p from text t meta) = message_view meta from t text"

fun dm_item_view :: "dm_item \<Rightarrow> item_view" where
  "dm_item_view (Dm_hist m) = message_view (dm_metadata m) (Some (dm_sender m)) (dm_timestamp m) (dm_message m)"
| "dm_item_view (Dm_live ev) = message_view (de_metadata ev) (Some (de_from ev)) (de_timestamp ev) (de_message ev)"

definition messageList :: "chat \<Rightarrow> item_view list option" where
  \<comment> \<open>\<open>MessageList\<close>: \<open>None\<close> is the prompt to select a room or conversation\<close>
  "messageList st =
     (if \<not> truthy (currentRoom st) \<and> \<not> truthy (currentDM st) then None
      else if truthy (currentRoom st) then Some (map chat_item_view (lookup_or_nil (cs_messages st) (the (currentRoom st))))
      else Some (map dm_item_view (lookup_or_nil (dmMessages st) (the (currentDM st)))))"

section \<open>The message box\<close>

record input_box =
  in_text :: string
  in_show :: bool    \<comment> \<open>\<open>showCommands\<close>\<close>

definition handleChange :: "string \<Rightarrow> chat \<Rightarrow> input_box" where
  "handleChange v st = \<lparr>in_text = v, in_show = starts_with ''/'' v \<and> truthy (currentRoom st)\<rparr>"

definition handleCommandClick :: "string \<Rightarrow> input_box" where
  "handleCommandClick name = \<lparr>in_text = ''/'' @ name @ '' '', in_show = False\<rparr>"

definition filteredCommands :: "(string \<times> string) list \<Rightarrow> string \<Rightarrow> (string \<times> string) list" where
  \<comment> \<open>\<open>c.name.startsWith(text.slice(1).split(' ')[0])\<close> once more than the slash is typed\<close>
  "filteredCommands cmds text =
     filter (\<lambda>(n, d). if length text > 1 then starts_with (hd (split_on (CHR '' '') (tl text))) n else True) cmds"

definition placeholder :: "chat \<Rightarrow> string" where
  \<comment> \<open>the unset \<open>currentRoom\<close> is \<open>null\<close>, interpolated as text\<close>
  "placeholder st =
     (if truthy (currentDM st) then ''Message @'' @ the (currentDM st)
      else ''Message #'' @ (case currentRoom st of Some r \<Rightarrow> r | None \<Rightarrow> ''null''))"

section \<open>Click and form handlers\<close>

definition frame_to :: "string \<Rightarrow> string \<Rightarrow> frame" where
  \<comment> \<open>\<open>{ type, room }\<close> as \<open>joinRoom\<close> and \<open>leaveRoom\<close> send it\<close>
  "frame_to t r = (empty_frame t)\<lparr>f_room := Some r\<rparr>"

definition roomList_click :: "string \<Rightarrow> web \<Rightarrow> web" where
  "roomList_click r w =
     setCurrentRoom r (if r \<notin> set (joinedRooms (w_chat w)) then ws_send (frame_to ''room:join'' r) w else w)"

definition roomHeader_leave :: "web \<Rightarrow> web" where
  "roomHeader_leave w =
     (case roomHeader (w_chat w) of Room_header r _ _ \<Rightarrow> ws_send (frame_to ''room:leave'' r) w | _ \<Rightarrow> w)"

definition userList_click :: "string \<Rightarrow> web \<Rightarrow> web" where
  "userList_click u w =
     (if truthy (currentRoom (w_chat w)) \<and> u \<in> set (userList_users (w_chat w))
         \<and> Some u \<noteq> map_option ui_username (cs_user (w_chat w))
      then setCurrentDM u w else w)"

definition dmList_click :: "string \<Rightarrow> web \<Rightarrow> web" where
  "dmList_click u w = (if u \<in> set (dmConversations (w_chat w)) then setCurrentDM u w else w)"

definition createRoom_submit :: "string \<Rightarrow> string \<Rightarrow> web \<Rightarrow> web" where
  \<comment> \<open>\<open>CreateRoomModal.handleSubmit\<close>; \<open>metadata\<close> is \<open>undefined\<close>\<close>
  "createRoom_submit name descr w =
     (if trim name = [] then w
      else ws_send ((empty_frame ''room:create'')\<lparr>f_name := Some (trim name), f_description := Some (trim descr)\<rparr>) w)"

definition login_submit :: "bool \<Rightarrow> string \<Rightarrow> string \<Rightarrow> web \<Rightarrow> web" where
  "login_submit isRegister u p w = (if isRegister then register_web u p w else login_web u p w)"

definition chatPage_mount :: "web \<Rightarrow> web" where
  \<comment> \<open>\<open>listRooms()\<close>, \<open>loadDMList()\<close>, \<open>listCommands()\<close>\<close>
  "chatPage_mount w =
     ws_send (empty_frame ''command:list'') (ws_send (empty_frame ''dm:list'') (ws_send (empty_frame ''room:list'') w))"

datatype ui_event =
    Room_click string | Header_leave | User_click string | Dm_click string
  | Create_room string string | Login_submit bool string string | Chat_mount | Message_submit string
  | Logout_click

fun ui_step :: "ui_event \<Rightarrow> web \<Rightarrow> web" where
  "ui_step (Room_click r) w = roomList_click r w"
| "ui_step Header_leave w = roomHeader_leave w"
| "ui_step (User_click u) w = userList_click u w"
| "ui_step (Dm_click u) w = dmList_click u w"
| "ui_step (Create_room n d) w = createRoom_submit n d w"
| "ui_step (Login_submit b u p) w = login_submit b u p w"
| "ui_step Chat_mount w = chatPage_mount w"
| "ui_step (Message_submit t) w = handleSubmit t w"
| "ui_step Logout_click w = logout_web w"

section \<open>Forms\<close>

text \<open>
  The local state of the login form and the create-room modal. An input marked
  \<open>required\<close> blocks the browser's submit while it is empty, so the form's submit
  handler only runs on non-empty fields.
\<close>

record login_form =
  lf_username :: string
  lf_password :: string
  lf_register :: bool     \<comment> \<open>\<open>isRegister\<close>\<close>

definition login_form_init :: login_form where
  "login_form_init = \<lparr>lf_username = [], lf_password = [], lf_register = False\<rparr>"

definition toggle_register :: "login_form \<Rightarrow> login_form" where
  "toggle_register f = f\<lparr>lf_register := \<not> lf_register f\<rparr>"

definition login_labels :: "login_form \<Rightarrow> string \<times> string \<times> string" where
  \<comment> \<open>the submit button, the prompt and the toggle button\<close>
  "login_labels f =
     (if lf_register f then (''Register'', ''Already have an account?'', ''Login'')
      else (''Login'', ''Don't have an account?'', ''Register''))"

definition login_error :: "chat \<Rightarrow> string option" where
  \<comment> \<open>\<open>authError && <p>{authError}</p>\<close>\<close>
  "login_error st = (if truthy (authError st) then authError st else None)"

definition loginPage_submit :: "login_form \<Rightarrow> web \<Rightarrow> web" where
  "loginPage_submit f w =
     (if lf_username f = [] \<or> lf_password f = [] then w
      else login_submit (lf_register f) (lf_username f) (lf_password f) w)"

record room_form =
  rf_name :: string
  rf_description :: string

definition room_form_init :: room_form where
  "room_form_init = \<lparr>rf_name = [], rf_description = []\<rparr>"

definition createModal_submit :: "room_form \<Rightarrow> web \<Rightarrow> web \<times> bool" where
  \<comment> \<open>the web state and whether the modal stays open (\<open>onClose()\<close> follows a real submit)\<close>
  "createModal_submit f w =
     (if rf_name f = [] then (w, True)
      else if trim (rf_name f) = [] then (w, True)
      else (createRoom_submit (rf_name f) (rf_description f) w, False))"

section \<open>Properties\<close>

theorem roomList_click_frames:
  assumes "w_ws w = Some OPEN"
  shows "w_sent (roomList_click r w) =
           w_sent w @ (if r \<notin> set (joinedRooms (w_chat w)) then [frame_to ''room:join'' r] else [])
             @ [frame_to ''room:history'' r, frame_to ''room:users'' r]
         \<and> currentRoom (w_chat (roomList_click r w)) = Some r \<and> currentDM (w_chat (roomList_click r w)) = None"
  using assms by (simp add: roomList_click_def setCurrentRoom_def ws_send_def frame_to_def)

text \<open>C34. A command chosen from the suggestions stays in the suggestion list while its arguments are typed.\<close>

theorem command_completion:
  assumes "(n, d) \<in> set cmds" "CHR '' '' \<notin> set n"
  shows "(n, d) \<in> set (filteredCommands cmds (in_text (handleCommandClick n) @ a))"
proof -
  have "split_on (CHR '' '') (n @ '' '' @ a) = n # split_on (CHR '' '') a"
    using split_on_no_sep [OF assms(2)] by simp
  then show ?thesis
    using assms(1) by (simp add: filteredCommands_def handleCommandClick_def starts_with_def)
qed

text \<open>C35. After logout no path renders the chat page; \<open>/chat\<close> redirects to \<open>/login\<close>.\<close>

theorem logout_protected:
  "route p (w_chat (logout_web w)) \<noteq> Chat_page \<and> route ''/chat'' (w_chat (logout_web w)) = Navigate ''/login''"
  by (simp add: route_def logout_web_def initialState_def)

theorem header_count_consistent:
  "roomHeader st = Room_header r d k \<Longrightarrow> currentRoom st = Some r \<and> k = length (userList_users st)"
  by (auto simp: roomHeader_def userList_users_def Let_def truthy_Some_iff split: if_splits option.splits)

lemma on_frame_message_new:
  "on_frame t (Message_new ev) st =
     st\<lparr>cs_messages := AList.update (ev_room ev) (lookup_or_nil (cs_messages st) (ev_room ev) @ [Live ev]) (cs_messages st)\<rparr>"
  by (simp add: on_frame_def)

text \<open>C11. A user's room message carrying the metadata \<open>{system: true}\<close> renders in the message list exactly as the \<open>/system\<close> broadcast of the same text.\<close>

theorem system_line_spoofing:
  assumes "ev_metadata ev = JObj [(''system'', JBool True)]"
  shows "messageList (on_frame t (Message_new ev) st)
           = messageList (on_frame t (system_event i (ev_room ev) t' (ev_message ev)) st)"
proof -
  let ?sys = "\<lparr>ev_id = i, ev_from = ''system'', ev_room = ev_room ev, ev_timestamp = t',
               ev_message = ev_message ev, ev_metadata = JObj [(''system'', JBool True)]\<rparr>"
  have v: "chat_item_view (Live ev) = chat_item_view (Live ?sys)"
    using assms by (simp add: message_view_def prop_truthy_def json_prop_def)
  have eq: "map chat_item_view (lookup_or_nil (AList.update k (xs @ [Live ev]) m) r)
      = map chat_item_view (lookup_or_nil (AList.update k (xs @ [Live ?sys]) m) r)" for k xs m r
    using v by (simp add: lookup_or_nil_def update_conv')
  show ?thesis by (simp add: on_frame_message_new system_event_def messageList_def eq)
qed

end
