(* ===== verification/Spec2Isabelle.thy ===== *)
theory Spec2Isabelle
  imports Sessions Interleaving Sdk Client Integrity Ui
begin

text \<open>
  \<^bold>\<open>AgentChat: the connection and room session manager, modelled in Isabelle/HOL.\<close>

  \<^bold>\<open>The program.\<close> The server under \<open>src/server/\<close> keeps one WebSocket per client.
  \<open>handler.js\<close> (\<open>setup\<close>) installs the \<open>connection\<close>, \<open>message\<close>, \<open>pong\<close> and
  \<open>close\<close> listeners and a heartbeat interval; a \<open>message\<close> frame is parsed
  (\<open>protocol.js\<close>), routed by the prefix of its \<open>type\<close> to \<open>handleAuth\<close>,
  \<open>handleRoom\<close>, \<open>handleMessage\<close>, \<open>handleDM\<close> or \<open>handleCommand\<close>, and the
  handlers read and write four pieces of process state: the SQLite database
  (\<open>db.js\<close>), the token map (\<open>auth.js\<close>), the room registry \<open>roomConnections\<close>
  (\<open>rooms.js\<close>) and the sockets themselves (\<open>ws.user\<close>, \<open>ws.rooms\<close>,
  \<open>ws.isAlive\<close>). \<open>messages.js\<close> holds the room-message and direct-message handlers,
  \<open>commands.js\<close> the command registry filled from \<open>commands/help.js\<close> and
  \<open>commands/system.js\<close>, \<open>config.js\<close> the history limit and heartbeat period.

  \<^bold>\<open>The theories.\<close>
  \<^item> \<open>Prelude\<close>: JavaScript idioms the code relies on (truthiness, \<open>||\<close>, \<open>??\<close>,
    \<open>startsWith\<close>, \<open>toLowerCase\<close>, \<open>trim\<close>, \<open>split(' ')\<close>, \<open>parseInt(_, 10)\<close>),
    insertion-ordered \<open>Set\<close>s as duplicate-free lists, exceptions as \<open>'e + 'a\<close>,
    association-list lemmas, and the collections \<open>js_simps\<close>, \<open>alist_simps\<close>,
    \<open>reg_inv_rules\<close>, \<open>integrity_rules\<close>.
  \<^item> \<open>Db\<close> (db.js): the five tables as row lists in rowid order; every exported function;
    primary-key and foreign-key violations as \<open>sql_error\<close>. The history queries are
    proved equal to a reference (the last \<open>n\<close> rows in chronological order).
  \<^item> \<open>Protocol\<close> (protocol.js): inbound frames as the parsed object's fields, one
    constructor of \<open>out\<close> per outbound \<open>type\<close>, the socket record \<open>ws\<close> whose
    \<open>outbox\<close> is the sequence of frames written to it, \<open>send\<close>.
  \<^item> \<open>Rooms\<close> (rooms.js): \<open>roomConnections\<close> and \<open>wss.clients\<close> as the record
    \<open>net\<close>; join, leave, leave-all, broadcast, online users, user lookup. Abstractly the
    registry is a relation between rooms and connections (\<open>members\<close>, read from the map;
    \<open>socket_members\<close>, read from \<open>ws.rooms\<close>); \<open>reg_inv\<close> says they agree, and
    the refinement lemmas say each operation inserts or removes exactly its pairs.
  \<^item> \<open>Auth\<close> (auth.js): token store, ideal bcrypt digest.
  \<^item> \<open>Commands\<close> (commands.js and plugins): registry built by the discovery loop,
    \<open>execute\<close>, \<open>list\<close>; the broadcast capability of the invocation context is a
    parameter over any state type, and \<open>execute_preserves\<close> discharges any property the
    capability keeps.
  \<^item> \<open>Server\<close> (config.js and the module-level state): every setting of config.js as a
    function of its environment variable (\<open>env_int\<close> over the prelude's
    \<open>parseInt10\<close>), and the record \<open>server\<close> extending \<open>net\<close> with the database,
    tokens and history limit.
  \<^item> \<open>Messages\<close> (messages.js) and \<open>Handler\<close> (handler.js): every handler as a
    function \<open>server \<Rightarrow> exn + server\<close>; the events of a run (\<open>event\<close>), the step
    function \<open>step\<close>, and the reachable states \<open>reachable\<close>.
  \<^item> \<open>Sessions\<close>: properties of whole connections over the handler model (the
    authentication gate, register and login, closing and presence, leaving, the
    \<open>system\<close> command, the heartbeat).
  \<^item> \<open>Interleaving\<close>: \<open>auth:register\<close> split at its \<open>await\<close> into
    \<open>register_check\<close> and \<open>register_finish\<close>, shown equal to the atomic handler when run
    back to back, and the schedule in which two registrations interleave.
  \<^item> \<open>Sdk\<close> (src/sdk/index.js): the \<open>AgentChat\<close> object as the record \<open>sdk\<close>,
    its methods and socket listeners, \<open>_dispatch\<close> on the server's \<open>out\<close> frames,
    promises as numbered settlements; its events \<open>sdk_event\<close>, \<open>sdk_step\<close> and
    \<open>sdk_reachable\<close>.
  \<^item> \<open>Client\<close> (client/src/context/ChatContext.jsx, client/src/hooks/useWebSocket.js):
    the reducer, the frame handler, the socket hook and the provider's actions as the
    record \<open>web\<close> with \<open>web_step\<close> and \<open>web_reachable\<close>; the message box of
    \<open>components/MessageInput.jsx\<close> (\<open>handleSubmit\<close>) as the event \<open>Submit\<close>.
  \<^item> \<open>Ui\<close> (client/src/App.jsx, pages, components): routing, panels, header and message
    list as view functions of \<open>chat\<close>; the click and form handlers of the room,
    user and DM lists, the room header, the chat page and the login form as functions over
    \<open>web\<close> built from the provider's actions, dispatched by \<open>ui_step\<close>; the login form and
    the create-room modal with their \<open>required\<close> inputs.
  \<^item> \<open>Integrity\<close>: the schema's key constraints (\<open>db_wf\<close>), the references kept
    outside the database (\<open>refs_ok\<close>), one preservation lemma per handler, the states
    reachable when any number of \<open>auth:register\<close> calls are suspended at their \<open>await\<close>
    (\<open>ireachable\<close>, whose third argument lists the suspended calls), and the exceptions a
    step or a resumed registration can still raise there (\<open>expected_exn\<close>).
  This theory holds the properties that span server and clients and the concrete states
  the witnesses run on. Server and clients meet at the type \<open>out\<close>: a frame the
  server appends to a socket's \<open>outbox\<close> is what the SDK's \<open>dispatch\<close> and the
  web client's \<open>on_frame\<close> receive, and a frame a client sends is a \<open>frame\<close>
  given to the server's \<open>onMessage\<close>.

  \<^bold>\<open>Modelling choices.\<close> Each listener invocation is one atomic step, except
  \<open>auth:register\<close>, which \<open>ireachable\<close> (theory \<open>Integrity\<close>) lets suspend at its
  \<open>await\<close> and resume after any other steps. The other \<open>await\<close>s (bcrypt in login and
  password change, the command executor) are not interleaving points in this model, so the
  ordering properties hold for the schedule in which those handlers run to completion. \<open>uuidv4()\<close> and \<open>Date.now()\<close> are inputs of a step (\<open>env\<close>).
  An exception escaping a handler is \<open>Inl\<close>; it ends the run (the listener's promise
  rejects unhandled). Frame fields are strings or absent; other JSON types in a field are
  not modelled. \<open>toLowerCase\<close> and \<open>trim\<close> are modelled on ASCII. SQLite rowids are
  list positions (no table used for history ever deletes). A socket's \<open>readyState\<close>
  changes only through the heartbeat's \<open>terminate\<close> and the \<open>close\<close> event; a
  message is only received on an open socket.

  \<^bold>\<open>What is proved.\<close> Refused room messages write nothing; accepted ones are saved once
  and delivered once to every member of the room (C1, C2). The registry invariant holds in
  every reachable state (C3), by rule induction over \<open>reachable\<close> with one
  preservation lemma per handler. A join issued by the SDK goes through the server, which
  sends the joiner \<open>room:joined\<close> twice; the SDK resolves the join with one copy and
  reports the other as an event (C4). The history query returns the most recent messages
  in chronological order (C5). Broadcast fan-out (C6), unknown DM recipients (C7),
  disconnect cleanup as a refinement of the room/connection relation (C8). The rooms and
  users named by sockets and tokens exist in every reachable state (C9), and, with
  \<open>auth:register\<close> suspended at its \<open>await\<close> in any interleaving, a step or a resumed
  registration can only raise a bcrypt exception, a unique-key violation on a repeated
  message id, or the \<open>users.username\<close> violation of two registrations of one name (C10).
  A user's message with the metadata \<open>{system: true}\<close> is shown exactly like a
  \<open>/system\<close> broadcast (C11). The SDK loses a promise when a request key is reused (C12),
  resumes a session with the server-issued token after a reconnect (C13), and never settles
  a refused join while its \<open>error\<close> handler receives the error (C14). Closing a connection
  (C15), the authentication gate over any run of frames (C16), register then login (C17),
  the heartbeat (C18), the \<open>system\<close> command sent from outside a room (C19), the crash of a
  password change without the old password (C20), leaving an unjoined room (C21), creating
  an existing room (C22). Presence is per connection, so a user with a second connection is
  reported offline (C23). The web client absorbs the duplicate join (C24), reconnects after
  logout (C25), loses a login sent before its socket opens (C26), and keeps its joined rooms
  duplicate-free (C27). Two registrations of one name that interleave at the \<open>await\<close> end
  in a database exception (C28). A direct message is saved once, delivered to the
  recipient's first open connection and echoed, twice to oneself (C29). Login failures do
  not reveal whether a user exists (C30); the direct-message history is symmetric and equals
  its reference (C31); the user count of \<open>room:list\<close> is bounded by the live connections
  (C32); a slash line typed in a room reaches the server as the command and its arguments
  unchanged (C33); a chosen command stays suggested while its arguments are typed (C34);
  after logout the chat page is unreachable (C35). \<open>HISTORY_LIMIT\<close> reads back the
  integer printed into it, except 0, which falls back to 100 (C36); a negative value
  removes the bound on \<open>room:history\<close> (C37).

  \<^bold>\<open>Bounds and fuel.\<close> Every function is structurally recursive or a fold over a
  finite list, except the decimal printer \<open>nat_to_dec\<close> of the prelude, which recurses on
  \<open>n div 10\<close> and whose termination \<open>fun\<close> proves; no fuel is needed. Every loop of
  the program runs over a finite collection (a \<open>for ... of\<close> over a \<open>Set\<close>, a \<open>Map\<close>
  or an array copied before the loop), so no termination property is stated; the only
  unbounded repetitions are the timers (heartbeat, reconnect), modelled as events. Runs
  are finite event lists (\<open>run\<close>, \<open>sdk_run\<close>, \<open>web_run\<close>) and reachability is
  inductive, so the invariants hold after any number of steps.

  \<^bold>\<open>Not modelled.\<close> The HTTP server and static files of \<open>index.js\<close>, JSON text
  (frames are given parsed), bcrypt's algorithm (an ideal digest), the markup and styling
  of the React components (their handlers and view logic are in \<open>Ui\<close>), scrolling and
  focus effects, and the test suite. Interleavings inside a handler at its
  \<open>await\<close> points are modelled for \<open>auth:register\<close> only (theories \<open>Interleaving\<close>
  and \<open>Integrity\<close>);
  elsewhere each handler is one step.
\<close>

definition alice_row :: user_row where
  "alice_row = \<lparr>user_username = ''alice'', user_password = Bcrypt ''p1'', user_avatar = [], user_about = [],
     user_created_at = 1\<rparr>"

definition bob_row :: user_row where
  "bob_row = \<lparr>user_username = ''bob'', user_password = Bcrypt ''p2'', user_avatar = [], user_about = [],
     user_created_at = 2\<rparr>"

definition carol_row :: user_row where
  "carol_row = \<lparr>user_username = ''carol'', user_password = Bcrypt ''p3'', user_avatar = [], user_about = [],
     user_created_at = 3\<rparr>"

definition general_row :: room_row where
  "general_row = \<lparr>room_name = ''general'', room_description = [], room_metadata = JObj [],
     room_created_by = ''alice'', room_created_at = 4\<rparr>"

definition demo_server :: server where
  \<comment> \<open>alice (connection 1) and bob (2) in \<open>general\<close>; carol (3) authenticated, in no room\<close>
  "demo_server = \<lparr>registry = [(''general'', [1, 2])],
     clients = [(1, new_ws\<lparr>ws_user := Some ''alice'', ws_rooms := [''general'']\<rparr>),
                (2, new_ws\<lparr>ws_user := Some ''bob'', ws_rooms := [''general'']\<rparr>),
                (3, new_ws\<lparr>ws_user := Some ''carol''\<rparr>)],
     db = Db.init\<lparr>users := [alice_row, bob_row, carol_row], rooms := [general_row]\<rparr>,
     tokens = [], history_limit = 100\<rparr>"

definition demo_env :: env where
  "demo_env = \<lparr>now = 10, uuid = ''m1''\<rparr>"

definition send_hi :: frame where
  "send_hi = (empty_frame ''message:send'')\<lparr>f_room := Some ''general'', f_message := Some ''hi''\<rparr>"

definition join_general :: frame where
  "join_general = (empty_frame ''room:join'')\<lparr>f_room := Some ''general''\<rparr>"

definition dm_zed :: frame where
  "dm_zed = (empty_frame ''dm:send'')\<lparr>f_to := Some ''zed'', f_message := Some ''hi''\<rparr>"

definition history_row :: "string \<Rightarrow> int \<Rightarrow> msg_row" where
  "history_row i t = \<lparr>msg_id = i, msg_room = ''general'', msg_sender = ''alice'', msg_message = i,
     msg_metadata = JObj [], msg_timestamp = t\<rparr>"

definition history_db :: database where
  \<comment> \<open>three messages of \<open>general\<close>, inserted out of timestamp order\<close>
  "history_db = Db.init\<lparr>messages := [history_row ''a'' 5, history_row ''b'' 3, history_row ''c'' 5]\<rparr>"

definition carol_ui :: user_info where
  "carol_ui = \<lparr>ui_username = ''carol'', ui_avatar = [], ui_about = []\<rparr>"

definition carol_sdk :: sdk where
  \<comment> \<open>an SDK client logged in as carol, with a \<open>roomJoined\<close> handler\<close>
  "carol_sdk = sdk_run [Connect, Opened, Receive (Some (Auth_success ''t3'' carol_ui)), Call_on ''roomJoined'' 7]
     (AgentChat (Some ''carol'') (Some ''p3'') None None)"

definition resume_server :: server where
  "resume_server = demo_server\<lparr>tokens := [(''t3'', ''carol'')]\<rparr>"

definition demo_env2 :: env where
  "demo_env2 = \<lparr>now = 11, uuid = ''m2''\<rparr>"

definition ping_frame :: frame where
  "ping_frame = empty_frame ''ping''"

definition register_dave :: frame where
  "register_dave = (empty_frame ''auth:register'')\<lparr>f_username := Some ''dave'', f_password := Some ''pw''\<rparr>"

definition login_dave :: frame where
  "login_dave = (empty_frame ''auth:login'')\<lparr>f_username := Some ''dave'', f_password := Some ''pw''\<rparr>"

definition system_hello :: frame where
  "system_hello = (empty_frame ''command:send'')\<lparr>f_room := Some ''general'', f_command := Some ''system'',
     f_args := Some '' hello ''\<rparr>"

definition change_pw_no_old :: frame where
  "change_pw_no_old = (empty_frame ''auth:change_password'')\<lparr>f_newPassword := Some ''p9''\<rparr>"

definition leave_general :: frame where
  "leave_general = (empty_frame ''room:leave'')\<lparr>f_room := Some ''general''\<rparr>"

definition create_general :: frame where
  "create_general = (empty_frame ''room:create'')\<lparr>f_name := Some ''general''\<rparr>"

definition demo2_server :: server where
  \<comment> \<open>alice connected twice (1 and 4), bob (2); all three in \<open>general\<close>\<close>
  "demo2_server = demo_server\<lparr>registry := [(''general'', [1, 2, 4])],
     clients := clients demo_server @ [(4, new_ws\<lparr>ws_user := Some ''alice'', ws_rooms := [''general'']\<rparr>)]\<rparr>"

definition carol_chat :: chat where
  "carol_chat = (initialState None)\<lparr>cs_user := Some carol_ui\<rparr>"

definition dm_self :: frame where
  "dm_self = (empty_frame ''dm:send'')\<lparr>f_to := Some ''alice'', f_message := Some ''note''\<rparr>"

definition login_zed :: frame where
  "login_zed = (empty_frame ''auth:login'')\<lparr>f_username := Some ''zed'', f_password := Some ''x''\<rparr>"

definition general_chat :: chat where
  \<comment> \<open>the client state with \<open>#general\<close> selected and \<open>alice\<close> listed online in it\<close>
  "general_chat = (initialState None)\<lparr>currentRoom := Some ''general'',
     onlineUsers := [(''general'', [\<lparr>oe_username = ''alice'', oe_avatar = None\<rparr>])]\<rparr>"

definition spoof_ev :: message_event where
  \<comment> \<open>a room message from alice whose client-supplied metadata is \<open>{system: true}\<close>\<close>
  "spoof_ev = \<lparr>ev_id = ''m1'', ev_from = ''alice'', ev_room = ''general'', ev_timestamp = 10,
     ev_message = ''server restart'', ev_metadata = JObj [(''system'', JBool True)]\<rparr>"

definition hist_server :: server where
  \<comment> \<open>a server started with \<open>HISTORY_LIMIT=-1\<close> over the three-message history\<close>
  "hist_server = (server_init (config_HISTORY_LIMIT (Some ''-1'')))\<lparr>db := history_db\<rparr>"

definition hist_req :: frame where
  "hist_req = (empty_frame ''room:history'')\<lparr>f_room := Some ''general''\<rparr>"

definition race_s0 :: server where
  \<comment> \<open>a fresh server with two open connections\<close>
  "race_s0 = onConnection 2 (onConnection 1 (server_init 100))"

definition race_s1 :: server where
  \<comment> \<open>connection 1's registration of \<open>dave\<close> resumed after both passed the check\<close>
  "race_s1 = projr (register_finish 1 ''dave'' ''pw'' demo_env race_s0)"

definition dave_server :: server where
  \<comment> \<open>a fresh server after one connection registered \<open>dave\<close>\<close>
  "dave_server = projr (step (onConnection 1 (server_init 100)) demo_env (Message 1 (Some register_dave)))"

definition room_ui :: web where
  \<comment> \<open>the web client with an open socket and \<open>#general\<close> selected\<close>
  "room_ui = (web_init None)\<lparr>w_ws := Some OPEN, w_chat := (initialState None)\<lparr>currentRoom := Some ''general''\<rparr>\<rparr>"

lemmas demo_defs = demo_server_def alice_row_def bob_row_def carol_row_def general_row_def demo_env_def
  send_hi_def join_general_def dm_zed_def empty_frame_def new_ws_def Db.init_def demo_env2_def ping_frame_def
  register_dave_def login_dave_def system_hello_def change_pw_no_old_def leave_general_def create_general_def
  demo2_server_def carol_chat_def carol_ui_def dm_self_def login_zed_def

lemma carol_sdk_reachable: "sdk_reachable carol_sdk"
  unfolding carol_sdk_def by (rule sdk_reachable_run [OF sdk_reachable.init])

lemma carol_sdk_state: "sdk_ws carol_sdk = Some OPEN" "map_of (handlers carol_sdk) ''roomJoined'' = Some 7"
  by (simp_all add: carol_sdk_def sdk_run_def AgentChat_def connect_def on_open_def on_raw_def dispatch_def
    on_handler_def starts_with_def run_callback_def settle_def settle_id_def Let_def)

lemma demo_reg_inv: "reg_inv demo_server"
  by (simp add: demo_defs reg_inv_def members_def socket_members_def insert_commute)

theorem handleSendMessage_not_joined_witness:
  "''general'' \<notin> set (rooms_of demo_server 3) \<and>
   handleSendMessage 3 ''carol'' send_hi demo_env demo_server =
     Inr (reply 3 (System_error ''You have not joined this room'') demo_server)"
  using handleSendMessage_not_joined [of send_hi "''general''" demo_server 3 "''carol''" demo_env]
  by (simp add: demo_defs rooms_of_def)

theorem handleSendMessage_delivers_witness:
  "\<exists>s'. handleSendMessage 1 ''alice'' send_hi demo_env demo_server = Inr s'
     \<and> messages (db s') = [\<lparr>msg_id = ''m1'', msg_room = ''general'', msg_sender = ''alice'',
          msg_message = ''hi'', msg_metadata = JObj [], msg_timestamp = 10\<rparr>]"
proof -
  have h: "f_room send_hi = Some ''general''" "''general'' \<noteq> []" "f_message send_hi = Some ''hi''" "''hi'' \<noteq> []"
    "''general'' \<in> set (rooms_of demo_server 1)" "\<not> msg_id_taken (db demo_server) (uuid demo_env)"
    "room_exists (db demo_server) ''general''" "user_exists (db demo_server) ''alice''"
    by (simp_all add: demo_defs rooms_of_def msg_id_taken_def room_exists_def user_exists_def)
  from handleSendMessage_delivers [OF demo_reg_inv h] obtain s' where
    "handleSendMessage 1 ''alice'' send_hi demo_env demo_server = Inr s'"
    "messages (db s') = messages (db demo_server) @ [\<lparr>msg_id = uuid demo_env, msg_room = ''general'',
       msg_sender = ''alice'', msg_message = ''hi'', msg_metadata = message_meta send_hi,
       msg_timestamp = now demo_env\<rparr>]"
    by blast
  then show ?thesis by (simp add: demo_defs message_meta_def)
qed

theorem reachable_reg_inv_witness: "reg_inv (onConnection 1 (server_init 100))"
proof -
  have "reachable 100 (onConnection 1 (server_init 100))"
    by (rule reachable.step [OF reachable.init, where e = demo_env and ev = "Connection 1"]) simp
  then show ?thesis by (rule reachable_reg_inv)
qed

theorem getMessages_most_recent_witness:
  "getMessages 100 history_db ''general'' 2 = [history_row ''a'' 5, history_row ''c'' 5]
   \<and> length (getMessages 100 history_db ''general'' 2) = min (nat 2) 3"
proof -
  have "length (getMessages 100 history_db ''general'' 2) =
        min (nat 2) (length (filter (\<lambda>m. msg_room m = ''general'') (messages history_db)))"
    using getMessages_most_recent [where d = history_db and room = "''general''" and cfg = 100 and n = 2] by simp
  moreover have "getMessages 100 history_db ''general'' 2 = [history_row ''a'' 5, history_row ''c'' 5]"
    by (simp add: getMessages_def history_db_def history_row_def newest_first_def sql_limit_def Db.init_def)
  ultimately show ?thesis by (simp add: history_db_def history_row_def Db.init_def)
qed

theorem broadcastToRoom_outbox_witness:
  "map_option outbox (map_of (clients (broadcastToRoom ''general'' Pong (Some 1) demo_server)) 2) = Some [Pong]"
proof -
  have c: "map_of (clients demo_server) 2 = Some (new_ws\<lparr>ws_user := Some ''bob'', ws_rooms := [''general'']\<rparr>)"
    by (simp add: demo_defs)
  from broadcastToRoom_outbox [OF demo_reg_inv c, of "''general''" Pong "Some 1"] show ?thesis
    by (simp add: demo_defs conns_of_def)
qed

theorem handleDMSend_unknown_recipient_witness:
  "handleDMSend 1 ''alice'' dm_zed demo_env demo_server = Inr (reply 1 (System_error ''User not found'') demo_server)"
  using handleDMSend_unknown_recipient [of dm_zed "''zed''" demo_server 1 "''alice''" demo_env]
  by (simp add: demo_defs getUser_def)

theorem members_leaveAllRooms_witness:
  "members (snd (leaveAllRooms 1 demo_server)) = {(''general'', 2)}"
proof -
  have m: "members demo_server = {(''general'', 1), (''general'', 2)}"
    by (simp add: demo_defs members_def)
  have "members (snd (leaveAllRooms 1 demo_server)) = {p \<in> members demo_server. snd p \<noteq> 1}"
    by (rule members_leaveAllRooms [OF demo_reg_inv])
  also have "\<dots> = {(''general'', 2)}"
    unfolding m by auto
  finally show ?thesis .
qed

text \<open>C4. End to end, a room join issued by the client SDK: the server puts the connection into the room's live set, records the membership, lists the user online, and writes \<open>room:joined\<close> to the joiner twice; the SDK resolves the join promise with the first copy and passes the second to its \<open>roomJoined\<close> handler, so a client sees its own join as an event.\<close>

theorem join_end_to_end:
  assumes inv: "reg_inv s" and c: "map_of (clients s) c = Some w" "ready w = OPEN" "ws_user w = Some u" "u \<noteq> []"
    and r: "r \<noteq> []" and ex: "getRoom (db s) r \<noteq> None" "user_exists (db s) u"
    and sdk: "sdk_reachable st" "sdk_ws st = Some OPEN" "map_of (handlers st) ''roomJoined'' = Some h"
  shows "\<exists>s' frames. onMessage c (Some (last (sent (snd (join r st))))) e s = Inr s'
     \<and> c \<in> set (conns_of s' r) \<and> u \<in> set (getOnlineUsers r s') \<and> is_member (db s') r u
     \<and> map_option outbox (map_of (clients s') c) = Some (outbox w @ frames)
     \<and> settled (fold dispatch frames (snd (join r st))) = settled st @ [Resolved (fst (join r st)) (Room_joined r u)]
     \<and> handled (fold dispatch frames (snd (join r st))) = handled st @ [(h, Room_joined r u)]"
proof -
  let ?F = "(empty_frame ''room:join'')\<lparr>f_room := Some r\<rparr>"
  have F: "last (sent (snd (join r st))) = ?F"
    using sdk(2) by (simp add: join_def request_def Let_def send_frame_def)
  have cu: "current_user s c = Some u" using c by (simp add: current_user_def)
  have om: "onMessage c (Some ?F) e s = room_join c u ?F e s"
    using cu by (simp add: onMessage_def handleRoom_def starts_with_def empty_frame_def)
  have "\<exists>s'. room_join c u ?F e s = Inr s' \<and> c \<in> set (conns_of s' r) \<and> u \<in> set (getOnlineUsers r s')
      \<and> is_member (db s') r u
      \<and> map_option outbox (map_of (clients s') c) = Some (outbox w @ [Room_joined r u, Room_joined r u])"
    by (rule room_join_effect [OF inv c _ r ex]) simp
  then obtain s' where
    s': "room_join c u ?F e s = Inr s'" "c \<in> set (conns_of s' r)" "u \<in> set (getOnlineUsers r s')" "is_member (db s') r u"
      "map_option outbox (map_of (clients s') c) = Some (outbox w @ [Room_joined r u, Room_joined r u])"
    by blast
  have "settled (fold dispatch [Room_joined r u, Room_joined r u] (snd (join r st))) = settled st @ [Resolved (fst (join r st)) (Room_joined r u)]
      \<and> handled (fold dispatch [Room_joined r u, Room_joined r u] (snd (join r st))) = handled st @ [(h, Room_joined r u)]"
    by (rule join_reply_twice [OF sdk(1) sdk(3)])
  with s' show ?thesis unfolding F om
    by (intro exI [of _ s'] exI [of _ "[Room_joined r u, Room_joined r u]"]) simp
qed

text \<open>C13. Round trip of session resumption: the token from \<open>auth:success\<close> is stored by the SDK and, after a close and the reconnect timer, sent back in \<open>auth:resume\<close>; the server binds the connection to the token's user and replies \<open>auth:success\<close> with the same token.\<close>

theorem resume_after_reconnect:
  fixes st :: sdk and t :: string and ui :: user_info
  assumes sdk: "sdk_reachable st" "sdk_autoReconnect st" "t \<noteq> []"
    and srv: "verifyToken (tokens s) (Some t) = Some u" "getUser (db s) u = Some row"
      "map_of (clients s) c = Some w" "ready w = OPEN"
  defines "st1 \<equiv> dispatch (Auth_success t ui) (snd (connect st))"
  shows "sdk_token st1 = Some t \<and> (\<exists>s'. onMessage c (Some (last (sent (on_open (reconnect_fire (on_close st1)))))) e s = Inr s'
     \<and> current_user s' c = Some u
     \<and> map_option outbox (map_of (clients s') c) = Some (outbox w @ [Auth_success t (user_info_of row)]))"
proof -
  let ?F = "(empty_frame ''auth:resume'')\<lparr>f_token := Some t\<rparr>"
  from reconnect_sends_resume [OF sdk, of ui] have
    tok: "sdk_token st1 = Some t" and F: "last (sent (on_open (reconnect_fire (on_close st1)))) = ?F"
    by (simp_all add: st1_def)
  have u: "u \<noteq> []" using verifyToken_Some_mem [OF srv(1)] by blast
  have "onMessage c (Some ?F) e s = auth_resume c ?F s"
    by (simp add: onMessage_def handleAuth_def starts_with_def empty_frame_def)
  also have "\<dots> = Inr (reply c (Auth_success t (user_info_of row)) (bind_user c u s))"
    using srv(1,2) by (simp add: auth_resume_def empty_frame_def bind_user_def)
  finally have om: "onMessage c (Some ?F) e s = Inr (reply c (Auth_success t (user_info_of row)) (bind_user c u s))" .
  show ?thesis
    using tok F om u srv(3,4) by (simp add: current_user_def map_of_reply bind_user_def deliver_def)
qed

theorem join_end_to_end_witness:
  "\<exists>s' frames. onMessage 3 (Some (last (sent (snd (join ''general'' carol_sdk))))) demo_env demo_server = Inr s'
     \<and> 3 \<in> set (conns_of s' ''general'') \<and> ''carol'' \<in> set (getOnlineUsers ''general'' s')
     \<and> is_member (db s') ''general'' ''carol''
     \<and> map_option outbox (map_of (clients s') 3) = Some ([] @ frames)
     \<and> settled (fold dispatch frames (snd (join ''general'' carol_sdk))) =
          settled carol_sdk @ [Resolved (fst (join ''general'' carol_sdk)) (Room_joined ''general'' ''carol'')]
     \<and> handled (fold dispatch frames (snd (join ''general'' carol_sdk))) = handled carol_sdk @ [(7, Room_joined ''general'' ''carol'')]"
proof -
  have c: "map_of (clients demo_server) 3 = Some (new_ws\<lparr>ws_user := Some ''carol''\<rparr>)"
    by (simp add: demo_defs)
  have h: "ready (new_ws\<lparr>ws_user := Some ''carol''\<rparr>) = OPEN" "ws_user (new_ws\<lparr>ws_user := Some ''carol''\<rparr>) = Some ''carol''"
    "''carol'' \<noteq> []" "''general'' \<noteq> []"
    "getRoom (db demo_server) ''general'' \<noteq> None" "user_exists (db demo_server) ''carol''"
    by (simp_all add: demo_defs getRoom_def user_exists_def)
  from join_end_to_end [OF demo_reg_inv c h carol_sdk_reachable carol_sdk_state, of demo_env] show ?thesis
    by (simp add: new_ws_def)
qed

theorem resume_after_reconnect_witness:
  "sdk_token (dispatch (Auth_success ''t3'' carol_ui) (snd (connect (AgentChat (Some ''carol'') (Some ''p3'') None None)))) = Some ''t3''
   \<and> (\<exists>s'. onMessage 3 (Some (last (sent (on_open (reconnect_fire (on_close
          (dispatch (Auth_success ''t3'' carol_ui) (snd (connect (AgentChat (Some ''carol'') (Some ''p3'') None None)))))))))) demo_env resume_server = Inr s'
     \<and> current_user s' 3 = Some ''carol''
     \<and> map_option outbox (map_of (clients s') 3) = Some ([] @ [Auth_success ''t3'' (user_info_of carol_row)]))"
proof -
  have h: "sdk_autoReconnect (AgentChat (Some ''carol'') (Some ''p3'') None None)" "''t3'' \<noteq> []"
    "verifyToken (tokens resume_server) (Some ''t3'') = Some ''carol''"
    "getUser (db resume_server) ''carol'' = Some carol_row"
    "map_of (clients resume_server) 3 = Some (new_ws\<lparr>ws_user := Some ''carol''\<rparr>)"
    "ready (new_ws\<lparr>ws_user := Some ''carol''\<rparr>) = OPEN"
    by (simp_all add: AgentChat_def resume_server_def demo_defs verifyToken_def getUser_def)
  from resume_after_reconnect [OF sdk_reachable.init h, of carol_ui demo_env] show ?thesis
    by (simp add: new_ws_def)
qed

theorem join_again_orphans_witness:
  "fst (join ''general'' carol_sdk) \<notin> settled_ids (sdk_run [Receive (Some (Room_joined ''general'' ''carol''))]
     (snd (join ''general'' (snd (join ''general'' carol_sdk)))))"
  by (rule join_again_orphans [OF carol_sdk_reachable])

theorem join_error_pending_witness:
  "map_of (pending (dispatch (Room_error ''Room does not exist'') (snd (join ''nowhere'' carol_sdk)))) (''join:'' @ ''nowhere'')
     = Some (Resolve_cb (fst (join ''nowhere'' carol_sdk)))
   \<and> fst (join ''nowhere'' carol_sdk) \<notin> settled_ids (dispatch (Room_error ''Room does not exist'') (snd (join ''nowhere'' carol_sdk)))
   \<and> handled (dispatch (Room_error ''Room does not exist'') (snd (join ''nowhere'' carol_sdk)))
       = handled (snd (join ''nowhere'' carol_sdk))
         @ (case map_of (handlers (snd (join ''nowhere'' carol_sdk))) ''error'' of None \<Rightarrow> [] | Some h \<Rightarrow> [(h, Room_error ''Room does not exist'')])"
  by (rule join_error_pending [OF carol_sdk_reachable])

theorem onClose_presence_witness:
  "\<exists>s'. step demo_server demo_env (Close 1) = Inr s' \<and> map_of (clients s') 1 = None
     \<and> (\<forall>r. 1 \<notin> set (conns_of s' r)) \<and> db s' = db demo_server
     \<and> map_option outbox (map_of (clients s') 2) = Some [Presence_offline ''alice'' ''general'']"
proof -
  have h: "current_user demo_server 1 = Some ''alice''" "(2::nat) \<noteq> 1"
    "map_of (clients demo_server) 2 = Some (new_ws\<lparr>ws_user := Some ''bob'', ws_rooms := [''general'']\<rparr>)"
    by (simp_all add: demo_defs current_user_def)
  from onClose_presence [OF demo_reg_inv h, of demo_env] show ?thesis
    by (simp add: demo_defs rooms_of_def conns_of_def)
qed

theorem unauthenticated_gate_witness:
  "run (onConnection 4 demo_server) [(demo_env, Message 4 (Some ping_frame))] =
     Inr (reply 4 (System_error ''Not authenticated'') (onConnection 4 demo_server))"
proof -
  have h: "current_user (onConnection 4 demo_server) 4 = None" "is_open (onConnection 4 demo_server) 4"
    "\<forall>m \<in> set [ping_frame]. \<exists>t. f_type m = Some t \<and> t \<noteq> [] \<and> \<not> starts_with ''auth:'' t"
    by (simp_all add: demo_defs onConnection_def current_user_def is_open_def starts_with_def)
  from unauthenticated_gate [OF h, of demo_env] show ?thesis by simp
qed

theorem register_then_login_witness:
  "\<exists>s1 s2 row. onMessage 3 (Some register_dave) demo_env demo_server = Inr s1
     \<and> onMessage 2 (Some login_dave) demo_env2 s1 = Inr s2
     \<and> getUser (db s2) ''dave'' = Some row \<and> user_password row = hashPassword ''pw''
     \<and> verifyToken (tokens s2) (Some ''m1'') = Some ''dave'' \<and> verifyToken (tokens s2) (Some ''m2'') = Some ''dave''"
proof -
  have h: "f_type register_dave = Some ''auth:register''" "f_username register_dave = Some ''dave''"
    "f_password register_dave = Some ''pw''" "''dave'' \<noteq> []" "''pw'' \<noteq> []"
    "to_lower ''dave'' \<notin> set RESERVED_USERNAMES" "getUser (db demo_server) ''dave'' = None"
    "f_type login_dave = Some ''auth:login''" "f_username login_dave = Some ''dave''" "f_password login_dave = Some ''pw''"
    by (simp_all add: demo_defs RESERVED_USERNAMES_def to_lower_def lower_char_def getUser_def)
  from register_then_login [OF h, of 3 demo_env 2 demo_env2] show ?thesis by (simp add: demo_defs)
qed

theorem heartbeat_liveness_witness:
  "map_option ready (map_of (clients (heartbeat (heartbeat demo_server))) 1) \<noteq> Some OPEN
   \<and> map_option ready (map_of (clients (heartbeat (onPong 1 (heartbeat demo_server)))) 1) = Some OPEN"
proof -
  have c: "map_of (clients demo_server) 1 = Some (new_ws\<lparr>ws_user := Some ''alice'', ws_rooms := [''general'']\<rparr>)"
    by (simp add: demo_defs)
  from heartbeat_liveness [OF c] show ?thesis by (simp add: new_ws_def)
qed

theorem system_command_from_outside_witness:
  "''general'' \<notin> set (rooms_of demo_server 3) \<and>
   (\<exists>s'. onMessage 3 (Some system_hello) demo_env demo_server = Inr s' \<and> db s' = db demo_server
     \<and> map_option outbox (map_of (clients s') 2) = Some [system_event ''m1'' ''general'' 10 ''hello''])"
proof -
  have h: "current_user demo_server 3 = Some ''carol''" "f_type system_hello = Some ''command:send''"
    "f_command system_hello = Some ''system''" "f_args system_hello = Some '' hello ''"
    "trim '' hello '' \<noteq> []" "f_room system_hello = Some ''general''"
    "(2::nat) \<in> set (conns_of demo_server ''general'')" "(2::nat) \<noteq> 3"
    "map_of (clients demo_server) 2 = Some (new_ws\<lparr>ws_user := Some ''bob'', ws_rooms := [''general'']\<rparr>)"
    "ready (new_ws\<lparr>ws_user := Some ''bob'', ws_rooms := [''general'']\<rparr>) = OPEN"
    by (simp_all add: demo_defs current_user_def conns_of_def trim_def is_js_space_def)
  have t: "trim '' hello '' = ''hello''" by (simp add: trim_def is_js_space_def)
  from system_command_from_outside [OF demo_reg_inv h, of demo_env] show ?thesis
    by (simp add: demo_defs t rooms_of_def)
qed

theorem change_password_missing_old_witness:
  "onMessage 1 (Some change_pw_no_old) demo_env demo_server = Inl (Bcrypt_exn ''data and hash arguments required'')"
proof -
  have h: "current_user demo_server 1 = Some ''alice''" "getUser (db demo_server) ''alice'' = Some alice_row"
    "f_type change_pw_no_old = Some ''auth:change_password''" "f_oldPassword change_pw_no_old = None"
    by (simp_all add: demo_defs current_user_def getUser_def)
  from change_password_missing_old [OF h] show ?thesis .
qed

theorem leave_unjoined_broadcasts_witness:
  "''general'' \<notin> set (rooms_of demo_server 3) \<and>
   (\<exists>s'. room_leave 3 ''carol'' leave_general demo_server = Inr s'
     \<and> map_option outbox (map_of (clients s') 2) = Some [Room_left ''general'' ''carol''])"
proof -
  have h: "f_room leave_general = Some ''general''" "''general'' \<noteq> []" "''general'' \<notin> set (rooms_of demo_server 3)"
    "(2::nat) \<in> set (conns_of demo_server ''general'')"
    "map_of (clients demo_server) 2 = Some (new_ws\<lparr>ws_user := Some ''bob'', ws_rooms := [''general'']\<rparr>)"
    "ready (new_ws\<lparr>ws_user := Some ''bob'', ws_rooms := [''general'']\<rparr>) = OPEN"
    by (simp_all add: demo_defs rooms_of_def conns_of_def)
  from leave_unjoined_broadcasts [OF demo_reg_inv h, of "''carol''"] h(3) show ?thesis by (simp add: new_ws_def)
qed

theorem room_create_existing_witness:
  "room_create 1 ''alice'' create_general demo_env demo_server = Inr (reply 1 (Room_error ''Room already exists'') demo_server)"
proof -
  have h: "f_name create_general = Some ''general''" "''general'' \<noteq> []" "getRoom (db demo_server) ''general'' \<noteq> None"
    by (simp_all add: demo_defs getRoom_def)
  from room_create_existing [OF h] show ?thesis .
qed

text \<open>C23. Presence is per connection, not per user: closing one of a user's two connections in a room leaves the user online there, but the other members are sent \<open>presence:offline\<close> and the web client drops the user from the room's online list.\<close>

theorem presence_offline_while_online:
  assumes inv: "reg_inv s" and u: "current_user s c1 = Some u"
    and other: "c2 \<noteq> c1" "map_of (clients s) c2 = Some w2" "ws_user w2 = Some u" "c2 \<in> set (conns_of s r)"
    and obs: "c3 \<noteq> c1" "map_of (clients s) c3 = Some w3" "ready w3 = OPEN" "c3 \<in> set (conns_of s r)"
    and r: "r \<in> set (rooms_of s c1)"
  shows "u \<in> set (getOnlineUsers r (onClose c1 s))
    \<and> (\<exists>w3'. map_of (clients (onClose c1 s)) c3 = Some w3' \<and> Presence_offline u r \<in> set (outbox w3'))
    \<and> u \<notin> oe_username ` set (lookup_or_nil (onlineUsers (on_frame t (Presence_offline u r) st)) r)"
proof -
  have un: "u \<noteq> []" using u by (simp add: current_user_def split: option.splits if_splits)
  from onClose_effect [OF inv u other(1,2)]
  have c2': "c2 \<in> set (conns_of (onClose c1 s) r)"
    and w2': "map_option ws_user (map_of (clients (onClose c1 s)) c2) = Some (Some u)"
    using other(3,4) by auto
  then have online: "u \<in> set (getOnlineUsers r (onClose c1 s))"
    using un by (auto simp: set_getOnlineUsers)
  from onClose_effect [OF inv u obs(1,2)]
  have "map_of (clients (onClose c1 s)) c3 =
      Some (w3\<lparr>outbox := outbox w3 @ map (Presence_offline u) (filter (\<lambda>r. c3 \<in> set (conns_of s r)) (rooms_of s c1))\<rparr>)"
    using obs(3) by simp
  then have sent: "\<exists>w3'. map_of (clients (onClose c1 s)) c3 = Some w3' \<and> Presence_offline u r \<in> set (outbox w3')"
    using r obs(4) by auto
  have "u \<notin> oe_username ` set (lookup_or_nil (onlineUsers (on_frame t (Presence_offline u r) st)) r)"
    by (auto simp: on_frame_def lookup_or_nil_def update_conv')
  with online sent show ?thesis by blast
qed

lemma demo2_reg_inv: "reg_inv demo2_server"
  by (simp add: demo_defs reg_inv_def members_def socket_members_def insert_commute)

theorem presence_offline_while_online_witness:
  "''alice'' \<in> set (getOnlineUsers ''general'' (onClose 1 demo2_server))
   \<and> (\<exists>w3'. map_of (clients (onClose 1 demo2_server)) 2 = Some w3' \<and> Presence_offline ''alice'' ''general'' \<in> set (outbox w3'))
   \<and> ''alice'' \<notin> oe_username ` set (lookup_or_nil (onlineUsers (on_frame 0 (Presence_offline ''alice'' ''general'') carol_chat)) ''general'')"
proof -
  have h: "current_user demo2_server 1 = Some ''alice''" "(4::nat) \<noteq> 1"
    "map_of (clients demo2_server) 4 = Some (new_ws\<lparr>ws_user := Some ''alice'', ws_rooms := [''general'']\<rparr>)"
    "ws_user (new_ws\<lparr>ws_user := Some ''alice'', ws_rooms := [''general'']\<rparr>) = Some ''alice''"
    "(4::nat) \<in> set (conns_of demo2_server ''general'')" "(2::nat) \<noteq> 1"
    "map_of (clients demo2_server) 2 = Some (new_ws\<lparr>ws_user := Some ''bob'', ws_rooms := [''general'']\<rparr>)"
    "ready (new_ws\<lparr>ws_user := Some ''bob'', ws_rooms := [''general'']\<rparr>) = OPEN"
    "(2::nat) \<in> set (conns_of demo2_server ''general'')" "''general'' \<in> set (rooms_of demo2_server 1)"
    by (simp_all add: demo_defs current_user_def conns_of_def rooms_of_def)
  from presence_offline_while_online [OF demo2_reg_inv h] show ?thesis .
qed

theorem own_join_idempotent_witness:
  "on_frame 2 (Room_joined ''general'' ''carol'') (on_frame 1 (Room_joined ''general'' ''carol'') carol_chat) =
     on_frame 1 (Room_joined ''general'' ''carol'') carol_chat
   \<and> ''general'' \<in> set (joinedRooms (on_frame 1 (Room_joined ''general'' ''carol'') carol_chat))
   \<and> ''carol'' \<in> oe_username ` set (lookup_or_nil (onlineUsers (on_frame 1 (Room_joined ''general'' ''carol'') carol_chat)) ''general'')"
proof -
  have "own carol_chat ''carol''" by (simp add: own_def demo_defs)
  from own_join_idempotent [OF this] show ?thesis .
qed

theorem logout_reconnects_witness:
  "stored_token (web_run [Logout, Ws_close, Reconnect_timer] ((web_init (Some ''t3''))\<lparr>w_ws := Some OPEN\<rparr>)) = None
   \<and> w_ws (web_run [Logout, Ws_close, Reconnect_timer] ((web_init (Some ''t3''))\<lparr>w_ws := Some OPEN\<rparr>)) = Some CONNECTING"
  by (rule logout_reconnects) simp

theorem login_lost_before_open_witness:
  "w_sent (web_run [Auth_tick, Ws_message 5 Pong] (web_run [Login ''carol'' ''p3'', Auth_tick, Ws_open] (web_init None)))
     = w_sent (web_init None)
   \<and> w_connected (web_run [Login ''carol'' ''p3'', Auth_tick, Ws_open] (web_init None))"
  by (rule login_lost_before_open) (simp_all add: web_init_def idle_event_def)

theorem web_joined_distinct_witness:
  "distinct (joinedRooms (w_chat (web_run [Mount, Ws_open, Auth_tick, Ws_message 1 (Auth_success ''t3'' carol_ui),
     Ws_message 2 (Room_joined ''general'' ''carol''), Ws_message 3 (Room_joined ''general'' ''carol'')]
     (web_init (Some ''t3'')))))"
  by (rule web_joined_distinct [OF web_reachable_run [OF web_reachable.init]])

theorem room_list_userCount_witness:
  "list_all (\<lambda>x. rs_userCount x \<le> length (conns_of demo_server (rs_name x))) (room_list demo_server)"
  by (rule room_list_userCount)

theorem login_failures_indistinguishable_witness:
  "onMessage 3 (Some login_zed) demo_env demo_server = Inr (reply 3 (Auth_error ''Invalid credentials'') demo_server)"
proof -
  have h: "f_type login_zed = Some ''auth:login''" "f_username login_zed = Some ''zed''" "f_password login_zed = Some ''x''"
    "''zed'' \<noteq> []" "''x'' \<noteq> []"
    "getUser (db demo_server) ''zed'' = None \<or>
       (\<exists>row. getUser (db demo_server) ''zed'' = Some row \<and> \<not> verifyPassword ''x'' (user_password row))"
    by (simp_all add: demo_defs getUser_def)
  from login_failures_indistinguishable [OF h] show ?thesis .
qed

theorem getDMs_symmetric_recent_witness:
  "getDMs 100 Db.init ''alice'' ''bob'' 5 = getDMs 100 Db.init ''bob'' ''alice'' 5
   \<and> getDMs 100 Db.init ''alice'' ''bob'' 5 =
       last_n (int_or (Some 5) 100) (chronological dm_timestamp (filter (between ''alice'' ''bob'') (direct_messages Db.init)))"
  by (rule getDMs_symmetric_recent)

theorem handleDMSend_delivers_witness:
  "\<exists>s'. handleDMSend 1 ''alice'' dm_self demo_env demo_server = Inr s'
     \<and> direct_messages (db s') = [\<lparr>dm_id = ''m1'', dm_sender = ''alice'', dm_recipient = ''alice'',
          dm_message = ''note'', dm_metadata = JObj [], dm_timestamp = 10\<rparr>]
     \<and> map_option outbox (map_of (clients s') 1) =
          Some [Dm_new \<lparr>de_id = ''m1'', de_from = ''alice'', de_to = ''alice'', de_timestamp = 10, de_message = ''note'',
                  de_metadata = JObj []\<rparr>,
                Dm_new \<lparr>de_id = ''m1'', de_from = ''alice'', de_to = ''alice'', de_timestamp = 10, de_message = ''note'',
                  de_metadata = JObj []\<rparr>]"
proof -
  have h: "f_to dm_self = Some ''alice''" "''alice'' \<noteq> []" "f_message dm_self = Some ''note''" "''note'' \<noteq> []"
    "getUser (db demo_server) ''alice'' \<noteq> None" "\<not> dm_id_taken (db demo_server) (uuid demo_env)"
    "user_exists (db demo_server) ''alice''"
    "map_of (clients demo_server) 1 = Some (new_ws\<lparr>ws_user := Some ''alice'', ws_rooms := [''general'']\<rparr>)"
    "ready (new_ws\<lparr>ws_user := Some ''alice'', ws_rooms := [''general'']\<rparr>) = OPEN"
    by (simp_all add: demo_defs getUser_def dm_id_taken_def user_exists_def)
  have f: "findUserWs ''alice'' demo_server = Some 1" by (simp add: demo_defs findUserWs_def)
  have e: "message_meta dm_self = JObj []" "direct_messages (db demo_server) = []"
    "outbox (new_ws\<lparr>ws_user := Some ''alice'', ws_rooms := [''general'']\<rparr>) = []"
    by (simp_all add: demo_defs message_meta_def)
  from handleDMSend_delivers [OF demo_reg_inv h] show ?thesis
    by (simp add: f e demo_env_def)
qed

theorem register_race_witness:
  "\<exists>s1. register_finish 3 ''dave'' ''pw'' demo_env demo_server = Inr s1
     \<and> register_finish 4 ''dave'' ''pw'' demo_env2 s1 = Inl (Sql_exn (Unique_violation ''users.username''))
     \<and> register_check 4 register_dave s1 = Inl (auth_error 4 ''Username already taken'' s1)"
proof -
  have h: "register_check 3 register_dave demo_server = Inr (''dave'', ''pw'')"
    "register_check 4 register_dave demo_server = Inr (''dave'', ''pw'')"
    by (simp_all add: register_check_def demo_defs RESERVED_USERNAMES_def to_lower_def lower_char_def getUser_def)
  from register_race [OF h] show ?thesis .
qed

theorem submit_command_roundtrip_witness:
  "w_sent (handleSubmit (''/'' @ ''roll'' @ '' '' @ ''2 d6'') room_ui) =
    w_sent room_ui @ [(empty_frame ''command:send'')\<lparr>f_room := Some ''general'', f_command := Some ''roll'', f_args := Some ''2 d6''\<rparr>]"
proof -
  have h: "currentRoom (w_chat room_ui) = Some ''general''" "''general'' \<noteq> []" "w_ws room_ui = Some OPEN"
    "CHR '' '' \<notin> set ''roll''" "trim (''/'' @ ''roll'' @ '' '' @ ''2 d6'') = ''/'' @ ''roll'' @ '' '' @ ''2 d6''"
    by (simp_all add: room_ui_def web_init_def trim_def is_js_space_def)
  from submit_command_roundtrip [OF h] show ?thesis .
qed

lemma dave_server_step:
  "step (onConnection 1 (server_init 100)) demo_env (Message 1 (Some register_dave)) = Inr dave_server"
  by (simp add: dave_server_def demo_defs is_open_def onConnection_def server_init_def onMessage_def
      handleAuth_def auth_register_def starts_with_def RESERVED_USERNAMES_def to_lower_def lower_char_def
      getUser_def createUser_def user_exists_def createToken_def Let_def)

lemma dave_server_reachable: "reachable 100 dave_server"
proof -
  have "reachable 100 (onConnection 1 (server_init 100))"
    using reachable.step [OF reachable.init, where e = demo_env and ev = "Connection 1"] by simp
  then show ?thesis using reachable.step dave_server_step by blast
qed

theorem reachable_refs_ok_witness: "refs_ok dave_server"
  using reachable_refs_ok [OF dave_server_reachable] .

theorem roomList_click_frames_witness:
  "w_sent (roomList_click ''random'' room_ui) =
     [frame_to ''room:join'' ''random'', frame_to ''room:history'' ''random'', frame_to ''room:users'' ''random'']
   \<and> currentRoom (w_chat (roomList_click ''random'' room_ui)) = Some ''random''"
proof -
  have "w_ws room_ui = Some OPEN" by (simp add: room_ui_def web_init_def)
  from roomList_click_frames [OF this, of "''random''"] show ?thesis
    by (simp add: room_ui_def web_init_def initialState_def)
qed

theorem command_completion_witness:
  "(''roll'', ''dice'') \<in> set (filteredCommands [(''help'', ''list commands''), (''roll'', ''dice'')]
      (in_text (handleCommandClick ''roll'') @ ''2d6''))"
  by (rule command_completion) simp_all

theorem header_count_consistent_witness:
  "roomHeader general_chat = Room_header ''general'' None 1
   \<and> currentRoom general_chat = Some ''general'' \<and> 1 = length (userList_users general_chat)"
proof -
  have h: "roomHeader general_chat = Room_header ''general'' None 1"
    by (simp add: roomHeader_def general_chat_def initialState_def lookup_or_nil_def)
  from h header_count_consistent [OF h] show ?thesis by simp
qed

theorem system_line_spoofing_witness:
  "messageList (on_frame 5 (Message_new spoof_ev) general_chat) = Some [System_line False ''server restart'']
   \<and> messageList (on_frame 5 (Message_new spoof_ev) general_chat)
       = messageList (on_frame 5 (system_event ''m2'' ''general'' 11 ''server restart'') general_chat)"
proof
  show "messageList (on_frame 5 (Message_new spoof_ev) general_chat) = Some [System_line False ''server restart'']"
    by (simp add: spoof_ev_def general_chat_def initialState_def on_frame_def messageList_def lookup_or_nil_def
        message_view_def prop_truthy_def json_prop_def)
  have "ev_metadata spoof_ev = JObj [(''system'', JBool True)]" by (simp add: spoof_ev_def)
  from system_line_spoofing [OF this, of 5 general_chat "''m2''" 11]
  show "messageList (on_frame 5 (Message_new spoof_ev) general_chat)
       = messageList (on_frame 5 (system_event ''m2'' ''general'' 11 ''server restart'') general_chat)"
    by (simp add: spoof_ev_def)
qed

theorem config_HISTORY_LIMIT_roundtrip_witness:
  "config_HISTORY_LIMIT (Some ('' '' @ int_to_dec (-5) @ ''x'')) = -5
   \<and> config_HISTORY_LIMIT (Some ([] @ int_to_dec 0 @ [])) = 100"
proof
  have "list_all is_js_space '' ''" "''x'' = [] \<or> \<not> is_digit (hd ''x'')"
    by (simp_all add: is_js_space_def is_digit_def)
  from config_HISTORY_LIMIT_roundtrip [OF this, of "-5"]
  show "config_HISTORY_LIMIT (Some ('' '' @ int_to_dec (-5) @ ''x'')) = -5" by simp
  have "list_all is_js_space []" "([]::string) = [] \<or> \<not> is_digit (hd [])" by simp_all
  from config_HISTORY_LIMIT_roundtrip [OF this, of 0]
  show "config_HISTORY_LIMIT (Some ([] @ int_to_dec 0 @ [])) = 100" by simp
qed

theorem negative_history_limit_witness:
  "room_history 1 hist_req hist_server =
     Inr (reply 1 (Room_history ''general'' [history_row ''b'' 3, history_row ''a'' 5, history_row ''c'' 5]) hist_server)"
proof -
  have h: "history_limit hist_server = config_HISTORY_LIMIT (Some ''-1'')" "parseInt10 ''-1'' = Some (-1)"
    "(-1::int) < 0" "f_room hist_req = Some ''general''" "''general'' \<noteq> []" "f_limit hist_req = None"
    by (simp_all add: hist_server_def server_init_def hist_req_def empty_frame_def parseInt10_def
        is_js_space_def is_digit_def dec_value_def)
  have "chronological msg_timestamp (filter (\<lambda>m. msg_room m = ''general'') (messages (db hist_server)))
      = [history_row ''b'' 3, history_row ''a'' 5, history_row ''c'' 5]"
    by (simp add: hist_server_def history_db_def history_row_def chronological_def Db.init_def)
  with negative_history_limit [OF h] show ?thesis by simp
qed

lemma race_ireachable: "ireachable 100 race_s1 [(2, ''dave'', ''pw'')]"
proof -
  have chk: "register_check c register_dave race_s0 = Inr (''dave'', ''pw'')" for c
    by (simp add: register_check_def demo_defs RESERVED_USERNAMES_def to_lower_def lower_char_def getUser_def
        race_s0_def onConnection_def server_init_def)
  have op: "is_open race_s0 1" "is_open race_s0 2" "f_type register_dave = Some ''auth:register''"
    by (simp_all add: is_open_def race_s0_def onConnection_def server_init_def demo_defs)
  have "ireachable 100 (onConnection 1 (server_init 100)) []"
    using ireachable.step [OF ireachable.init, where e = demo_env and ev = "Connection 1"] by simp
  then have "ireachable 100 race_s0 []"
    using ireachable.step [where e = demo_env and ev = "Connection 2"] by (simp add: race_s0_def)
  then have r0: "ireachable 100 race_s0 [(1, ''dave'', ''pw''), (2, ''dave'', ''pw'')]"
    using ireachable.suspend [OF _ op(1) op(3) chk] ireachable.suspend [OF _ op(2) op(3) chk] by fastforce
  have fin: "register_finish 1 ''dave'' ''pw'' demo_env race_s0 = Inr race_s1"
    by (simp add: race_s1_def register_finish_def race_s0_def onConnection_def server_init_def demo_defs
        createUser_def user_exists_def createToken_def Let_def getUser_def)
  have "ireachable 100 race_s1 (remove1 (1, ''dave'', ''pw'') [(1, ''dave'', ''pw''), (2, ''dave'', ''pw'')])"
    by (rule ireachable.resume [OF r0 _ fin]) simp
  then show ?thesis by simp
qed

theorem interleaved_step_exn_witness:
  "register_finish 2 ''dave'' ''pw'' demo_env2 race_s1 = Inl (Sql_exn (Unique_violation ''users.username''))
   \<and> expected_exn (Sql_exn (Unique_violation ''users.username''))"
proof
  show fin: "register_finish 2 ''dave'' ''pw'' demo_env2 race_s1 = Inl (Sql_exn (Unique_violation ''users.username''))"
    by (simp add: race_s1_def register_finish_def race_s0_def onConnection_def server_init_def demo_defs
        createUser_def user_exists_def createToken_def Let_def getUser_def)
  show "expected_exn (Sql_exn (Unique_violation ''users.username''))"
    using interleaved_step_exn [OF race_ireachable, of "demo_env2"] fin by auto
qed

end
